theory Spec2Isabelle
  imports Main "HOL-Library.Word" "HOL-Library.Multiset"
begin

unbundle bit_operations_syntax

section \<open>Redis Sentinel (sentinel.c): data model\<close>

text \<open>
  The embedding follows \<^verbatim>\<open>src/sentinel.c\<close> function by function and keeps its names.

  \<^item> \<^verbatim>\<open>mstime_t\<close> (\<^verbatim>\<open>long long\<close> milliseconds) is \<open>int\<close>: the values are wall-clock
    readings and configured periods, far from \<open>2^63\<close>.
  \<^item> \<^verbatim>\<open>uint64_t\<close> epochs are \<open>64 word\<close>, so \<^verbatim>\<open>++sentinel.current_epoch\<close> wraps as in C.
  \<^item> \<^verbatim>\<open>int flags\<close> is a \<open>32 word\<close> used only through \<open>AND\<close>, \<open>OR\<close>, \<open>NOT\<close>.
  \<^item> A \<^verbatim>\<open>dict\<close> is an association list; the list order stands for the iteration order of
    the hash table.
  \<^item> \<^verbatim>\<open>char *\<close> that may be \<^verbatim>\<open>NULL\<close> is \<open>string option\<close>; C strings hold no NUL byte.
  \<^item> \<^verbatim>\<open>mstime()\<close> is the field \<open>now\<close> of the environment: one clock reading for each run
    of a handler.
  \<^item> The results of calls into hiredis, libc and the kernel are fields of the environment.
\<close>

type_synonym mstime_t = int

record sentinelAddr =
  ip :: string
  port :: int

text \<open>
  \<^verbatim>\<open>struct sentinelRedisInstance\<close>. The links \<^verbatim>\<open>cc\<close> and \<^verbatim>\<open>pc\<close> are \<open>True\<close> when the
  pointer is not \<^verbatim>\<open>NULL\<close>. The dictionaries \<^verbatim>\<open>sentinels\<close> and \<^verbatim>\<open>slaves\<close> are filled for
  masters only: a master is the record \<open>master\<close> of its own fields (\<open>self\<close>) and the two
  dictionaries. The back pointer \<^verbatim>\<open>master\<close> of a slave or sentinel is the master record
  that holds it, and \<^verbatim>\<open>promoted_slave\<close> is the key of the promoted slave in \<^verbatim>\<open>slaves\<close>.
\<close>

record sentinelRedisInstance =
  flags :: "32 word"
  name :: string
  runid :: "string option"
  config_epoch :: "64 word"
  addr :: sentinelAddr
  cc :: bool
  pc :: bool
  pending_commands :: int
  cc_conn_time :: mstime_t
  pc_conn_time :: mstime_t
  pc_last_activity :: mstime_t
  last_avail_time :: mstime_t
  last_pong_time :: mstime_t
  last_pub_time :: mstime_t
  last_hello_time :: mstime_t
  last_master_down_reply_time :: mstime_t
  s_down_since_time :: mstime_t
  o_down_since_time :: mstime_t
  down_after_period :: mstime_t
  info_refresh :: mstime_t
  role_reported :: "32 word"
  role_reported_time :: mstime_t
  slave_conf_change_time :: mstime_t
  quorum :: int
  parallel_syncs :: int
  auth_pass :: "string option"
  master_link_down_time :: mstime_t
  slave_priority :: int
  slave_reconf_sent_time :: mstime_t
  slave_master_host :: "string option"
  slave_master_port :: int
  slave_master_link_status :: int
  leader :: "string option"
  leader_epoch :: "64 word"
  failover_epoch :: "64 word"
  failover_state :: int
  failover_state_change_time :: mstime_t
  failover_start_time :: mstime_t
  failover_timeout :: mstime_t
  promoted_slave :: "string option"
  notification_script :: "string option"
  client_reconfig_script :: "string option"

type_synonym instances = "(string \<times> sentinelRedisInstance) list"

record master =
  self :: sentinelRedisInstance
  sentinels :: instances
  slaves :: instances

text \<open>A pointer \<^verbatim>\<open>ri\<close> into the tree of one master: the master itself, one of its slaves
  or one of its sentinels, by key.\<close>

datatype iref = RMaster | RSlave string | RSentinel string

datatype link = CC | PC

record sentinelScriptJob =
  sj_flags :: "32 word"
  retry_num :: int
  argv :: "string list"
  start_time :: mstime_t
  pid :: int

datatype loglevel = REDIS_DEBUG | REDIS_VERBOSE | REDIS_NOTICE | REDIS_WARNING

text \<open>\<^verbatim>\<open>redisReply\<close> of hiredis.\<close>

datatype redisReply =
    REDIS_REPLY_STRING string
  | REDIS_REPLY_ARRAY "redisReply list"
  | REDIS_REPLY_INTEGER int
  | REDIS_REPLY_NIL
  | REDIS_REPLY_STATUS string
  | REDIS_REPLY_ERROR string

text \<open>What one call of \<^verbatim>\<open>sentinelEvent\<close> logs and publishes.\<close>

record event =
  ev_level :: loglevel
  ev_type :: string
  ev_msg :: string

text \<open>
  \<^verbatim>\<open>struct sentinelState\<close>, with two fields that record what leaves the process:
  \<open>events\<close>, every call of \<^verbatim>\<open>sentinelEvent\<close> in order, and \<open>crashed\<close>, set where the
  C code dereferences \<^verbatim>\<open>NULL\<close> or fails a \<^verbatim>\<open>redisAssert\<close>.
\<close>

record sentinelState =
  current_epoch :: "64 word"
  masters :: "(string \<times> master) list"
  tilt :: bool
  running_scripts :: int
  tilt_start_time :: mstime_t
  previous_time :: mstime_t
  scripts_queue :: "sentinelScriptJob list"
  events :: "event list"
  crashed :: bool

text \<open>The outside world during one run of a handler.\<close>

record env =
  now :: mstime_t
  server_runid :: string
  server_port :: int
  rand_value :: nat
  anetResolve :: "string \<Rightarrow> string option"
  redisAsyncConnect_err :: "string \<Rightarrow> link \<Rightarrow> bool"
  redisAsyncCommand_ok :: "string \<Rightarrow> link \<Rightarrow> string \<Rightarrow> bool"
  redisAsyncConnect_errstr :: string
  anetSockName :: "string \<Rightarrow> string option"
  fork_result :: "string list \<Rightarrow> int"
  atoi :: "string \<Rightarrow> int"
  strtoll :: "string \<Rightarrow> int"
  strtoull :: "string \<Rightarrow> 64 word"

subsection \<open>Constants\<close>

definition SRI_MASTER :: "32 word" where [simp]: "SRI_MASTER = 1"
definition SRI_SLAVE :: "32 word" where [simp]: "SRI_SLAVE = 2"
definition SRI_SENTINEL :: "32 word" where [simp]: "SRI_SENTINEL = 4"
definition SRI_DISCONNECTED :: "32 word" where [simp]: "SRI_DISCONNECTED = 8"
definition SRI_S_DOWN :: "32 word" where [simp]: "SRI_S_DOWN = 16"
definition SRI_O_DOWN :: "32 word" where [simp]: "SRI_O_DOWN = 32"
definition SRI_MASTER_DOWN :: "32 word" where [simp]: "SRI_MASTER_DOWN = 64"
definition SRI_CAN_FAILOVER :: "32 word" where [simp]: "SRI_CAN_FAILOVER = 128"
definition SRI_FAILOVER_IN_PROGRESS :: "32 word" where [simp]: "SRI_FAILOVER_IN_PROGRESS = 256"
definition SRI_PROMOTED :: "32 word" where [simp]: "SRI_PROMOTED = 512"
definition SRI_RECONF_SENT :: "32 word" where [simp]: "SRI_RECONF_SENT = 1024"
definition SRI_RECONF_INPROG :: "32 word" where [simp]: "SRI_RECONF_INPROG = 2048"
definition SRI_RECONF_DONE :: "32 word" where [simp]: "SRI_RECONF_DONE = 4096"
definition SRI_FORCE_FAILOVER :: "32 word" where [simp]: "SRI_FORCE_FAILOVER = 8192"
definition SRI_SCRIPT_KILL_SENT :: "32 word" where [simp]: "SRI_SCRIPT_KILL_SENT = 16384"

definition SENTINEL_INFO_PERIOD :: int where [simp]: "SENTINEL_INFO_PERIOD = 10000"
definition SENTINEL_PING_PERIOD :: int where [simp]: "SENTINEL_PING_PERIOD = 1000"
definition SENTINEL_ASK_PERIOD :: int where [simp]: "SENTINEL_ASK_PERIOD = 1000"
definition SENTINEL_PUBLISH_PERIOD :: int where [simp]: "SENTINEL_PUBLISH_PERIOD = 2000"
definition SENTINEL_DOWN_AFTER_PERIOD :: int where [simp]: "SENTINEL_DOWN_AFTER_PERIOD = 30000"
definition SENTINEL_TILT_TRIGGER :: int where [simp]: "SENTINEL_TILT_TRIGGER = 2000"
definition SENTINEL_TILT_PERIOD :: int where [simp]: "SENTINEL_TILT_PERIOD = SENTINEL_PING_PERIOD * 30"
definition SENTINEL_DEFAULT_SLAVE_PRIORITY :: int where [simp]: "SENTINEL_DEFAULT_SLAVE_PRIORITY = 100"
definition SENTINEL_SLAVE_RECONF_RETRY_PERIOD :: int where [simp]: "SENTINEL_SLAVE_RECONF_RETRY_PERIOD = 10000"
definition SENTINEL_DEFAULT_PARALLEL_SYNCS :: int where [simp]: "SENTINEL_DEFAULT_PARALLEL_SYNCS = 1"
definition SENTINEL_MIN_LINK_RECONNECT_PERIOD :: int where [simp]: "SENTINEL_MIN_LINK_RECONNECT_PERIOD = 15000"
definition SENTINEL_DEFAULT_FAILOVER_TIMEOUT :: int where [simp]: "SENTINEL_DEFAULT_FAILOVER_TIMEOUT = 60 * 3 * 1000"
definition SENTINEL_MAX_PENDING_COMMANDS :: int where [simp]: "SENTINEL_MAX_PENDING_COMMANDS = 100"
definition SENTINEL_ELECTION_TIMEOUT :: int where [simp]: "SENTINEL_ELECTION_TIMEOUT = 10000"
definition SENTINEL_INFO_VALIDITY_TIME :: int where [simp]: "SENTINEL_INFO_VALIDITY_TIME = 5000"

definition SENTINEL_FAILOVER_STATE_NONE :: int where [simp]: "SENTINEL_FAILOVER_STATE_NONE = 0"
definition SENTINEL_FAILOVER_STATE_WAIT_START :: int where [simp]: "SENTINEL_FAILOVER_STATE_WAIT_START = 1"
definition SENTINEL_FAILOVER_STATE_SELECT_SLAVE :: int where [simp]: "SENTINEL_FAILOVER_STATE_SELECT_SLAVE = 2"
definition SENTINEL_FAILOVER_STATE_SEND_SLAVEOF_NOONE :: int where [simp]: "SENTINEL_FAILOVER_STATE_SEND_SLAVEOF_NOONE = 3"
definition SENTINEL_FAILOVER_STATE_WAIT_PROMOTION :: int where [simp]: "SENTINEL_FAILOVER_STATE_WAIT_PROMOTION = 4"
definition SENTINEL_FAILOVER_STATE_RECONF_SLAVES :: int where [simp]: "SENTINEL_FAILOVER_STATE_RECONF_SLAVES = 5"
definition SENTINEL_FAILOVER_STATE_UPDATE_CONFIG :: int where [simp]: "SENTINEL_FAILOVER_STATE_UPDATE_CONFIG = 9"

definition SENTINEL_MASTER_LINK_STATUS_UP :: int where [simp]: "SENTINEL_MASTER_LINK_STATUS_UP = 0"
definition SENTINEL_MASTER_LINK_STATUS_DOWN :: int where [simp]: "SENTINEL_MASTER_LINK_STATUS_DOWN = 1"

text \<open>The size of a log message, \<^verbatim>\<open>#define REDIS_MAX_LOGMSG_LEN 1024\<close> in redis.h.\<close>

definition REDIS_MAX_LOGMSG_LEN :: nat where [simp]: "REDIS_MAX_LOGMSG_LEN = 1024"

definition SENTINEL_SCRIPT_RUNNING :: "32 word" where [simp]: "SENTINEL_SCRIPT_RUNNING = 1"
definition SENTINEL_SCRIPT_MAX_QUEUE :: nat where [simp]: "SENTINEL_SCRIPT_MAX_QUEUE = 256"
definition SENTINEL_SCRIPT_MAX_RUNNING :: int where [simp]: "SENTINEL_SCRIPT_MAX_RUNNING = 16"
definition SENTINEL_SCRIPT_MAX_RUNTIME :: int where [simp]: "SENTINEL_SCRIPT_MAX_RUNTIME = 60000"
definition SENTINEL_SCRIPT_MAX_RETRY :: int where [simp]: "SENTINEL_SCRIPT_MAX_RETRY = 10"
definition SENTINEL_SCRIPT_RETRY_DELAY :: int where [simp]: "SENTINEL_SCRIPT_RETRY_DELAY = 30000"
definition SENTINEL_SCRIPT_MAX_ARGS :: nat where [simp]: "SENTINEL_SCRIPT_MAX_ARGS = 16"

subsection \<open>C arithmetic\<close>

text \<open>The value that an \<^verbatim>\<open>int\<close> (32 bits) or a \<^verbatim>\<open>long long\<close> (64 bits, the type \<^verbatim>\<open>mstime_t\<close>)
  holds when the mathematical result of an operation is \<open>x\<close>: the two's complement
  wrap-around of the machines that run Redis.\<close>

definition c_int :: "int \<Rightarrow> int" where
  "c_int x = sint (word_of_int x :: 32 word)"

definition c_long_long :: "int \<Rightarrow> int" where
  "c_long_long x = sint (word_of_int x :: 64 word)"

subsection \<open>Strings and dictionaries\<close>

text \<open>\<^verbatim>\<open>ll2string\<close>: the decimal digits of a number.\<close>

fun dec_digits :: "nat \<Rightarrow> string" where
  "dec_digits n =
     (if n < 10 then [''0123456789'' ! n]
      else dec_digits (n div 10) @ [''0123456789'' ! (n mod 10)])"

declare dec_digits.simps [simp del]

definition ll2string :: "int \<Rightarrow> string" where
  "ll2string i = (if i < 0 then CHR ''-'' # dec_digits (nat (- i)) else dec_digits (nat i))"

text \<open>\<^verbatim>\<open>strcasecmp\<close> of libc: the difference of the first two bytes that differ after
  \<^verbatim>\<open>tolower\<close>, the end of a string counting as byte 0. A C string ends at its first NUL
  byte (\<open>cstr\<close>).\<close>

definition tolower_c :: "char \<Rightarrow> nat" where
  "tolower_c c = (let n = of_char c in if 65 \<le> n \<and> n \<le> 90 then n + 32 else n)"

definition cstr :: "string \<Rightarrow> string" where
  "cstr s = takeWhile (\<lambda>c. of_char c \<noteq> (0::nat)) s"

fun strcasecmp_bytes :: "string \<Rightarrow> string \<Rightarrow> int" where
  "strcasecmp_bytes [] [] = 0"
| "strcasecmp_bytes [] (b # bs) = - int (tolower_c b)"
| "strcasecmp_bytes (a # as) [] = int (tolower_c a)"
| "strcasecmp_bytes (a # as) (b # bs) =
     (if tolower_c a = tolower_c b then strcasecmp_bytes as bs
      else int (tolower_c a) - int (tolower_c b))"

definition strcasecmp :: "string \<Rightarrow> string \<Rightarrow> int" where
  "strcasecmp a b = strcasecmp_bytes (cstr a) (cstr b)"

text \<open>The operations of \<^verbatim>\<open>dict.c\<close> that sentinel.c uses, on association lists.
  \<open>dictSetVal\<close> stands for a write through the pointer that \<^verbatim>\<open>dictFetchValue\<close> returned: it
  replaces the value of the entry that the lookup finds.\<close>

definition dictFetchValue :: "(string \<times> 'v) list \<Rightarrow> string \<Rightarrow> 'v option" where
  "dictFetchValue d k = map_of d k"

definition dictAdd :: "(string \<times> 'v) list \<Rightarrow> string \<Rightarrow> 'v \<Rightarrow> (string \<times> 'v) list" where
  "dictAdd d k v = (if map_of d k = None then d @ [(k, v)] else d)"

definition dictDelete :: "(string \<times> 'v) list \<Rightarrow> string \<Rightarrow> (string \<times> 'v) list" where
  "dictDelete d k = filter (\<lambda>kv. fst kv \<noteq> k) d"

fun dictSetVal :: "(string \<times> 'v) list \<Rightarrow> string \<Rightarrow> 'v \<Rightarrow> (string \<times> 'v) list" where
  "dictSetVal [] k v = []"
| "dictSetVal (kv # d) k v = (if fst kv = k then (k, v) # d else kv # dictSetVal d k v)"

subsection \<open>Addresses\<close>

datatype errno = EINVAL | ENOENT | EBUSY

definition createSentinelAddr :: "env \<Rightarrow> string \<Rightarrow> int \<Rightarrow> errno + sentinelAddr" where
  "createSentinelAddr e hostname p =
     (if p \<le> 0 \<or> p > 65535 then Inl EINVAL
      else case anetResolve e hostname of
             None \<Rightarrow> Inl ENOENT
           | Some buf \<Rightarrow> Inr \<lparr>ip = buf, port = p\<rparr>)"

definition sentinelAddrIsEqual :: "sentinelAddr \<Rightarrow> sentinelAddr \<Rightarrow> bool" where
  "sentinelAddrIsEqual a b \<longleftrightarrow> port a = port b \<and> strcasecmp (ip a) (ip b) = 0"

subsection \<open>Events and the script queue\<close>

definition sentinelScheduleScriptExecution :: "string \<Rightarrow> string list \<Rightarrow> sentinelState \<Rightarrow> sentinelState" where
  "sentinelScheduleScriptExecution path args st =
     (let sj = \<lparr>sj_flags = 0, retry_num = 0,
                argv = path # take (SENTINEL_SCRIPT_MAX_ARGS - 1) args,
                start_time = 0, pid = 0\<rparr>;
          q = scripts_queue st @ [sj]
      in if length q > SENTINEL_SCRIPT_MAX_QUEUE then
           (case find (\<lambda>j. sj_flags j AND SENTINEL_SCRIPT_RUNNING = 0) q of
              None \<Rightarrow> st\<lparr>scripts_queue := q, crashed := True\<rparr>
            | Some j \<Rightarrow> st\<lparr>scripts_queue := remove1 j q\<rparr>)
         else st\<lparr>scripts_queue := q\<rparr>)"

definition sentinelRedisInstanceTypeStr :: "32 word \<Rightarrow> string" where
  "sentinelRedisInstanceTypeStr f =
     (if f AND SRI_MASTER \<noteq> 0 then ''master''
      else if f AND SRI_SLAVE \<noteq> 0 then ''slave''
      else if f AND SRI_SENTINEL \<noteq> 0 then ''sentinel''
      else ''unknown'')"

text \<open>
  \<^verbatim>\<open>sentinelEvent(level,type,ri,fmt,...)\<close>. The instance \<open>ri\<close> comes with the master its
  back pointer refers to (\<open>None\<close> for \<^verbatim>\<open>ri == NULL\<close>); \<open>at\<close> says that the format starts
  with \<^verbatim>\<open>%@\<close> and \<open>rest\<close> is the remainder, already formatted.
\<close>

definition event_prefix :: "sentinelRedisInstance \<Rightarrow> sentinelRedisInstance \<Rightarrow> string" where
  "event_prefix ri m =
     (if flags ri AND SRI_MASTER \<noteq> 0 then
        sentinelRedisInstanceTypeStr (flags ri) @ '' '' @ name ri @ '' '' @ ip (addr ri) @ '' ''
          @ ll2string (port (addr ri))
      else
        sentinelRedisInstanceTypeStr (flags ri) @ '' '' @ name ri @ '' '' @ ip (addr ri) @ '' ''
          @ ll2string (port (addr ri)) @ '' @ '' @ name m @ '' '' @ ip (addr m) @ '' ''
          @ ll2string (port (addr m)))"

text \<open>The message of an event. It is built in \<^verbatim>\<open>char msg[REDIS_MAX_LOGMSG_LEN]\<close>: \<^verbatim>\<open>snprintf\<close>
  writes the part for \<^verbatim>\<open>%@\<close> and \<^verbatim>\<open>vsnprintf\<close> the remainder into the room that is left, so
  that the message is cut after \<open>REDIS_MAX_LOGMSG_LEN - 1\<close> bytes.\<close>

definition event_msg :: "(sentinelRedisInstance \<times> sentinelRedisInstance) option \<Rightarrow> bool \<Rightarrow> string \<Rightarrow> string" where
  "event_msg ri at rest =
     (let head = (case ri of
                    Some (i, m) \<Rightarrow> (if at then take (REDIS_MAX_LOGMSG_LEN - 1) (event_prefix i m) else [])
                  | None \<Rightarrow> [])
      in head @ take (REDIS_MAX_LOGMSG_LEN - 1 - length head) rest)"

definition sentinelEvent ::
  "loglevel \<Rightarrow> string \<Rightarrow> (sentinelRedisInstance \<times> sentinelRedisInstance) option \<Rightarrow> bool \<Rightarrow> string
     \<Rightarrow> sentinelState \<Rightarrow> sentinelState" where
  "sentinelEvent level type ri at rest st =
     (let msg = event_msg ri at rest;
          st1 = st\<lparr>events := events st @ [\<lparr>ev_level = level, ev_type = type, ev_msg = msg\<rparr>]\<rparr>
      in case ri of
           Some (i, m) \<Rightarrow>
             (if level = REDIS_WARNING then
                (case notification_script m of
                   Some path \<Rightarrow> sentinelScheduleScriptExecution path [type, msg] st1
                 | None \<Rightarrow> st1)
              else st1)
         | None \<Rightarrow> st1)"

text \<open>The argument \<open>ri\<close> of \<^verbatim>\<open>sentinelEvent\<close> for a master, and for a slave or sentinel of
  the master \<open>m\<close>.\<close>

definition of_master :: "master \<Rightarrow> (sentinelRedisInstance \<times> sentinelRedisInstance) option" where
  "of_master m = Some (self m, self m)"

definition of_instance :: "sentinelRedisInstance \<Rightarrow> master \<Rightarrow> (sentinelRedisInstance \<times> sentinelRedisInstance) option" where
  "of_instance ri m = Some (ri, self m)"

subsection \<open>Script execution\<close>

text \<open>\<^verbatim>\<open>sentinelGetScriptListNodeByPid\<close>: the position of the first running job with this pid.\<close>

fun sentinelGetScriptListNodeByPid :: "sentinelScriptJob list \<Rightarrow> int \<Rightarrow> nat option" where
  "sentinelGetScriptListNodeByPid [] p = None"
| "sentinelGetScriptListNodeByPid (sj # q) p =
     (if sj_flags sj AND SENTINEL_SCRIPT_RUNNING \<noteq> 0 \<and> pid sj = p then Some 0
      else map_option Suc (sentinelGetScriptListNodeByPid q p))"

text \<open>\<^verbatim>\<open>while (retry_num-- > 1) delay *= 2;\<close> with \<^verbatim>\<open>mstime_t delay\<close>.\<close>

function sentinelScriptRetryDelay_loop :: "int \<Rightarrow> mstime_t \<Rightarrow> mstime_t" where
  "sentinelScriptRetryDelay_loop n delay =
     (if n > 1 then sentinelScriptRetryDelay_loop (n - 1) (c_long_long (delay * 2)) else delay)"
  by pat_completeness auto
termination
  by (relation "measure (\<lambda>(n, d). nat n)") auto

declare sentinelScriptRetryDelay_loop.simps [simp del]

definition sentinelScriptRetryDelay :: "int \<Rightarrow> mstime_t" where
  "sentinelScriptRetryDelay n = sentinelScriptRetryDelay_loop n SENTINEL_SCRIPT_RETRY_DELAY"

text \<open>
  The loop of \<^verbatim>\<open>sentinelRunPendingScripts\<close> over the queue. \<open>fork_result\<close> is what \<^verbatim>\<open>fork\<close>
  returns in the parent, \<open>-1\<close> for a failure; the child never returns to the sentinel.
\<close>

fun run_pending :: "env \<Rightarrow> sentinelScriptJob list \<Rightarrow> sentinelState \<Rightarrow> sentinelScriptJob list \<times> sentinelState" where
  "run_pending e [] st = ([], st)"
| "run_pending e (sj # q) st =
     (if \<not> running_scripts st < SENTINEL_SCRIPT_MAX_RUNNING then (sj # q, st)
      else if sj_flags sj AND SENTINEL_SCRIPT_RUNNING \<noteq> 0 then
        (let r = run_pending e q st in (sj # fst r, snd r))
      else if start_time sj \<noteq> 0 \<and> start_time sj > now e then
        (let r = run_pending e q st in (sj # fst r, snd r))
      else
        (let sj1 = sj\<lparr>sj_flags := sj_flags sj OR SENTINEL_SCRIPT_RUNNING,
                      start_time := now e,
                      retry_num := c_int (retry_num sj + 1)\<rparr>;
             p = fork_result e (argv sj)
         in if p = - 1 then
              (let st1 = sentinelEvent REDIS_WARNING ''-script-error'' None False
                           (hd (argv sj) @ '' '' @ ll2string 99 @ '' '' @ ll2string 0) st;
                   r = run_pending e q st1
               in (sj1\<lparr>sj_flags := sj_flags sj1 AND NOT SENTINEL_SCRIPT_RUNNING, pid := 0\<rparr> # fst r, snd r))
            else
              (let st1 = sentinelEvent REDIS_DEBUG ''+script-child'' None False (ll2string p)
                           (st\<lparr>running_scripts := running_scripts st + 1\<rparr>);
                   r = run_pending e q st1
               in (sj1\<lparr>pid := p\<rparr> # fst r, snd r))))"

definition sentinelRunPendingScripts :: "env \<Rightarrow> sentinelState \<Rightarrow> sentinelState" where
  "sentinelRunPendingScripts e st =
     (let r = run_pending e (scripts_queue st) st in (snd r)\<lparr>scripts_queue := fst r\<rparr>)"

definition listDelNode :: "'a list \<Rightarrow> nat \<Rightarrow> 'a list" where
  "listDelNode q i = take i q @ drop (Suc i) q"

text \<open>
  The body of the loop of \<^verbatim>\<open>sentinelCollectTerminatedScripts\<close> for one child that
  \<^verbatim>\<open>wait3\<close> returned: its pid, \<^verbatim>\<open>WEXITSTATUS\<close> and, if it was signalled, \<^verbatim>\<open>WTERMSIG\<close>
  (otherwise 0).
\<close>

definition collect_one :: "env \<Rightarrow> int \<times> int \<times> int \<Rightarrow> sentinelState \<Rightarrow> sentinelState" where
  "collect_one e child st =
     (let p = fst child; exitcode = fst (snd child); bysignal = snd (snd child);
          st1 = sentinelEvent REDIS_DEBUG ''-script-child'' None False
                  (ll2string p @ '' '' @ ll2string exitcode @ '' '' @ ll2string bysignal) st
      in case sentinelGetScriptListNodeByPid (scripts_queue st1) p of
           None \<Rightarrow> st1
         | Some i \<Rightarrow>
             (let sj = scripts_queue st1 ! i in
              if (bysignal \<noteq> 0 \<or> exitcode = 1) \<and> retry_num sj \<noteq> SENTINEL_SCRIPT_MAX_RETRY then
                st1\<lparr>scripts_queue := (scripts_queue st1)
                      [i := sj\<lparr>sj_flags := sj_flags sj AND NOT SENTINEL_SCRIPT_RUNNING,
                               pid := 0,
                               start_time := now e + sentinelScriptRetryDelay (retry_num sj)\<rparr>]\<rparr>
              else
                (let st2 = (if bysignal \<noteq> 0 \<or> exitcode \<noteq> 0 then
                              sentinelEvent REDIS_WARNING ''-script-error'' None False
                                (hd (argv sj) @ '' '' @ ll2string bysignal @ '' '' @ ll2string exitcode) st1
                            else st1)
                 in st2\<lparr>scripts_queue := listDelNode (scripts_queue st2) i,
                        running_scripts := running_scripts st2 - 1\<rparr>)))"

definition sentinelCollectTerminatedScripts :: "env \<Rightarrow> (int \<times> int \<times> int) list \<Rightarrow> sentinelState \<Rightarrow> sentinelState" where
  "sentinelCollectTerminatedScripts e children st = fold (collect_one e) children st"

subsection \<open>Votes and the leader election\<close>

definition epoch_str :: "64 word \<Rightarrow> string" where
  "epoch_str w = dec_digits (unat w)"

text \<open>
  \<^verbatim>\<open>sentinelVoteLeader\<close> returns the vote (\<^verbatim>\<open>NULL\<close> when there is none) with
  \<^verbatim>\<open>*leader_epoch\<close>, the master as it has changed it, and the state. \<^verbatim>\<open>rand()\<close> is
  \<open>rand_value\<close>.
\<close>

definition sentinelVoteLeader ::
  "env \<Rightarrow> master \<Rightarrow> 64 word \<Rightarrow> string \<Rightarrow> sentinelState
     \<Rightarrow> (string option \<times> 64 word) \<times> master \<times> sentinelState" where
  "sentinelVoteLeader e m req_epoch req_runid st =
     (let st1 = (if req_epoch > current_epoch st then
                   sentinelEvent REDIS_WARNING ''+new-epoch'' (of_master m) False
                     (epoch_str req_epoch) (st\<lparr>current_epoch := req_epoch\<rparr>)
                 else st);
          res = (if leader_epoch (self m) < req_epoch \<and> current_epoch st1 \<le> req_epoch then
                   (let m1 = m\<lparr>self := (self m)\<lparr>leader := Some req_runid,
                                                leader_epoch := current_epoch st1\<rparr>\<rparr>;
                        st2 = sentinelEvent REDIS_WARNING ''+vote-for-leader'' (of_master m1) False
                                (req_runid @ '' '' @ epoch_str (leader_epoch (self m1))) st1
                    in (m1\<lparr>self := (self m1)\<lparr>failover_start_time :=
                                                 now e + int (rand_value e mod 2000)\<rparr>\<rparr>, st2))
                 else (m, st1))
      in ((leader (self (fst res)), leader_epoch (self (fst res))), fst res, snd res))"

text \<open>The counters of \<^verbatim>\<open>sentinelGetLeader\<close>: run id to votes, in the order of insertion.\<close>

definition sentinelLeaderIncr :: "(string \<times> nat) list \<Rightarrow> string \<Rightarrow> (string \<times> nat) list" where
  "sentinelLeaderIncr counters rid =
     (case map_of counters rid of
        Some oldval \<Rightarrow> dictSetVal counters rid (oldval + 1)
      | None \<Rightarrow> counters @ [(rid, 1)])"

text \<open>The loop over \<^verbatim>\<open>master->sentinels\<close> that counts the votes of the other sentinels.\<close>

fun count_votes :: "64 word \<Rightarrow> instances \<Rightarrow> (string \<times> nat) list \<times> nat \<Rightarrow> (string \<times> nat) list \<times> nat" where
  "count_votes cur [] acc = acc"
| "count_votes cur ((k, ri) # rest) (counters, voters) =
     (case leader ri of
        None \<Rightarrow> count_votes cur rest (counters, voters)
      | Some l \<Rightarrow>
          (if leader_epoch ri \<noteq> cur then count_votes cur rest (counters, voters)
           else count_votes cur rest (sentinelLeaderIncr counters l, voters + 1)))"

text \<open>The loop over the counters that looks for the run id with the most votes.\<close>

fun max_votes_loop :: "(string \<times> nat) list \<Rightarrow> nat \<times> string option \<Rightarrow> nat \<times> string option" where
  "max_votes_loop [] acc = acc"
| "max_votes_loop ((k, votes) # rest) (max_votes, winner) =
     (if max_votes < votes then max_votes_loop rest (votes, Some k)
      else max_votes_loop rest (max_votes, winner))"

text \<open>
  \<^verbatim>\<open>sentinelGetLeader\<close>. The comparison \<^verbatim>\<open>max_votes < master->quorum\<close> converts the
  \<^verbatim>\<open>int\<close> quorum to \<^verbatim>\<open>uint64_t\<close>.
\<close>

definition sentinelGetLeader ::
  "env \<Rightarrow> master \<Rightarrow> 64 word \<Rightarrow> sentinelState \<Rightarrow> string option \<times> master \<times> sentinelState" where
  "sentinelGetLeader e m epoch st =
     (if flags (self m) AND (SRI_O_DOWN OR SRI_FAILOVER_IN_PROGRESS) = 0 then
        (None, m, st\<lparr>crashed := True\<rparr>)
      else
        (let r = sentinelVoteLeader e m epoch (server_runid e) st;
             m1 = fst (snd r); st1 = snd (snd r);
             mine = (case fst (fst r) of
                       Some myvote \<Rightarrow>
                         (if snd (fst r) = epoch then (sentinelLeaderIncr [] myvote, 1) else ([], 0))
                     | None \<Rightarrow> ([], 0));
             cv = count_votes (current_epoch st1) (sentinels m1) mine;
             voters = snd cv;
             voters_quorum = voters div 2 + 1;
             mw = max_votes_loop (fst cv) (0, None);
             winner = (if snd mw \<noteq> None \<and>
                          (fst mw < voters_quorum \<or> int (fst mw) < quorum (self m1) mod 2 ^ 64)
                       then None else snd mw)
         in (winner, m1, st1)))"

subsection \<open>Instances\<close>

text \<open>\<^verbatim>\<open>sdssplitlen\<close> of sds.c: the pieces of a string between the occurrences of a
  separator; no piece at all for the empty string.\<close>

fun sdssplit_from :: "string \<Rightarrow> string \<Rightarrow> string \<Rightarrow> string list" where
  "sdssplit_from sep [] cur = [cur]"
| "sdssplit_from sep (c # cs) cur =
     (if take (length sep) (c # cs) = sep
      then cur # sdssplit_from sep (drop (length sep - 1) cs) []
      else sdssplit_from sep cs (cur @ [c]))"

definition sdssplitlen :: "string \<Rightarrow> string \<Rightarrow> string list" where
  "sdssplitlen s sep = (if s = [] \<or> sep = [] then [] else sdssplit_from sep s [])"

text \<open>\<^verbatim>\<open>strstr(h,n) != NULL\<close> and \<^verbatim>\<open>strchr(h,c) != NULL\<close>.\<close>

fun strstr_found :: "string \<Rightarrow> string \<Rightarrow> bool" where
  "strstr_found [] n = (n = [])"
| "strstr_found (c # cs) n = (take (length n) (c # cs) = n \<or> strstr_found cs n)"

definition strchr_found :: "string \<Rightarrow> char \<Rightarrow> bool" where
  "strchr_found h c \<longleftrightarrow> c \<in> set h"

text \<open>The name of a slave or sentinel: \<^verbatim>\<open>ip:port\<close>, or \<^verbatim>\<open>[ip]:port\<close> when the host holds a
  colon. \<^verbatim>\<open>createSentinelRedisInstance\<close> prints it into a buffer of 128 bytes.\<close>

definition instance_key :: "string \<Rightarrow> int \<Rightarrow> string" where
  "instance_key hostname p =
     (if strchr_found hostname CHR '':'' then ''['' @ hostname @ '']:'' @ ll2string p
      else hostname @ '':'' @ ll2string p)"

definition new_instance ::
  "env \<Rightarrow> string \<Rightarrow> 32 word \<Rightarrow> sentinelAddr \<Rightarrow> int \<Rightarrow> mstime_t \<Rightarrow> sentinelRedisInstance" where
  "new_instance e nm fl a q dap =
     \<lparr>flags = fl OR SRI_DISCONNECTED, name = nm, runid = None, config_epoch = 0, addr = a,
      cc = False, pc = False, pending_commands = 0, cc_conn_time = 0, pc_conn_time = 0,
      pc_last_activity = 0, last_avail_time = now e, last_pong_time = now e,
      last_pub_time = now e, last_hello_time = now e, last_master_down_reply_time = now e,
      s_down_since_time = 0, o_down_since_time = 0, down_after_period = dap, info_refresh = 0,
      role_reported = (fl OR SRI_DISCONNECTED) AND (SRI_MASTER OR SRI_SLAVE),
      role_reported_time = now e, slave_conf_change_time = now e, quorum = q,
      parallel_syncs = SENTINEL_DEFAULT_PARALLEL_SYNCS, auth_pass = None,
      master_link_down_time = 0, slave_priority = SENTINEL_DEFAULT_SLAVE_PRIORITY,
      slave_reconf_sent_time = 0, slave_master_host = None, slave_master_port = 0,
      slave_master_link_status = SENTINEL_MASTER_LINK_STATUS_DOWN, leader = None,
      leader_epoch = 0, failover_epoch = 0, failover_state = SENTINEL_FAILOVER_STATE_NONE,
      failover_state_change_time = 0, failover_start_time = 0,
      failover_timeout = SENTINEL_DEFAULT_FAILOVER_TIMEOUT, promoted_slave = None,
      notification_script = None, client_reconfig_script = None\<rparr>"

text \<open>
  \<^verbatim>\<open>createSentinelRedisInstance\<close> called with \<^verbatim>\<open>SRI_SLAVE\<close> or \<^verbatim>\<open>SRI_SENTINEL\<close> and a master,
  as every call after the configuration is loaded: the new instance and the master with
  the instance in its table, or the \<^verbatim>\<open>errno\<close> of the failure.
\<close>

definition createSentinelRedisInstance ::
  "env \<Rightarrow> 32 word \<Rightarrow> string \<Rightarrow> int \<Rightarrow> int \<Rightarrow> master \<Rightarrow> errno + (sentinelRedisInstance \<times> master)" where
  "createSentinelRedisInstance e fl hostname p q m =
     (case createSentinelAddr e hostname p of
        Inl err \<Rightarrow> Inl err
      | Inr a \<Rightarrow>
          (let nm = take 127 (instance_key hostname p);
               table = (if fl AND SRI_SLAVE \<noteq> 0 then slaves m else sentinels m)
           in if dictFetchValue table nm \<noteq> None then Inl EBUSY
              else
                (let ri = new_instance e nm fl a q (down_after_period (self m))
                 in Inr (ri, if fl AND SRI_SLAVE \<noteq> 0 then m\<lparr>slaves := dictAdd (slaves m) nm ri\<rparr>
                             else m\<lparr>sentinels := dictAdd (sentinels m) nm ri\<rparr>))))"

text \<open>The same function called with \<^verbatim>\<open>SRI_MASTER\<close>, from the configuration.\<close>

definition createSentinelRedisMaster ::
  "env \<Rightarrow> string \<Rightarrow> string \<Rightarrow> int \<Rightarrow> int \<Rightarrow> sentinelState \<Rightarrow> errno + (master \<times> sentinelState)" where
  "createSentinelRedisMaster e nm hostname p q st =
     (case createSentinelAddr e hostname p of
        Inl err \<Rightarrow> Inl err
      | Inr a \<Rightarrow>
          (if dictFetchValue (masters st) nm \<noteq> None then Inl EBUSY
           else
             (let m = \<lparr>self = new_instance e nm SRI_MASTER a q SENTINEL_DOWN_AFTER_PERIOD,
                       sentinels = [], slaves = []\<rparr>
              in Inr (m, st\<lparr>masters := dictAdd (masters st) nm m\<rparr>))))"

definition sentinelRedisInstanceLookupSlave :: "master \<Rightarrow> string \<Rightarrow> int \<Rightarrow> sentinelRedisInstance option" where
  "sentinelRedisInstanceLookupSlave m ip' p = dictFetchValue (slaves m) (instance_key ip' p)"

definition sentinel_matches :: "string \<Rightarrow> int \<Rightarrow> string \<Rightarrow> sentinelRedisInstance \<Rightarrow> bool" where
  "sentinel_matches ip' p rid ri \<longleftrightarrow>
     runid ri = Some rid \<or> (ip (addr ri) = ip' \<and> p = port (addr ri))"

definition removeMatchingSentinelsFromMaster :: "master \<Rightarrow> string \<Rightarrow> int \<Rightarrow> string \<Rightarrow> nat \<times> master" where
  "removeMatchingSentinelsFromMaster m ip' p rid =
     (let matching = filter (\<lambda>kv. sentinel_matches ip' p rid (snd kv)) (sentinels m)
      in (length matching,
          m\<lparr>sentinels := fold (\<lambda>kv d. dictDelete d (name (snd kv))) matching (sentinels m)\<rparr>))"

text \<open>\<^verbatim>\<open>getSentinelRedisInstanceByAddrAndRunID\<close>; \<open>None\<close> for a \<^verbatim>\<open>NULL\<close> ip or run id.\<close>

definition getSentinelRedisInstanceByAddrAndRunID ::
  "instances \<Rightarrow> string option \<Rightarrow> int \<Rightarrow> string option \<Rightarrow> (string \<times> sentinelRedisInstance) option" where
  "getSentinelRedisInstanceByAddrAndRunID d ip' p rid =
     find (\<lambda>kv. \<not> (rid \<noteq> None \<and> runid (snd kv) = None)
                \<and> (rid = None \<or> runid (snd kv) = rid)
                \<and> (ip' = None \<or> (Some (ip (addr (snd kv))) = ip' \<and> port (addr (snd kv)) = p))) d"

definition sentinelGetMasterByName :: "sentinelState \<Rightarrow> string \<Rightarrow> master option" where
  "sentinelGetMasterByName st nm = dictFetchValue (masters st) nm"

definition sentinelKillLink :: "link \<Rightarrow> sentinelRedisInstance \<Rightarrow> sentinelRedisInstance" where
  "sentinelKillLink c ri =
     (case c of
        CC \<Rightarrow> ri\<lparr>cc := False, pending_commands := 0, flags := flags ri OR SRI_DISCONNECTED\<rparr>
      | PC \<Rightarrow> ri\<lparr>pc := False, flags := flags ri OR SRI_DISCONNECTED\<rparr>)"

definition SENTINEL_NO_FLAGS :: "32 word" where [simp]: "SENTINEL_NO_FLAGS = 0"
definition SENTINEL_RESET_NO_SENTINELS :: "32 word" where [simp]: "SENTINEL_RESET_NO_SENTINELS = 1"
definition SENTINEL_GENERATE_EVENT :: "32 word" where [simp]: "SENTINEL_GENERATE_EVENT = 65536"
definition SENTINEL_ASK_FORCED :: "32 word" where [simp]: "SENTINEL_ASK_FORCED = 1"

definition sentinelResetMaster :: "env \<Rightarrow> master \<Rightarrow> 32 word \<Rightarrow> sentinelState \<Rightarrow> master \<times> sentinelState" where
  "sentinelResetMaster e m fl st =
     (if flags (self m) AND SRI_MASTER = 0 then (m, st\<lparr>crashed := True\<rparr>)
      else
        (let m1 = m\<lparr>slaves := []\<rparr>;
             m2 = (if fl AND SENTINEL_RESET_NO_SENTINELS = 0 then m1\<lparr>sentinels := []\<rparr> else m1);
             r1 = (if cc (self m2) then sentinelKillLink CC (self m2) else self m2);
             r2 = (if pc r1 then sentinelKillLink PC r1 else r1);
             r3 = r2\<lparr>flags := flags r2 AND (SRI_MASTER OR SRI_CAN_FAILOVER OR SRI_DISCONNECTED),
                     leader := None,
                     failover_state := SENTINEL_FAILOVER_STATE_NONE,
                     failover_state_change_time := 0,
                     failover_start_time := 0,
                     promoted_slave := None,
                     runid := None,
                     slave_master_host := None,
                     last_avail_time := now e,
                     last_pong_time := now e\<rparr>;
             m3 = m2\<lparr>self := r3\<rparr>
         in (m3, if fl AND SENTINEL_GENERATE_EVENT \<noteq> 0
                 then sentinelEvent REDIS_WARNING ''+reset-master'' (of_master m3) True [] st
                 else st)))"

text \<open>The loop of \<^verbatim>\<open>sentinelResetMasterAndChangeAddress\<close> that adds the slaves back. An
  address that \<^verbatim>\<open>createSentinelAddr\<close> failed to copy is \<^verbatim>\<open>NULL\<close> in the array.\<close>

fun add_slaves_back :: "env \<Rightarrow> (errno + sentinelAddr) list \<Rightarrow> master \<Rightarrow> sentinelState \<Rightarrow> master \<times> sentinelState" where
  "add_slaves_back e [] m st = (m, st)"
| "add_slaves_back e (Inl err # rest) m st = (m, st\<lparr>crashed := True\<rparr>)"
| "add_slaves_back e (Inr a # rest) m st =
     (case createSentinelRedisInstance e SRI_SLAVE (ip a) (port a) (quorum (self m)) m of
        Inl err \<Rightarrow> add_slaves_back e rest m st
      | Inr (slave, m1) \<Rightarrow>
          add_slaves_back e rest m1
            (sentinelEvent REDIS_NOTICE ''+slave'' (of_instance slave m1) True [] st))"

text \<open>\<^verbatim>\<open>sentinelResetMasterAndChangeAddress\<close>: \<open>True\<close> for \<^verbatim>\<open>REDIS_OK\<close>.\<close>

definition sentinelResetMasterAndChangeAddress ::
  "env \<Rightarrow> master \<Rightarrow> string \<Rightarrow> int \<Rightarrow> sentinelState \<Rightarrow> bool \<times> master \<times> sentinelState" where
  "sentinelResetMasterAndChangeAddress e m ip' p st =
     (case createSentinelAddr e ip' p of
        Inl err \<Rightarrow> (False, m, st)
      | Inr newaddr \<Rightarrow>
          (let kept = filter (\<lambda>kv. \<not> sentinelAddrIsEqual (addr (snd kv)) newaddr) (slaves m);
               slaves1 = map (\<lambda>kv. createSentinelAddr e (ip (addr (snd kv))) (port (addr (snd kv)))) kept;
               slaves2 = (if \<not> sentinelAddrIsEqual newaddr (addr (self m))
                          then slaves1 @ [createSentinelAddr e (ip (addr (self m))) (port (addr (self m)))]
                          else slaves1);
               r = sentinelResetMaster e m SENTINEL_RESET_NO_SENTINELS st;
               m1 = (fst r)\<lparr>self := (self (fst r))\<lparr>addr := newaddr, o_down_since_time := 0,
                                                    s_down_since_time := 0\<rparr>\<rparr>;
               r2 = add_slaves_back e slaves2 m1 (snd r)
           in (True, fst r2, snd r2)))"

definition get_ri :: "master \<Rightarrow> iref \<Rightarrow> sentinelRedisInstance option" where
  "get_ri m r =
     (case r of
        RMaster \<Rightarrow> Some (self m)
      | RSlave k \<Rightarrow> dictFetchValue (slaves m) k
      | RSentinel k \<Rightarrow> dictFetchValue (sentinels m) k)"

definition put_ri :: "master \<Rightarrow> iref \<Rightarrow> sentinelRedisInstance \<Rightarrow> master" where
  "put_ri m r ri =
     (case r of
        RMaster \<Rightarrow> m\<lparr>self := ri\<rparr>
      | RSlave k \<Rightarrow> m\<lparr>slaves := dictSetVal (slaves m) k ri\<rparr>
      | RSentinel k \<Rightarrow> m\<lparr>sentinels := dictSetVal (sentinels m) k ri\<rparr>)"

text \<open>The argument \<open>ri\<close> of \<^verbatim>\<open>sentinelEvent\<close> for the instance that \<open>r\<close> points to.\<close>

definition of_ri :: "master \<Rightarrow> iref \<Rightarrow> sentinelRedisInstance \<Rightarrow> (sentinelRedisInstance \<times> sentinelRedisInstance) option" where
  "of_ri m r ri = (case r of RMaster \<Rightarrow> of_master m | _ \<Rightarrow> of_instance ri m)"

subsection \<open>Commands to the instances\<close>

text \<open>\<^verbatim>\<open>sentinelSendSlaveOf\<close>: \<open>True\<close> for \<^verbatim>\<open>REDIS_OK\<close>. Whether hiredis accepts a command is
  \<open>redisAsyncCommand_ok\<close>.\<close>

definition sentinelSendSlaveOf :: "env \<Rightarrow> sentinelRedisInstance \<Rightarrow> string option \<Rightarrow> int \<Rightarrow> bool \<times> sentinelRedisInstance" where
  "sentinelSendSlaveOf e ri host p =
     (let cmd = (case host of
                   None \<Rightarrow> ''SLAVEOF NO ONE''
                 | Some h \<Rightarrow> ''SLAVEOF '' @ h @ '' '' @ ll2string p)
      in if \<not> redisAsyncCommand_ok e (name ri) CC cmd then (False, ri)
         else
           (let ri1 = ri\<lparr>pending_commands := pending_commands ri + 1\<rparr>
            in (True, if redisAsyncCommand_ok e (name ri) CC ''CONFIG REWRITE''
                      then ri1\<lparr>pending_commands := pending_commands ri1 + 1\<rparr> else ri1)))"

definition SENTINEL_LEADER :: "32 word" where [simp]: "SENTINEL_LEADER = 131072"
definition SENTINEL_OBSERVER :: "32 word" where [simp]: "SENTINEL_OBSERVER = 262144"

definition sentinelCallClientReconfScript ::
  "master \<Rightarrow> 32 word \<Rightarrow> string \<Rightarrow> sentinelAddr \<Rightarrow> sentinelAddr \<Rightarrow> sentinelState \<Rightarrow> sentinelState" where
  "sentinelCallClientReconfScript m role state from to st =
     (case client_reconfig_script (self m) of
        None \<Rightarrow> st
      | Some path \<Rightarrow>
          sentinelScheduleScriptExecution path
            [name (self m), if role = SENTINEL_LEADER then ''leader'' else ''observer'', state,
             ip from, ll2string (port from), ip to, ll2string (port to)] st)"

definition sentinelRedisInstanceNoDownFor :: "env \<Rightarrow> sentinelRedisInstance \<Rightarrow> mstime_t \<Rightarrow> bool" where
  "sentinelRedisInstanceNoDownFor e ri ms =
     (let most_recent = (if o_down_since_time ri > s_down_since_time ri
                         then o_down_since_time ri else s_down_since_time ri)
      in most_recent = 0 \<or> now e - most_recent > ms)"

definition sentinelMasterLooksSane :: "env \<Rightarrow> master \<Rightarrow> bool" where
  "sentinelMasterLooksSane e m \<longleftrightarrow>
     flags (self m) AND SRI_MASTER \<noteq> 0 \<and>
     role_reported (self m) = SRI_MASTER \<and>
     flags (self m) AND (SRI_S_DOWN OR SRI_O_DOWN) = 0 \<and>
     now e - info_refresh (self m) < SENTINEL_INFO_PERIOD * 2"

subsection \<open>The Hello channel\<close>

text \<open>The first part of the block for nine tokens: find the sentinel that sent the
  message, or replace the ones that look like it by a new one. The result is the key of the
  sentinel \<^verbatim>\<open>si\<close>, if there is one.\<close>

definition hello_sentinel ::
  "env \<Rightarrow> string \<Rightarrow> int \<Rightarrow> string \<Rightarrow> master \<Rightarrow> sentinelState \<Rightarrow> string option \<times> master \<times> sentinelState" where
  "hello_sentinel e tip p trunid m st =
     (case getSentinelRedisInstanceByAddrAndRunID (sentinels m) (Some tip) p (Some trunid) of
        Some si \<Rightarrow> (Some (fst si), m, st)
      | None \<Rightarrow>
          (let rm = removeMatchingSentinelsFromMaster m tip p trunid;
               m1 = snd rm;
               st1 = (if fst rm \<noteq> 0 then
                        sentinelEvent REDIS_NOTICE ''-dup-sentinel'' (of_master m1) True
                          ('' #duplicate of '' @ tip @ '':'' @ ll2string p @ '' or '' @ trunid) st
                      else st)
           in case createSentinelRedisInstance e SRI_SENTINEL tip p (quorum (self m1)) m1 of
                Inl err \<Rightarrow> (None, m1, st1)
              | Inr (si, m2) \<Rightarrow>
                  (Some (name si),
                   put_ri m2 (RSentinel (name si)) (si\<lparr>runid := Some trunid\<rparr>),
                   sentinelEvent REDIS_NOTICE ''+sentinel'' (of_instance si m2) True [] st1)))"

text \<open>``Update master info if received configuration is newer'': the master named in the
  message is looked up in \<^verbatim>\<open>sentinel.masters\<close>.\<close>

definition hello_master_config :: "env \<Rightarrow> string \<Rightarrow> string \<Rightarrow> int \<Rightarrow> 64 word \<Rightarrow> sentinelState \<Rightarrow> sentinelState" where
  "hello_master_config e tname tip master_port master_config_epoch st =
     (case sentinelGetMasterByName st tname of
        None \<Rightarrow> st
      | Some msgmaster \<Rightarrow>
          (if config_epoch (self msgmaster) < master_config_epoch then
             (let mm = msgmaster\<lparr>self := (self msgmaster)\<lparr>config_epoch := master_config_epoch\<rparr>\<rparr>
              in if master_port \<noteq> port (addr (self mm)) \<or> ip (addr (self mm)) = tip then
                   (let st1 = sentinelEvent REDIS_WARNING ''+switch-master'' (of_master mm) False
                                (name (self mm) @ '' '' @ ip (addr (self mm)) @ '' ''
                                   @ ll2string (port (addr (self mm))) @ '' '' @ tip @ '' ''
                                   @ ll2string master_port) st;
                        r = sentinelResetMasterAndChangeAddress e mm tip master_port st1
                    in (snd (snd r))\<lparr>masters := dictSetVal (masters (snd (snd r))) tname (fst (snd r))\<rparr>)
                 else st\<lparr>masters := dictSetVal (masters st) tname mm\<rparr>)
           else st))"

text \<open>``Update the state of the Sentinel'': \<^verbatim>\<open>si\<close> is the sentinel \<open>k\<close> of the master
  \<open>mk\<close>.\<close>

definition hello_sentinel_state :: "env \<Rightarrow> string \<Rightarrow> string \<Rightarrow> int \<Rightarrow> sentinelState \<Rightarrow> sentinelState" where
  "hello_sentinel_state e mk k canfailover st =
     (case dictFetchValue (masters st) mk of
        None \<Rightarrow> st
      | Some m \<Rightarrow>
          (case dictFetchValue (sentinels m) k of
             None \<Rightarrow> st
           | Some si \<Rightarrow>
               (let si1 = si\<lparr>last_hello_time := now e\<rparr>;
                    si2 = (if canfailover \<noteq> 0 then si1\<lparr>flags := flags si1 OR SRI_CAN_FAILOVER\<rparr>
                           else si1\<lparr>flags := flags si1 AND NOT SRI_CAN_FAILOVER\<rparr>)
                in st\<lparr>masters := dictSetVal (masters st) mk (put_ri m (RSentinel k) si2)\<rparr>)))"

text \<open>The block of \<^verbatim>\<open>sentinelReceiveHelloMessages\<close> that handles the payload, once the
  reply is known to be a \<^verbatim>\<open>message\<close>: \<open>ri\<close> is the instance \<open>r\<close> of \<open>master1\<close>, the master
  with key \<open>mk\<close>.\<close>

definition hello_payload ::
  "env \<Rightarrow> string \<Rightarrow> iref \<Rightarrow> sentinelRedisInstance \<Rightarrow> master \<Rightarrow> string \<Rightarrow> sentinelState \<Rightarrow> sentinelState" where
  "hello_payload e mk r ri master1 payload st =
     (if strstr_found payload (server_runid e) then st
      else
        (case sdssplitlen payload '','' of
           [t0, t1, t2, t3, t4, t5, t6, t7, t8] \<Rightarrow>
             (let p = atoi e t1;
                  master_port = atoi e t7;
                  canfailover = atoi e t3;
                  hs = hello_sentinel e t0 p t2 master1 st;
                  si = fst hs; master2 = fst (snd hs); st1 = snd (snd hs);
                  cur = strtoull e t4;
                  master_config_epoch = strtoull e t8;
                  st2 = (if cur > current_epoch st1 then
                           sentinelEvent REDIS_WARNING ''+new-epoch'' (of_ri master2 r ri) False
                             (epoch_str cur) (st1\<lparr>current_epoch := cur\<rparr>)
                         else st1);
                  st3 = st2\<lparr>masters := dictSetVal (masters st2) mk master2\<rparr>;
                  st4 = hello_master_config e t5 t6 master_port master_config_epoch st3
              in case si of
                   Some k \<Rightarrow> hello_sentinel_state e mk k canfailover st4
                 | None \<Rightarrow> st4)
         | _ \<Rightarrow> st))"

text \<open>
  \<^verbatim>\<open>sentinelReceiveHelloMessages\<close>, the callback of the Pub/Sub link of the instance \<open>r\<close> of
  the master with key \<open>mk\<close> (\<^verbatim>\<open>c->data\<close>; the callback returns at once when the instance
  is gone). The reply is \<open>None\<close> for \<^verbatim>\<open>NULL\<close>.
\<close>

definition sentinelReceiveHelloMessages ::
  "env \<Rightarrow> string \<Rightarrow> iref \<Rightarrow> redisReply option \<Rightarrow> sentinelState \<Rightarrow> sentinelState" where
  "sentinelReceiveHelloMessages e mk r reply st =
     (case reply of
        None \<Rightarrow> st
      | Some rep \<Rightarrow>
          (case dictFetchValue (masters st) mk of
             None \<Rightarrow> st
           | Some master0 \<Rightarrow>
               (case get_ri master0 r of
                  None \<Rightarrow> st
                | Some ri0 \<Rightarrow>
                    (let ri = ri0\<lparr>pc_last_activity := now e\<rparr>;
                         master1 = put_ri master0 r ri;
                         st0 = st\<lparr>masters := dictSetVal (masters st) mk master1\<rparr>
                     in case rep of
                          REDIS_REPLY_ARRAY [REDIS_REPLY_STRING kind, REDIS_REPLY_STRING channel,
                                             REDIS_REPLY_STRING payload] \<Rightarrow>
                            (if kind \<noteq> ''message'' then st0
                             else hello_payload e mk r ri master1 payload st0)
                        | _ \<Rightarrow> st0))))"

subsection \<open>INFO replies\<close>

text \<open>The text after the first occurrence of \<open>n\<close> in \<open>h\<close> (\<^verbatim>\<open>strstr(h,n)+strlen(n)\<close>), and
  the text up to the first \<open>c\<close> (a string cut by writing a NUL at \<^verbatim>\<open>strchr(s,c)\<close>).\<close>

fun after_first :: "string \<Rightarrow> string \<Rightarrow> string option" where
  "after_first [] n = (if n = [] then Some [] else None)"
| "after_first (c # cs) n =
     (if take (length n) (c # cs) = n then Some (drop (length n) (c # cs)) else after_first cs n)"

definition up_to :: "char \<Rightarrow> string \<Rightarrow> string" where
  "up_to c s = takeWhile (\<lambda>x. x \<noteq> c) s"

definition isdigit :: "char \<Rightarrow> bool" where
  "isdigit c \<longleftrightarrow> 48 \<le> (of_char c :: nat) \<and> (of_char c :: nat) \<le> 57"

text \<open>The address in a line \<^verbatim>\<open>slaveN:...\<close>, in the old format \<^verbatim>\<open><ip>,<port>,<state>\<close> or in
  the new one \<^verbatim>\<open>ip=...,port=...\<close>; \<open>None\<close> where the C code gives the line up with
  \<^verbatim>\<open>continue\<close>.\<close>

definition slave_line_addr :: "string \<Rightarrow> (string \<times> string) option" where
  "slave_line_addr l =
     (if \<not> strstr_found l ''ip='' then
        (case after_first l '':'' of
           None \<Rightarrow> None
         | Some ip' \<Rightarrow>
             (case after_first ip' '','' of
                None \<Rightarrow> None
              | Some port' \<Rightarrow>
                  (if strchr_found port' CHR '','' then Some (up_to CHR '','' ip', up_to CHR '','' port')
                   else None)))
      else
        (case after_first l ''ip='' of
           None \<Rightarrow> None
         | Some ip' \<Rightarrow>
             (case after_first l ''port='' of
                None \<Rightarrow> None
              | Some port' \<Rightarrow> Some (up_to CHR '','' ip', up_to CHR '','' port'))))"

text \<open>One turn of the loop over the lines of the reply. The state of the loop is the
  instance \<open>ri\<close>, its master \<open>m\<close> (\<open>ri\<close> itself when \<open>r\<close> is \<open>RMaster\<close>, so that new slaves
  go to \<open>slaves m\<close>), the variable \<^verbatim>\<open>role\<close> and the global state.\<close>

definition info_run_id ::
  "master \<Rightarrow> iref \<Rightarrow> string \<Rightarrow> sentinelRedisInstance \<times> sentinelState \<Rightarrow> sentinelRedisInstance \<times> sentinelState" where
  "info_run_id m r l x =
     (let ri = fst x; st = snd x in
      if length l \<ge> 47 \<and> take 7 l = ''run_id:'' then
        (case runid ri of
           None \<Rightarrow> (ri\<lparr>runid := Some (take 40 (drop 7 l))\<rparr>, st)
         | Some old \<Rightarrow>
             (if take 40 old \<noteq> take 40 (drop 7 l) then
                (ri\<lparr>runid := Some (take 40 (drop 7 l))\<rparr>,
                 sentinelEvent REDIS_NOTICE ''+reboot'' (of_ri m r ri) True [] st)
              else (ri, st)))
      else (ri, st))"

definition info_slave_line ::
  "env \<Rightarrow> iref \<Rightarrow> string \<Rightarrow> sentinelRedisInstance \<Rightarrow> master \<times> sentinelState \<Rightarrow> master \<times> sentinelState" where
  "info_slave_line e r l ri x =
     (let m = fst x; st = snd x in
      if r = RMaster \<and> flags ri AND SRI_MASTER \<noteq> 0 \<and> length l \<ge> 7 \<and> take 5 l = ''slave''
         \<and> isdigit (l ! 5) then
        (case slave_line_addr l of
           None \<Rightarrow> (m, st)
         | Some (ip', port') \<Rightarrow>
             (if sentinelRedisInstanceLookupSlave m ip' (atoi e port') = None then
                (case createSentinelRedisInstance e SRI_SLAVE ip' (atoi e port') (quorum ri)
                        (m\<lparr>self := ri\<rparr>) of
                   Inl err \<Rightarrow> (m, st)
                 | Inr (slave, m1) \<Rightarrow>
                     (m1, sentinelEvent REDIS_NOTICE ''+slave'' (of_instance slave m1) True [] st))
              else (m, st)))
      else (m, st))"

definition info_role :: "string \<Rightarrow> 32 word \<Rightarrow> 32 word" where
  "info_role l role =
     (if take 11 l = ''role:master'' then SRI_MASTER
      else if take 10 l = ''role:slave'' then SRI_SLAVE
      else role)"

definition info_slave_fields :: "env \<Rightarrow> string \<Rightarrow> sentinelRedisInstance \<Rightarrow> sentinelRedisInstance" where
  "info_slave_fields e l ri =
     (let ri1 = (if length l \<ge> 12 \<and> take 12 l = ''master_host:'' then
                   (if (case slave_master_host ri of
                          None \<Rightarrow> True
                        | Some h \<Rightarrow> strcasecmp (drop 12 l) h \<noteq> 0)
                    then ri\<lparr>slave_master_host := Some (drop 12 l),
                            slave_conf_change_time := now e\<rparr>
                    else ri)
                 else ri);
          ri2 = (if length l \<ge> 12 \<and> take 12 l = ''master_port:'' then
                   (if slave_master_port ri1 \<noteq> atoi e (drop 12 l)
                    then ri1\<lparr>slave_master_port := atoi e (drop 12 l),
                             slave_conf_change_time := now e\<rparr>
                    else ri1)
                 else ri1);
          ri3 = (if length l \<ge> 19 \<and> take 19 l = ''master_link_status:'' then
                   ri2\<lparr>slave_master_link_status :=
                         (if strcasecmp (drop 19 l) ''up'' = 0 then SENTINEL_MASTER_LINK_STATUS_UP
                          else SENTINEL_MASTER_LINK_STATUS_DOWN)\<rparr>
                 else ri2)
      in if length l \<ge> 15 \<and> take 15 l = ''slave_priority:''
         then ri3\<lparr>slave_priority := atoi e (drop 15 l)\<rparr> else ri3)"

definition info_line ::
  "env \<Rightarrow> iref \<Rightarrow> string \<Rightarrow> sentinelRedisInstance \<times> master \<times> 32 word \<times> sentinelState
     \<Rightarrow> sentinelRedisInstance \<times> master \<times> 32 word \<times> sentinelState" where
  "info_line e r l x =
     (let ri = fst x; m = fst (snd x); role = fst (snd (snd x)); st = snd (snd (snd x));
          a = info_run_id m r l (ri, st);
          b = info_slave_line e r l (fst a) (m, snd a);
          ri1 = (if length l \<ge> 32 \<and> take 30 l = ''master_link_down_since_seconds''
                 then (fst a)\<lparr>master_link_down_time := strtoll e (drop 31 l) * 1000\<rparr>
                 else fst a);
          role1 = info_role l role;
          ri2 = (if role1 = SRI_SLAVE then info_slave_fields e l ri1 else ri1)
      in (ri2, fst b, role1, snd b))"

text \<open>The acting half of \<^verbatim>\<open>sentinelRefreshInstanceInfo\<close>, one definition for each
  \<^verbatim>\<open>if\<close> of the source.\<close>

definition info_master_to_slave :: "env \<Rightarrow> 32 word \<Rightarrow> sentinelRedisInstance \<Rightarrow> sentinelRedisInstance" where
  "info_master_to_slave e role ri =
     (if flags ri AND SRI_MASTER \<noteq> 0 \<and> role = SRI_SLAVE \<and> role_reported ri \<noteq> SRI_SLAVE
      then ri\<lparr>role_reported_time := now e, role_reported := SRI_SLAVE,
              slave_conf_change_time := now e\<rparr>
      else ri)"

definition info_slave_to_master ::
  "env \<Rightarrow> 32 word \<Rightarrow> sentinelRedisInstance \<times> master \<times> sentinelState
     \<Rightarrow> sentinelRedisInstance \<times> master \<times> sentinelState" where
  "info_slave_to_master e role x =
     (let ri0 = fst x; m = fst (snd x); st = snd (snd x) in
      if flags ri0 AND SRI_SLAVE \<noteq> 0 \<and> role = SRI_MASTER then
        (let ri = (if role_reported ri0 \<noteq> SRI_MASTER
                   then ri0\<lparr>role_reported_time := now e, role_reported := SRI_MASTER\<rparr>
                   else ri0)
         in if \<not> tilt st \<and> flags (self m) AND SRI_FAILOVER_IN_PROGRESS \<noteq> 0
               \<and> failover_state (self m) = SENTINEL_FAILOVER_STATE_WAIT_PROMOTION then
              (let m1 = m\<lparr>self := (self m)\<lparr>config_epoch := failover_epoch (self m),
                                           failover_state := SENTINEL_FAILOVER_STATE_RECONF_SLAVES,
                                           failover_state_change_time := now e\<rparr>\<rparr>;
                   st1 = sentinelEvent REDIS_WARNING ''+promoted-slave'' (of_instance ri m1) True [] st;
                   st2 = sentinelEvent REDIS_WARNING ''+failover-state-reconf-slaves'' (of_master m1)
                           True [] st1
               in (ri, m1, sentinelCallClientReconfScript m1 SENTINEL_LEADER ''start''
                             (addr (self m1)) (addr ri) st2))
            else if \<not> tilt st then
              (let wait_time = SENTINEL_PUBLISH_PERIOD * 4 in
               if sentinelMasterLooksSane e m \<and> sentinelRedisInstanceNoDownFor e ri wait_time
                  \<and> now e - role_reported_time ri > wait_time then
                 (let s = sentinelSendSlaveOf e ri (Some (ip (addr (self m)))) (port (addr (self m)))
                  in (snd s, m,
                      if fst s then sentinelEvent REDIS_NOTICE ''+convert-to-slave''
                                      (of_instance (snd s) m) True [] st
                      else st))
               else (ri, m, st))
            else (ri, m, st))
      else (ri0, m, st))"

text \<open>\<^verbatim>\<open>strcasecmp(ri->slave_master_host, ...)\<close> reads through \<^verbatim>\<open>slave_master_host\<close>, which is
  \<^verbatim>\<open>NULL\<close> until a line \<^verbatim>\<open>master_host:\<close> has been seen.\<close>

definition info_fix_slave_config ::
  "env \<Rightarrow> 32 word \<Rightarrow> sentinelRedisInstance \<times> master \<times> sentinelState
     \<Rightarrow> sentinelRedisInstance \<times> master \<times> sentinelState" where
  "info_fix_slave_config e role x =
     (let ri = fst x; m = fst (snd x); st = snd (snd x) in
      if flags ri AND SRI_SLAVE \<noteq> 0 \<and> \<not> tilt st \<and> role = SRI_SLAVE then
        (if slave_master_port ri = port (addr (self m)) \<and> slave_master_host ri = None
         then (ri, m, st\<lparr>crashed := True\<rparr>)
         else if slave_master_port ri \<noteq> port (addr (self m))
                 \<or> (case slave_master_host ri of
                       None \<Rightarrow> False
                     | Some h \<Rightarrow> strcasecmp h (ip (addr (self m))) \<noteq> 0) then
           (let wait_time = failover_timeout (self m) in
            if sentinelMasterLooksSane e m \<and> sentinelRedisInstanceNoDownFor e ri wait_time
               \<and> now e - slave_conf_change_time ri > wait_time then
              (let s = sentinelSendSlaveOf e ri (Some (ip (addr (self m)))) (port (addr (self m)))
               in (snd s, m,
                   if fst s then sentinelEvent REDIS_NOTICE ''+fix-slave-config''
                                   (of_instance (snd s) m) True [] st
                   else st))
            else (ri, m, st))
         else (ri, m, st))
      else (ri, m, st))"

definition promoted :: "master \<Rightarrow> sentinelRedisInstance option" where
  "promoted m = (case promoted_slave (self m) of
                   None \<Rightarrow> None
                 | Some k \<Rightarrow> dictFetchValue (slaves m) k)"

definition info_reconf_progress ::
  "32 word \<Rightarrow> sentinelRedisInstance \<times> master \<times> sentinelState
     \<Rightarrow> sentinelRedisInstance \<times> master \<times> sentinelState" where
  "info_reconf_progress role x =
     (let ri = fst x; m = fst (snd x); st = snd (snd x) in
      if flags ri AND SRI_SLAVE \<noteq> 0 \<and> role = SRI_SLAVE
         \<and> flags ri AND (SRI_RECONF_SENT OR SRI_RECONF_INPROG) \<noteq> 0 then
        (if flags ri AND SRI_RECONF_SENT \<noteq> 0 \<and> slave_master_host ri \<noteq> None \<and> promoted m = None
         then (ri, m, st\<lparr>crashed := True\<rparr>)
         else
           (let a = (if flags ri AND SRI_RECONF_SENT \<noteq> 0
                        \<and> (case promoted m of
                              None \<Rightarrow> False
                            | Some ps \<Rightarrow> slave_master_host ri = Some (ip (addr ps))
                                         \<and> slave_master_port ri = port (addr ps)) then
                       (let ri1 = ri\<lparr>flags := (flags ri AND NOT SRI_RECONF_SENT) OR SRI_RECONF_INPROG\<rparr>
                        in (ri1, sentinelEvent REDIS_NOTICE ''+slave-reconf-inprog''
                                   (of_instance ri1 m) True [] st))
                     else (ri, st))
            in if flags (fst a) AND SRI_RECONF_INPROG \<noteq> 0
                  \<and> slave_master_link_status (fst a) = SENTINEL_MASTER_LINK_STATUS_UP then
                 (let ri2 = (fst a)\<lparr>flags := (flags (fst a) AND NOT SRI_RECONF_INPROG) OR SRI_RECONF_DONE\<rparr>
                  in (ri2, m, sentinelEvent REDIS_NOTICE ''+slave-reconf-done''
                                (of_instance ri2 m) True [] (snd a)))
               else (fst a, m, snd a)))
      else (ri, m, st))"

text \<open>
  \<^verbatim>\<open>sentinelRefreshInstanceInfo(ri,info)\<close> for the instance \<open>r\<close> of the master \<open>m\<close>. INFO is
  sent to masters and slaves only.
\<close>

definition sentinelRefreshInstanceInfo ::
  "env \<Rightarrow> iref \<Rightarrow> string \<Rightarrow> master \<Rightarrow> sentinelState \<Rightarrow> master \<times> sentinelState" where
  "sentinelRefreshInstanceInfo e r info m st =
     (case get_ri m r of
        None \<Rightarrow> (m, st)
      | Some ri0 \<Rightarrow>
          (let lines = sdssplitlen info [CHR 0x0D, CHR 0x0A];
               parsed = fold (info_line e r) lines (ri0\<lparr>master_link_down_time := 0\<rparr>, m, 0, st);
               ri1 = (fst parsed)\<lparr>info_refresh := now e\<rparr>;
               m1 = put_ri (fst (snd parsed)) r ri1;
               role = fst (snd (snd parsed));
               st1 = snd (snd (snd parsed));
               ri2 = info_master_to_slave e role ri1;
               a = info_slave_to_master e role (ri2, put_ri m1 r ri2, st1);
               b = info_fix_slave_config e role a
           in if tilt (snd (snd b)) then (put_ri (fst (snd b)) r (fst b), snd (snd b))
              else
                (let c = info_reconf_progress role b
                 in (put_ri (fst (snd c)) r (fst c), snd (snd c)))))"

subsection \<open>Links and probes\<close>

definition sentinelSendAuthIfNeeded :: "env \<Rightarrow> master \<Rightarrow> link \<Rightarrow> sentinelRedisInstance \<Rightarrow> sentinelRedisInstance" where
  "sentinelSendAuthIfNeeded e m c ri =
     (case (if flags ri AND SRI_MASTER \<noteq> 0 then auth_pass ri else auth_pass (self m)) of
        None \<Rightarrow> ri
      | Some pass \<Rightarrow>
          (if redisAsyncCommand_ok e (name ri) c (''AUTH '' @ pass)
           then ri\<lparr>pending_commands := pending_commands ri + 1\<rparr> else ri))"

definition SENTINEL_HELLO_CHANNEL :: string where [simp]: "SENTINEL_HELLO_CHANNEL = ''__sentinel__:hello''"

text \<open>\<^verbatim>\<open>sentinelReconnectInstance(ri)\<close> for the instance \<open>r\<close> of the master \<open>m\<close>, whose current
  value is \<open>ri\<close>. Whether \<^verbatim>\<open>redisAsyncConnect\<close> returns a context in error is
  \<open>redisAsyncConnect_err\<close>.\<close>

definition reconnect_cc ::
  "env \<Rightarrow> master \<Rightarrow> iref \<Rightarrow> sentinelRedisInstance \<times> sentinelState \<Rightarrow> sentinelRedisInstance \<times> sentinelState" where
  "reconnect_cc e m r x =
     (let ri = fst x; st = snd x in
      if \<not> cc ri then
        (if redisAsyncConnect_err e (name ri) CC then
           (sentinelKillLink CC (ri\<lparr>cc := True\<rparr>),
            sentinelEvent REDIS_DEBUG ''-cmd-link-reconnection'' (of_ri m r ri) True
              ('' #'' @ redisAsyncConnect_errstr e) st)
         else (sentinelSendAuthIfNeeded e m CC (ri\<lparr>cc := True, cc_conn_time := now e\<rparr>), st))
      else (ri, st))"

definition sentinelReconnectInstance ::
  "env \<Rightarrow> master \<Rightarrow> iref \<Rightarrow> sentinelRedisInstance \<Rightarrow> sentinelState \<Rightarrow> sentinelRedisInstance \<times> sentinelState" where
  "sentinelReconnectInstance e m r ri0 st0 =
     (if flags ri0 AND SRI_DISCONNECTED = 0 then (ri0, st0)
      else
        (let a = reconnect_cc e m r (ri0, st0); ri = fst a; st = snd a;
             clear = (\<lambda>i. if cc i \<and> (flags i AND (SRI_SLAVE OR SRI_SENTINEL) \<noteq> 0 \<or> pc i)
                           then i\<lparr>flags := flags i AND NOT SRI_DISCONNECTED\<rparr> else i)
         in if flags ri AND (SRI_MASTER OR SRI_SLAVE) \<noteq> 0 \<and> \<not> pc ri then
              (if redisAsyncConnect_err e (name ri) PC then
                 (clear (sentinelKillLink PC (ri\<lparr>pc := True\<rparr>)),
                  sentinelEvent REDIS_DEBUG ''-pubsub-link-reconnection'' (of_ri m r ri) True
                    ('' #'' @ redisAsyncConnect_errstr e) st)
               else
                 (let ri1 = sentinelSendAuthIfNeeded e m PC (ri\<lparr>pc := True, pc_conn_time := now e\<rparr>)
                  in if \<not> redisAsyncCommand_ok e (name ri1) PC (''SUBSCRIBE '' @ SENTINEL_HELLO_CHANNEL)
                     then (sentinelKillLink PC ri1, st)
                     else (clear ri1, st)))
            else (clear ri, st)))"

definition sentinelGetCurrentMasterAddress :: "master \<Rightarrow> sentinelAddr" where
  "sentinelGetCurrentMasterAddress m =
     (case promoted m of
        Some ps \<Rightarrow>
          (if flags (self m) AND SRI_FAILOVER_IN_PROGRESS \<noteq> 0
              \<and> failover_state (self m) \<ge> SENTINEL_FAILOVER_STATE_RECONF_SLAVES
           then addr ps else addr (self m))
      | None \<Rightarrow> addr (self m))"

definition hello_publish_payload :: "env \<Rightarrow> master \<Rightarrow> string \<Rightarrow> sentinelState \<Rightarrow> string" where
  "hello_publish_payload e m myip st =
     (let master_addr = sentinelGetCurrentMasterAddress m in
      myip @ '','' @ ll2string (server_port e) @ '','' @ server_runid e @ '',''
        @ (if flags (self m) AND SRI_CAN_FAILOVER \<noteq> 0 then ''1'' else ''0'') @ '',''
        @ epoch_str (current_epoch st) @ '','' @ name (self m) @ '','' @ ip master_addr @ '',''
        @ ll2string (port master_addr) @ '','' @ ll2string (sint (config_epoch (self m))))"

text \<open>\<^verbatim>\<open>sentinelPingInstance(ri)\<close>; \<open>m\<close> is \<^verbatim>\<open>ri->master\<close>, or \<open>ri\<close> itself for a master.\<close>

definition sentinelPingInstance :: "env \<Rightarrow> master \<Rightarrow> sentinelState \<Rightarrow> sentinelRedisInstance \<Rightarrow> sentinelRedisInstance" where
  "sentinelPingInstance e m st ri =
     (if flags ri AND SRI_DISCONNECTED \<noteq> 0 then ri
      else if pending_commands ri \<ge> SENTINEL_MAX_PENDING_COMMANDS then ri
      else
        (let info_period =
               (if flags ri AND SRI_SLAVE \<noteq> 0
                   \<and> flags (self m) AND (SRI_O_DOWN OR SRI_FAILOVER_IN_PROGRESS) \<noteq> 0
                then 1000 else SENTINEL_INFO_PERIOD)
         in if flags ri AND SRI_SENTINEL = 0
               \<and> (info_refresh ri = 0 \<or> now e - info_refresh ri > info_period) then
              (if redisAsyncCommand_ok e (name ri) CC ''INFO''
               then ri\<lparr>pending_commands := pending_commands ri + 1\<rparr> else ri)
            else if now e - last_pong_time ri > SENTINEL_PING_PERIOD then
              (if redisAsyncCommand_ok e (name ri) CC ''PING''
               then ri\<lparr>pending_commands := pending_commands ri + 1\<rparr> else ri)
            else if flags ri AND SRI_SENTINEL = 0
                    \<and> now e - last_pub_time ri > SENTINEL_PUBLISH_PERIOD then
              (case anetSockName e (name ri) of
                 None \<Rightarrow> ri
               | Some myip \<Rightarrow>
                   (if redisAsyncCommand_ok e (name ri) CC
                         (''PUBLISH '' @ SENTINEL_HELLO_CHANNEL @ '' '' @ hello_publish_payload e m myip st)
                    then ri\<lparr>pending_commands := pending_commands ri + 1\<rparr> else ri))
            else ri))"

text \<open>The reply callbacks of the commands link; the reply is \<open>None\<close> for \<^verbatim>\<open>NULL\<close>.\<close>

definition sentinelInfoReplyCallback ::
  "env \<Rightarrow> iref \<Rightarrow> redisReply option \<Rightarrow> master \<Rightarrow> sentinelState \<Rightarrow> master \<times> sentinelState" where
  "sentinelInfoReplyCallback e r reply m st =
     (case get_ri m r of
        None \<Rightarrow> (m, st)
      | Some ri \<Rightarrow>
          (let m1 = put_ri m r (ri\<lparr>pending_commands := pending_commands ri - 1\<rparr>)
           in case reply of
                Some (REDIS_REPLY_STRING str) \<Rightarrow> sentinelRefreshInstanceInfo e r str m1 st
              | _ \<Rightarrow> (m1, st)))"

text \<open>The delivery of an INFO reply by hiredis: the callback runs on the instance \<open>r\<close> of
  the master with key \<open>mk\<close> (\<^verbatim>\<open>c->data\<close>), which it changes in place in \<^verbatim>\<open>sentinel.masters\<close>.\<close>

definition info_reply_of :: "env \<Rightarrow> string \<Rightarrow> iref \<Rightarrow> redisReply option \<Rightarrow> sentinelState \<Rightarrow> sentinelState" where
  "info_reply_of e mk r reply st =
     (case dictFetchValue (masters st) mk of
        None \<Rightarrow> st
      | Some m \<Rightarrow>
          (let x = sentinelInfoReplyCallback e r reply m st
           in (snd x)\<lparr>masters := dictSetVal (masters (snd x)) mk (fst x)\<rparr>))"

definition sentinelPingReplyCallback :: "env \<Rightarrow> redisReply option \<Rightarrow> sentinelRedisInstance \<Rightarrow> sentinelRedisInstance" where
  "sentinelPingReplyCallback e reply ri0 =
     (let ri = ri0\<lparr>pending_commands := pending_commands ri0 - 1\<rparr>;
          status = (\<lambda>str.
            if take 4 str = ''PONG'' \<or> take 7 str = ''LOADING'' \<or> take 10 str = ''MASTERDOWN''
            then ri\<lparr>last_avail_time := now e\<rparr>
            else if take 4 str = ''BUSY'' \<and> flags ri AND SRI_S_DOWN \<noteq> 0
                    \<and> flags ri AND SRI_SCRIPT_KILL_SENT = 0 then
              (if redisAsyncCommand_ok e (name ri) CC ''SCRIPT KILL''
               then ri\<lparr>pending_commands := pending_commands ri + 1,
                       flags := flags ri OR SRI_SCRIPT_KILL_SENT\<rparr>
               else ri\<lparr>flags := flags ri OR SRI_SCRIPT_KILL_SENT\<rparr>)
            else ri)
      in case reply of
           None \<Rightarrow> ri
         | Some (REDIS_REPLY_STATUS str) \<Rightarrow> (status str)\<lparr>last_pong_time := now e\<rparr>
         | Some (REDIS_REPLY_ERROR str) \<Rightarrow> (status str)\<lparr>last_pong_time := now e\<rparr>
         | Some _ \<Rightarrow> ri\<lparr>last_pong_time := now e\<rparr>)"

definition sentinelPublishReplyCallback :: "env \<Rightarrow> redisReply option \<Rightarrow> sentinelRedisInstance \<Rightarrow> sentinelRedisInstance" where
  "sentinelPublishReplyCallback e reply ri0 =
     (let ri = ri0\<lparr>pending_commands := pending_commands ri0 - 1\<rparr>
      in case reply of
           None \<Rightarrow> ri
         | Some (REDIS_REPLY_ERROR str) \<Rightarrow> ri
         | Some _ \<Rightarrow> ri\<lparr>last_pub_time := now e\<rparr>)"

definition sentinelReceiveIsMasterDownReply :: "env \<Rightarrow> redisReply option \<Rightarrow> sentinelRedisInstance \<Rightarrow> sentinelRedisInstance" where
  "sentinelReceiveIsMasterDownReply e reply ri0 =
     (let ri = ri0\<lparr>pending_commands := pending_commands ri0 - 1\<rparr>
      in case reply of
           Some (REDIS_REPLY_ARRAY [REDIS_REPLY_INTEGER down, REDIS_REPLY_STRING l, REDIS_REPLY_INTEGER le]) \<Rightarrow>
             ri\<lparr>last_master_down_reply_time := now e,
                flags := (if down = 1 then flags ri OR SRI_MASTER_DOWN
                          else flags ri AND NOT SRI_MASTER_DOWN),
                leader := Some l,
                leader_epoch := word_of_int le\<rparr>
         | _ \<Rightarrow> ri)"

subsection \<open>Subjectively and objectively down\<close>

text \<open>Division of C, which truncates towards zero.\<close>

definition c_div :: "int \<Rightarrow> int \<Rightarrow> int" where
  "c_div a b = sgn a * sgn b * (\<bar>a\<bar> div \<bar>b\<bar>)"

definition sentinelCheckSubjectivelyDown ::
  "env \<Rightarrow> master \<Rightarrow> iref \<Rightarrow> sentinelRedisInstance \<Rightarrow> sentinelState \<Rightarrow> sentinelRedisInstance \<times> sentinelState" where
  "sentinelCheckSubjectivelyDown e m r ri0 st =
     (let elapsed = now e - last_avail_time ri0;
          ri1 = (if cc ri0 \<and> now e - cc_conn_time ri0 > SENTINEL_MIN_LINK_RECONNECT_PERIOD
                    \<and> now e - last_pong_time ri0 > c_div (down_after_period ri0) 2
                 then sentinelKillLink CC ri0 else ri0);
          ri = (if pc ri1 \<and> now e - pc_conn_time ri1 > SENTINEL_MIN_LINK_RECONNECT_PERIOD
                   \<and> now e - pc_last_activity ri1 > SENTINEL_PUBLISH_PERIOD * 3
                then sentinelKillLink PC ri1 else ri1)
      in if elapsed > down_after_period ri
            \<or> (flags ri AND SRI_MASTER \<noteq> 0 \<and> role_reported ri = SRI_SLAVE
               \<and> now e - role_reported_time ri > down_after_period ri + SENTINEL_INFO_PERIOD * 2) then
           (if flags ri AND SRI_S_DOWN = 0 then
              (ri\<lparr>s_down_since_time := now e, flags := flags ri OR SRI_S_DOWN\<rparr>,
               sentinelEvent REDIS_WARNING ''+sdown'' (of_ri m r ri) True [] st)
            else (ri, st))
         else
           (if flags ri AND SRI_S_DOWN \<noteq> 0 then
              (ri\<lparr>flags := flags ri AND NOT (SRI_S_DOWN OR SRI_SCRIPT_KILL_SENT)\<rparr>,
               sentinelEvent REDIS_WARNING ''-sdown'' (of_ri m r ri) True [] st)
            else (ri, st)))"

text \<open>The local variable \<^verbatim>\<open>quorum\<close> of \<^verbatim>\<open>sentinelCheckObjectivelyDown\<close> when the master is
  subjectively down: this sentinel and the sentinels with \<^verbatim>\<open>SRI_MASTER_DOWN\<close>.\<close>

definition down_votes :: "master \<Rightarrow> int" where
  "down_votes m = 1 + int (length (filter (\<lambda>kv. flags (snd kv) AND SRI_MASTER_DOWN \<noteq> 0) (sentinels m)))"

definition sentinelCheckObjectivelyDown :: "env \<Rightarrow> master \<Rightarrow> sentinelState \<Rightarrow> master \<times> sentinelState" where
  "sentinelCheckObjectivelyDown e m st =
     (let q = (if flags (self m) AND SRI_S_DOWN \<noteq> 0 then down_votes m else 0);
          odown = (flags (self m) AND SRI_S_DOWN \<noteq> 0 \<and> q \<ge> quorum (self m))
      in if odown then
           (if flags (self m) AND SRI_O_DOWN = 0 then
              (m\<lparr>self := (self m)\<lparr>flags := flags (self m) OR SRI_O_DOWN, o_down_since_time := now e\<rparr>\<rparr>,
               sentinelEvent REDIS_WARNING ''+odown'' (of_master m) True
                 ('' #quorum '' @ ll2string q @ ''/'' @ ll2string (quorum (self m))) st)
            else (m, st))
         else
           (if flags (self m) AND SRI_O_DOWN \<noteq> 0 then
              (m\<lparr>self := (self m)\<lparr>flags := flags (self m) AND NOT SRI_O_DOWN\<rparr>\<rparr>,
               sentinelEvent REDIS_WARNING ''-odown'' (of_master m) True [] st)
            else (m, st)))"

text \<open>The body of the loop of \<^verbatim>\<open>sentinelAskMasterStateToOtherSentinels\<close> for the sentinel
  \<open>ri\<close>.\<close>

definition ask_one :: "env \<Rightarrow> master \<Rightarrow> 32 word \<Rightarrow> 64 word \<Rightarrow> sentinelRedisInstance \<Rightarrow> sentinelRedisInstance" where
  "ask_one e m fl cur ri0 =
     (let elapsed = now e - last_master_down_reply_time ri0;
          ri = (if elapsed > SENTINEL_INFO_VALIDITY_TIME
                then ri0\<lparr>flags := flags ri0 AND NOT SRI_MASTER_DOWN, leader := None\<rparr> else ri0)
      in if flags (self m) AND SRI_S_DOWN = 0 then ri
         else if flags ri AND SRI_DISCONNECTED \<noteq> 0 then ri
         else if fl AND SENTINEL_ASK_FORCED = 0
                 \<and> now e - last_master_down_reply_time ri < SENTINEL_ASK_PERIOD then ri
         else if redisAsyncCommand_ok e (name ri) CC
                   (''SENTINEL is-master-down-by-addr '' @ ip (addr (self m)) @ '' ''
                      @ ll2string (port (addr (self m))) @ '' '' @ epoch_str cur @ '' '' @ server_runid e)
         then ri\<lparr>pending_commands := pending_commands ri + 1\<rparr>
         else ri)"

definition sentinelAskMasterStateToOtherSentinels ::
  "env \<Rightarrow> master \<Rightarrow> 32 word \<Rightarrow> sentinelState \<Rightarrow> master \<times> sentinelState" where
  "sentinelAskMasterStateToOtherSentinels e m0 fl st0 =
     (let v = (if flags (self m0) AND SRI_O_DOWN \<noteq> 0
               then snd (sentinelVoteLeader e m0 (current_epoch st0) (server_runid e) st0)
               else (m0, st0));
          m = fst v; st = snd v
      in (m\<lparr>sentinels := map (\<lambda>kv. (fst kv, ask_one e m fl (current_epoch st) (snd kv))) (sentinels m)\<rparr>,
          st))"

subsection \<open>Failover\<close>

definition sentinelStartFailover :: "env \<Rightarrow> master \<Rightarrow> sentinelState \<Rightarrow> master \<times> sentinelState" where
  "sentinelStartFailover e m st =
     (if flags (self m) AND SRI_MASTER = 0 then (m, st\<lparr>crashed := True\<rparr>)
      else
        (let st1 = st\<lparr>current_epoch := current_epoch st + 1\<rparr>;
             m1 = m\<lparr>self := (self m)\<lparr>failover_state := SENTINEL_FAILOVER_STATE_WAIT_START,
                                      flags := flags (self m) OR SRI_FAILOVER_IN_PROGRESS,
                                      failover_epoch := current_epoch st1\<rparr>\<rparr>;
             st2 = sentinelEvent REDIS_WARNING ''+new-epoch'' (of_master m1) False
                     (epoch_str (current_epoch st1)) st1;
             st3 = sentinelEvent REDIS_WARNING ''+try-failover'' (of_master m1) True [] st2
         in (m1\<lparr>self := (self m1)\<lparr>failover_start_time := now e,
                                   failover_state_change_time := now e\<rparr>\<rparr>, st3)))"

text \<open>\<^verbatim>\<open>sentinelStartFailoverIfNeeded\<close>: the first component is the returned value.\<close>

definition sentinelStartFailoverIfNeeded :: "env \<Rightarrow> master \<Rightarrow> sentinelState \<Rightarrow> bool \<times> master \<times> sentinelState" where
  "sentinelStartFailoverIfNeeded e m st =
     (if flags (self m) AND SRI_CAN_FAILOVER = 0 \<or> flags (self m) AND SRI_O_DOWN = 0 then (False, m, st)
      else if flags (self m) AND SRI_FAILOVER_IN_PROGRESS \<noteq> 0 then (False, m, st)
      else if now e - failover_start_time (self m) < failover_timeout (self m) * 2 then (False, m, st)
      else (True, sentinelStartFailover e m st))"

text \<open>\<^verbatim>\<open>compareSlavesForPromotion\<close>. The priorities are \<^verbatim>\<open>int\<close>; their difference is taken
  in \<open>int\<close>, C leaving an overflow undefined.\<close>

definition compareSlavesForPromotion :: "sentinelRedisInstance \<Rightarrow> sentinelRedisInstance \<Rightarrow> int" where
  "compareSlavesForPromotion sa sb =
     (if slave_priority sa \<noteq> slave_priority sb then c_int (slave_priority sa - slave_priority sb)
      else case (runid sa, runid sb) of
             (None, None) \<Rightarrow> 0
           | (None, Some b) \<Rightarrow> 1
           | (Some a, None) \<Rightarrow> - 1
           | (Some a, Some b) \<Rightarrow> strcasecmp a b)"

text \<open>\<^verbatim>\<open>qsort\<close> of libc, as an insertion sort: the C standard fixes no algorithm, only
  that the result is sorted by the comparison.\<close>

fun qsort_insert :: "('a \<Rightarrow> 'a \<Rightarrow> int) \<Rightarrow> 'a \<Rightarrow> 'a list \<Rightarrow> 'a list" where
  "qsort_insert cmp x [] = [x]"
| "qsort_insert cmp x (y # ys) =
     (if cmp x y \<le> 0 then x # y # ys else y # qsort_insert cmp x ys)"

definition qsort :: "('a \<Rightarrow> 'a \<Rightarrow> int) \<Rightarrow> 'a list \<Rightarrow> 'a list" where
  "qsort cmp xs = foldr (qsort_insert cmp) xs []"

text \<open>The test of the loop of \<^verbatim>\<open>sentinelSelectSlave\<close>: the slave is not skipped by a
  \<^verbatim>\<open>continue\<close>.\<close>

definition slave_is_candidate :: "env \<Rightarrow> master \<Rightarrow> sentinelRedisInstance \<Rightarrow> bool" where
  "slave_is_candidate e m slave =
     (let max_master_down_time =
            (if flags (self m) AND SRI_S_DOWN \<noteq> 0 then now e - s_down_since_time (self m) else 0)
              + down_after_period (self m) * 10;
          info_validity_time = now e - SENTINEL_INFO_VALIDITY_TIME;
          info_validity_time2 = (if flags (self m) AND SRI_S_DOWN = 0
                                 then info_validity_time - SENTINEL_INFO_PERIOD
                                 else info_validity_time)
      in \<not> (flags slave AND (SRI_S_DOWN OR SRI_O_DOWN OR SRI_DISCONNECTED) \<noteq> 0)
         \<and> \<not> (last_avail_time slave < info_validity_time)
         \<and> \<not> (slave_priority slave = 0)
         \<and> \<not> (info_refresh slave < info_validity_time2)
         \<and> \<not> (master_link_down_time slave > max_master_down_time))"

text \<open>\<^verbatim>\<open>sentinelSelectSlave\<close> returns the selected slave with its key in \<^verbatim>\<open>master->slaves\<close>.\<close>

definition sentinelSelectSlave :: "env \<Rightarrow> master \<Rightarrow> (string \<times> sentinelRedisInstance) option" where
  "sentinelSelectSlave e m =
     (let instance = filter (\<lambda>kv. slave_is_candidate e m (snd kv)) (slaves m)
      in case qsort (\<lambda>a b. compareSlavesForPromotion (snd a) (snd b)) instance of
           [] \<Rightarrow> None
         | selected # rest \<Rightarrow> Some selected)"

definition sentinelAbortFailover :: "env \<Rightarrow> master \<Rightarrow> sentinelState \<Rightarrow> master \<times> sentinelState" where
  "sentinelAbortFailover e m st =
     (if flags (self m) AND SRI_FAILOVER_IN_PROGRESS = 0
         \<or> \<not> failover_state (self m) \<le> SENTINEL_FAILOVER_STATE_WAIT_PROMOTION
      then (m, st\<lparr>crashed := True\<rparr>)
      else
        (let m1 = m\<lparr>slaves := map (\<lambda>kv. (fst kv, (snd kv)\<lparr>flags := flags (snd kv) AND NOT
                                   (SRI_RECONF_SENT OR SRI_RECONF_INPROG OR SRI_RECONF_DONE)\<rparr>))
                                 (slaves m)\<rparr>;
             m2 = m1\<lparr>self := (self m1)\<lparr>flags := flags (self m1) AND NOT
                                           (SRI_FAILOVER_IN_PROGRESS OR SRI_FORCE_FAILOVER),
                                       failover_state := SENTINEL_FAILOVER_STATE_NONE,
                                       failover_state_change_time := now e\<rparr>\<rparr>
         in case promoted_slave (self m2) of
              None \<Rightarrow> (m2, st)
            | Some k \<Rightarrow>
                (case dictFetchValue (slaves m2) k of
                   None \<Rightarrow> (m2, st\<lparr>crashed := True\<rparr>)
                 | Some ps \<Rightarrow>
                     ((put_ri m2 (RSlave k) (ps\<lparr>flags := flags ps AND NOT SRI_PROMOTED\<rparr>))
                        \<lparr>self := (self m2)\<lparr>promoted_slave := None\<rparr>\<rparr>,
                      sentinelCallClientReconfScript m2 SENTINEL_LEADER ''abort''
                        (addr ps) (addr (self m2)) st))))"

definition sentinelFailoverWaitStart :: "env \<Rightarrow> master \<Rightarrow> sentinelState \<Rightarrow> master \<times> sentinelState" where
  "sentinelFailoverWaitStart e m0 st0 =
     (let g = sentinelGetLeader e m0 (failover_epoch (self m0)) st0;
          m = fst (snd g); st = snd (snd g);
          isleader = (case fst g of
                        None \<Rightarrow> False
                      | Some l \<Rightarrow> strcasecmp l (server_runid e) = 0)
      in if \<not> isleader then
           (let election_timeout =
                  (if SENTINEL_ELECTION_TIMEOUT > failover_timeout (self m)
                   then failover_timeout (self m) else SENTINEL_ELECTION_TIMEOUT)
            in if now e - failover_start_time (self m) > election_timeout then
                 sentinelAbortFailover e m
                   (sentinelEvent REDIS_WARNING ''-failover-abort-not-elected'' (of_master m) True [] st)
               else (m, st))
         else
           (let st1 = sentinelEvent REDIS_WARNING ''+elected-leader'' (of_master m) True [] st;
                m1 = m\<lparr>self := (self m)\<lparr>failover_state := SENTINEL_FAILOVER_STATE_SELECT_SLAVE,
                                         failover_state_change_time := now e\<rparr>\<rparr>
            in (m1, sentinelEvent REDIS_WARNING ''+failover-state-select-slave'' (of_master m1) True [] st1)))"

definition sentinelFailoverSelectSlave :: "env \<Rightarrow> master \<Rightarrow> sentinelState \<Rightarrow> master \<times> sentinelState" where
  "sentinelFailoverSelectSlave e m st =
     (case sentinelSelectSlave e m of
        None \<Rightarrow>
          sentinelAbortFailover e m
            (sentinelEvent REDIS_WARNING ''-failover-abort-no-good-slave'' (of_master m) True [] st)
      | Some (k, slave) \<Rightarrow>
          (let st1 = sentinelEvent REDIS_WARNING ''+selected-slave'' (of_instance slave m) True [] st;
               slave1 = slave\<lparr>flags := flags slave OR SRI_PROMOTED\<rparr>;
               m1 = (put_ri m (RSlave k) slave1)
                      \<lparr>self := (self m)\<lparr>promoted_slave := Some k,
                                       failover_state := SENTINEL_FAILOVER_STATE_SEND_SLAVEOF_NOONE,
                                       failover_state_change_time := now e\<rparr>\<rparr>
           in (m1, sentinelEvent REDIS_NOTICE ''+failover-state-send-slaveof-noone''
                     (of_instance slave1 m1) True [] st1)))"

definition sentinelFailoverSendSlaveOfNoOne :: "env \<Rightarrow> master \<Rightarrow> sentinelState \<Rightarrow> master \<times> sentinelState" where
  "sentinelFailoverSendSlaveOfNoOne e m st =
     (case promoted_slave (self m) of
        None \<Rightarrow> (m, st\<lparr>crashed := True\<rparr>)
      | Some k \<Rightarrow>
          (case dictFetchValue (slaves m) k of
             None \<Rightarrow> (m, st\<lparr>crashed := True\<rparr>)
           | Some ps \<Rightarrow>
               (if flags ps AND SRI_DISCONNECTED \<noteq> 0 then
                  (if now e - failover_state_change_time (self m) > failover_timeout (self m) then
                     sentinelAbortFailover e m
                       (sentinelEvent REDIS_WARNING ''-failover-abort-slave-timeout'' (of_master m) True [] st)
                   else (m, st))
                else
                  (let s = sentinelSendSlaveOf e ps None 0;
                       m1 = put_ri m (RSlave k) (snd s)
                   in if \<not> fst s then (m1, st)
                      else
                        (m1\<lparr>self := (self m1)\<lparr>failover_state := SENTINEL_FAILOVER_STATE_WAIT_PROMOTION,
                                               failover_state_change_time := now e\<rparr>\<rparr>,
                         sentinelEvent REDIS_NOTICE ''+failover-state-wait-promotion''
                           (of_instance (snd s) m1) True [] st)))))"

definition sentinelFailoverWaitPromotion :: "env \<Rightarrow> master \<Rightarrow> sentinelState \<Rightarrow> master \<times> sentinelState" where
  "sentinelFailoverWaitPromotion e m st =
     (if now e - failover_state_change_time (self m) > failover_timeout (self m) then
        sentinelAbortFailover e m
          (sentinelEvent REDIS_WARNING ''-failover-abort-slave-timeout'' (of_master m) True [] st)
      else (m, st))"

text \<open>The loop of \<^verbatim>\<open>sentinelFailoverDetectEnd\<close> that runs after a timeout: a best effort
  \<^verbatim>\<open>SLAVEOF\<close> to the slaves still not reconfigured; \<open>pa\<close> is the address of the promoted
  slave.\<close>

fun detect_end_resend ::
  "env \<Rightarrow> master \<Rightarrow> sentinelAddr \<Rightarrow> instances \<Rightarrow> sentinelState \<Rightarrow> instances \<times> sentinelState" where
  "detect_end_resend e m pa [] st = ([], st)"
| "detect_end_resend e m pa ((k, slave) # rest) st =
     (if flags slave AND (SRI_RECONF_DONE OR SRI_RECONF_SENT OR SRI_DISCONNECTED) \<noteq> 0 then
        (let r = detect_end_resend e m pa rest st in ((k, slave) # fst r, snd r))
      else
        (let s = sentinelSendSlaveOf e slave (Some (ip pa)) (port pa) in
         if fst s then
           (let r = detect_end_resend e m pa rest
                      (sentinelEvent REDIS_NOTICE ''+slave-reconf-sent-be'' (of_instance (snd s) m) True [] st)
            in ((k, (snd s)\<lparr>flags := flags (snd s) OR SRI_RECONF_SENT\<rparr>) # fst r, snd r))
         else
           (let r = detect_end_resend e m pa rest st in ((k, snd s) # fst r, snd r))))"

definition sentinelFailoverDetectEnd :: "env \<Rightarrow> master \<Rightarrow> sentinelState \<Rightarrow> master \<times> sentinelState" where
  "sentinelFailoverDetectEnd e m st =
     (let elapsed = now e - failover_state_change_time (self m) in
      case promoted m of
        None \<Rightarrow> (if promoted_slave (self m) = None then (m, st) else (m, st\<lparr>crashed := True\<rparr>))
      | Some ps \<Rightarrow>
          (if flags ps AND SRI_S_DOWN \<noteq> 0 then (m, st)
           else
             (let counted = length (filter (\<lambda>kv. flags (snd kv) AND (SRI_PROMOTED OR SRI_RECONF_DONE) = 0
                                                 \<and> flags (snd kv) AND SRI_S_DOWN = 0) (slaves m));
                  timeout = (elapsed > failover_timeout (self m));
                  not_reconfigured = (if timeout then 0 else counted);
                  st1 = (if timeout then
                           sentinelEvent REDIS_WARNING ''+failover-end-for-timeout'' (of_master m) True [] st
                         else st);
                  r = (if not_reconfigured = 0 then
                         (let m1 = m\<lparr>self := (self m)\<lparr>failover_state := SENTINEL_FAILOVER_STATE_UPDATE_CONFIG,
                                                       failover_state_change_time := now e\<rparr>\<rparr>
                          in (m1, sentinelCallClientReconfScript m1 SENTINEL_LEADER ''end''
                                    (addr (self m1)) (addr ps)
                                    (sentinelEvent REDIS_WARNING ''+failover-end'' (of_master m) True [] st1)))
                       else (m, st1))
              in if timeout then
                   (let d = detect_end_resend e (fst r) (addr ps) (slaves (fst r)) (snd r)
                    in ((fst r)\<lparr>slaves := fst d\<rparr>, snd d))
                 else r)))"

text \<open>The second loop of \<^verbatim>\<open>sentinelFailoverReconfNextSlave\<close>, with the local variable
  \<^verbatim>\<open>in_progress\<close>; \<open>pa\<close> is the address of the promoted slave, \<open>None\<close> for a \<^verbatim>\<open>NULL\<close>
  pointer.\<close>

fun reconf_next ::
  "env \<Rightarrow> master \<Rightarrow> sentinelAddr option \<Rightarrow> int \<Rightarrow> instances \<Rightarrow> sentinelState \<Rightarrow> instances \<times> sentinelState" where
  "reconf_next e m pa in_progress [] st = ([], st)"
| "reconf_next e m pa in_progress ((k, slave0) # rest) st =
     (if \<not> in_progress < parallel_syncs (self m) then ((k, slave0) # rest, st)
      else if flags slave0 AND (SRI_PROMOTED OR SRI_RECONF_DONE) \<noteq> 0 then
        (let r = reconf_next e m pa in_progress rest st in ((k, slave0) # fst r, snd r))
      else
        (let expired = (flags slave0 AND SRI_RECONF_SENT \<noteq> 0
                        \<and> now e - slave_reconf_sent_time slave0 > SENTINEL_SLAVE_RECONF_RETRY_PERIOD);
             slave = (if expired then slave0\<lparr>flags := flags slave0 AND NOT SRI_RECONF_SENT\<rparr> else slave0);
             st1 = (if expired then
                      sentinelEvent REDIS_NOTICE ''-slave-reconf-sent-timeout'' (of_instance slave0 m) True [] st
                    else st)
         in if flags slave AND (SRI_DISCONNECTED OR SRI_RECONF_SENT OR SRI_RECONF_INPROG) \<noteq> 0 then
              (let r = reconf_next e m pa in_progress rest st1 in ((k, slave) # fst r, snd r))
            else
              (case pa of
                 None \<Rightarrow> ((k, slave) # rest, st1\<lparr>crashed := True\<rparr>)
               | Some a \<Rightarrow>
                   (let s = sentinelSendSlaveOf e slave (Some (ip a)) (port a) in
                    if fst s then
                      (let slave1 = (snd s)\<lparr>flags := flags (snd s) OR SRI_RECONF_SENT,
                                            slave_reconf_sent_time := now e\<rparr>;
                           r = reconf_next e m pa (in_progress + 1) rest
                                 (sentinelEvent REDIS_NOTICE ''+slave-reconf-sent'' (of_instance slave1 m) True [] st1)
                       in ((k, slave1) # fst r, snd r))
                    else
                      (let r = reconf_next e m pa in_progress rest st1 in ((k, snd s) # fst r, snd r))))))"

text \<open>The number of slaves that carry \<^verbatim>\<open>SRI_RECONF_SENT\<close> or \<^verbatim>\<open>SRI_RECONF_INPROG\<close>: the
  first loop of \<^verbatim>\<open>sentinelFailoverReconfNextSlave\<close>.\<close>

definition reconf_in_progress :: "instances \<Rightarrow> nat" where
  "reconf_in_progress d =
     length (filter (\<lambda>kv. flags (snd kv) AND (SRI_RECONF_SENT OR SRI_RECONF_INPROG) \<noteq> 0) d)"

definition sentinelFailoverReconfNextSlave :: "env \<Rightarrow> master \<Rightarrow> sentinelState \<Rightarrow> master \<times> sentinelState" where
  "sentinelFailoverReconfNextSlave e m st =
     (let in_progress = int (reconf_in_progress (slaves m));
          r = reconf_next e m (map_option addr (promoted m)) in_progress (slaves m) st
      in sentinelFailoverDetectEnd e (m\<lparr>slaves := fst r\<rparr>) (snd r))"

definition sentinelFailoverSwitchToPromotedSlave :: "env \<Rightarrow> master \<Rightarrow> sentinelState \<Rightarrow> master \<times> sentinelState" where
  "sentinelFailoverSwitchToPromotedSlave e m st =
     (if promoted_slave (self m) \<noteq> None \<and> promoted m = None then (m, st\<lparr>crashed := True\<rparr>)
      else
        (let ref = (case promoted m of Some ps \<Rightarrow> ps | None \<Rightarrow> self m);
             st1 = sentinelEvent REDIS_WARNING ''+switch-master'' (of_master m) False
                     (name (self m) @ '' '' @ ip (addr (self m)) @ '' '' @ ll2string (port (addr (self m)))
                        @ '' '' @ ip (addr ref) @ '' '' @ ll2string (port (addr ref))) st
         in snd (sentinelResetMasterAndChangeAddress e m (ip (addr ref)) (port (addr ref)) st1)))"

definition sentinelFailoverStateMachine :: "env \<Rightarrow> master \<Rightarrow> sentinelState \<Rightarrow> master \<times> sentinelState" where
  "sentinelFailoverStateMachine e m st =
     (if flags (self m) AND SRI_MASTER = 0 then (m, st\<lparr>crashed := True\<rparr>)
      else if flags (self m) AND SRI_FAILOVER_IN_PROGRESS = 0 then (m, st)
      else if failover_state (self m) = SENTINEL_FAILOVER_STATE_WAIT_START then
        sentinelFailoverWaitStart e m st
      else if failover_state (self m) = SENTINEL_FAILOVER_STATE_SELECT_SLAVE then
        sentinelFailoverSelectSlave e m st
      else if failover_state (self m) = SENTINEL_FAILOVER_STATE_SEND_SLAVEOF_NOONE then
        sentinelFailoverSendSlaveOfNoOne e m st
      else if failover_state (self m) = SENTINEL_FAILOVER_STATE_WAIT_PROMOTION then
        sentinelFailoverWaitPromotion e m st
      else if failover_state (self m) = SENTINEL_FAILOVER_STATE_RECONF_SLAVES then
        sentinelFailoverReconfNextSlave e m st
      else (m, st))"

subsection \<open>The SENTINEL command\<close>

text \<open>
  The two subcommands of \<^verbatim>\<open>sentinelCommand\<close> that act on the state.
  \<open>IS_MASTER_DOWN_BY_ADDR ip port req_epoch runid\<close> is the request after
  \<^verbatim>\<open>getLongFromObjectOrReply\<close> and \<^verbatim>\<open>getLongLongFromObjectOrReply\<close> have read the numbers
  (\<^verbatim>\<open>c->argc == 6\<close>); \<open>FAILOVER args\<close> carries the arguments after the subcommand.
\<close>

datatype sentinel_request =
    IS_MASTER_DOWN_BY_ADDR string int int string
  | FAILOVER "string list"

datatype sentinel_reply =
    ReplyError string
  | ReplyOk
  | ReplyIsMasterDown bool string int

text \<open>The lookup of \<^verbatim>\<open>getSentinelRedisInstanceByAddrAndRunID(sentinel.masters,ip,port,NULL)\<close>.\<close>

definition master_by_addr :: "sentinelState \<Rightarrow> string \<Rightarrow> int \<Rightarrow> (string \<times> master) option" where
  "master_by_addr st ip' p =
     find (\<lambda>kv. ip (addr (self (snd kv))) = ip' \<and> port (addr (self (snd kv))) = p) (masters st)"

definition sentinelCommand :: "env \<Rightarrow> sentinel_request \<Rightarrow> sentinelState \<Rightarrow> sentinel_reply \<times> sentinelState" where
  "sentinelCommand e req st =
     (case req of
        IS_MASTER_DOWN_BY_ADDR ip' p req_epoch req_runid \<Rightarrow>
          (case master_by_addr st ip' p of
             None \<Rightarrow> (ReplyIsMasterDown False ''?'' 0, st)
           | Some (k, ri) \<Rightarrow>
               (let isdown = (\<not> tilt st \<and> flags (self ri) AND SRI_S_DOWN \<noteq> 0
                              \<and> flags (self ri) AND SRI_MASTER \<noteq> 0)
                in if flags (self ri) AND SRI_MASTER \<noteq> 0 then
                     (let v = sentinelVoteLeader e ri (word_of_int req_epoch) req_runid st;
                          st1 = snd (snd v)
                      in (ReplyIsMasterDown isdown
                            (case fst (fst v) of Some l \<Rightarrow> l | None \<Rightarrow> ''?'')
                            (sint (snd (fst v))),
                          st1\<lparr>masters := dictSetVal (masters st1) k (fst (snd v))\<rparr>))
                   else (ReplyIsMasterDown isdown ''?'' 0, st)))
      | FAILOVER args \<Rightarrow>
          (case args of
             [nm] \<Rightarrow>
               (case dictFetchValue (masters st) nm of
                  None \<Rightarrow> (ReplyError ''No such master with that name'', st)
                | Some ri \<Rightarrow>
                    (if flags (self ri) AND SRI_FAILOVER_IN_PROGRESS \<noteq> 0 then
                       (ReplyError ''-INPROG Failover already in progress'', st)
                     else if sentinelSelectSlave e ri = None then
                       (ReplyError ''-NOGOODSLAVE No suitable slave to promote'', st)
                     else
                       (let f = sentinelStartFailover e ri st;
                            ri1 = (fst f)\<lparr>self := (self (fst f))\<lparr>flags := flags (self (fst f))
                                                                     OR SRI_FORCE_FAILOVER\<rparr>\<rparr>
                        in (ReplyOk, (snd f)\<lparr>masters := dictSetVal (masters (snd f)) nm ri1\<rparr>))))
           | _ \<Rightarrow> (ReplyError (''Wrong number of commands for '' @ [CHR 0x27] @ ''sentinel failover''
                                  @ [CHR 0x27]), st)))"

subsection \<open>The timer\<close>

text \<open>The part of \<^verbatim>\<open>sentinelHandleRedisInstance\<close> under ``Only masters''.\<close>

definition handle_only_masters :: "env \<Rightarrow> master \<Rightarrow> sentinelState \<Rightarrow> master \<times> sentinelState" where
  "handle_only_masters e m st =
     (let a = sentinelCheckObjectivelyDown e m st;
          b = sentinelStartFailoverIfNeeded e (fst a) (snd a);
          c = (if fst b then sentinelAskMasterStateToOtherSentinels e (fst (snd b)) SENTINEL_ASK_FORCED
                               (snd (snd b))
               else snd b);
          d = sentinelFailoverStateMachine e (fst c) (snd c)
      in sentinelAskMasterStateToOtherSentinels e (fst d) SENTINEL_NO_FLAGS (snd d))"

text \<open>\<^verbatim>\<open>sentinelHandleRedisInstance(ri)\<close> for the instance \<open>r\<close> of the master \<open>m\<close>. Only the
  masters of \<^verbatim>\<open>sentinel.masters\<close> carry \<^verbatim>\<open>SRI_MASTER\<close>.\<close>

definition sentinelHandleRedisInstance :: "env \<Rightarrow> iref \<Rightarrow> master \<Rightarrow> sentinelState \<Rightarrow> master \<times> sentinelState" where
  "sentinelHandleRedisInstance e r m st =
     (case get_ri m r of
        None \<Rightarrow> (m, st)
      | Some ri0 \<Rightarrow>
          (let a = sentinelReconnectInstance e m r ri0 st;
               ri1 = sentinelPingInstance e (put_ri m r (fst a)) (snd a) (fst a);
               m1 = put_ri m r ri1;
               st1 = snd a
           in if tilt st1 \<and> now e - tilt_start_time st1 < SENTINEL_TILT_PERIOD then (m1, st1)
              else
                (let st2 = (if tilt st1 then
                              sentinelEvent REDIS_WARNING ''-tilt'' None False ''#tilt mode exited''
                                (st1\<lparr>tilt := False\<rparr>)
                            else st1);
                     b = sentinelCheckSubjectivelyDown e m1 r ri1 st2;
                     m2 = put_ri m1 r (fst b)
                 in if r = RMaster \<and> flags (fst b) AND SRI_MASTER \<noteq> 0
                    then handle_only_masters e m2 (snd b)
                    else (m2, snd b))))"

text \<open>\<^verbatim>\<open>sentinelHandleDictOfRedisInstances\<close> on the slaves and on the sentinels of a master,
  and on \<^verbatim>\<open>sentinel.masters\<close>; \<open>switch_to_promoted\<close> is the key of the last master seen in
  the state \<^verbatim>\<open>SENTINEL_FAILOVER_STATE_UPDATE_CONFIG\<close>.\<close>

definition handle_slaves :: "env \<Rightarrow> master \<Rightarrow> sentinelState \<Rightarrow> master \<times> sentinelState" where
  "handle_slaves e m st =
     fold (\<lambda>k x. sentinelHandleRedisInstance e (RSlave k) (fst x) (snd x)) (map fst (slaves m)) (m, st)"

definition handle_sentinels :: "env \<Rightarrow> master \<Rightarrow> sentinelState \<Rightarrow> master \<times> sentinelState" where
  "handle_sentinels e m st =
     fold (\<lambda>k x. sentinelHandleRedisInstance e (RSentinel k) (fst x) (snd x)) (map fst (sentinels m)) (m, st)"

definition handle_master :: "env \<Rightarrow> string \<Rightarrow> sentinelState \<times> string option \<Rightarrow> sentinelState \<times> string option" where
  "handle_master e k x =
     (case dictFetchValue (masters (fst x)) k of
        None \<Rightarrow> x
      | Some ri \<Rightarrow>
          (let a = sentinelHandleRedisInstance e RMaster ri (fst x);
               b = (if flags (self (fst a)) AND SRI_MASTER \<noteq> 0
                    then (let s = handle_slaves e (fst a) (snd a) in handle_sentinels e (fst s) (snd s))
                    else a);
               st1 = (snd b)\<lparr>masters := dictSetVal (masters (snd b)) k (fst b)\<rparr>
           in (st1, if flags (self (fst b)) AND SRI_MASTER \<noteq> 0
                       \<and> failover_state (self (fst b)) = SENTINEL_FAILOVER_STATE_UPDATE_CONFIG
                    then Some k else snd x)))"

definition sentinelHandleDictOfRedisInstances :: "env \<Rightarrow> sentinelState \<Rightarrow> sentinelState" where
  "sentinelHandleDictOfRedisInstances e st =
     (let x = fold (handle_master e) (map fst (masters st)) (st, None)
      in case snd x of
           None \<Rightarrow> fst x
         | Some k \<Rightarrow>
             (case dictFetchValue (masters (fst x)) k of
                None \<Rightarrow> fst x
              | Some ri \<Rightarrow>
                  (let s = sentinelFailoverSwitchToPromotedSlave e ri (fst x)
                   in (snd s)\<lparr>masters := dictSetVal (masters (snd s)) k (fst s)\<rparr>)))"

definition sentinelCheckTiltCondition :: "env \<Rightarrow> sentinelState \<Rightarrow> sentinelState" where
  "sentinelCheckTiltCondition e st =
     (let delta = now e - previous_time st;
          st1 = (if delta < 0 \<or> delta > SENTINEL_TILT_TRIGGER then
                   sentinelEvent REDIS_WARNING ''+tilt'' None False ''#tilt mode entered''
                     (st\<lparr>tilt := True, tilt_start_time := now e\<rparr>)
                 else st)
      in st1\<lparr>previous_time := now e\<rparr>)"

text \<open>
  The order of the promotion as the specification words it: ascending by priority, then
  by run id, a missing run id last. Run ids are compared as \<^verbatim>\<open>strcasecmp\<close> compares them,
  byte by byte without regard to case.
\<close>

definition lower_bytes :: "string \<Rightarrow> nat list" where
  "lower_bytes s = map tolower_c (cstr s)"

definition runid_le :: "string option \<Rightarrow> string option \<Rightarrow> bool" where
  "runid_le a b =
     (case (a, b) of
        (None, None) \<Rightarrow> True
      | (None, Some y) \<Rightarrow> False
      | (Some x, None) \<Rightarrow> True
      | (Some x, Some y) \<Rightarrow>
          lower_bytes x = lower_bytes y \<or> (lower_bytes x, lower_bytes y) \<in> lexord {(u, v). u < v})"

definition promotion_le :: "sentinelRedisInstance \<Rightarrow> sentinelRedisInstance \<Rightarrow> bool" where
  "promotion_le sa sb \<longleftrightarrow>
     slave_priority sa < slave_priority sb
     \<or> (slave_priority sa = slave_priority sb \<and> runid_le (runid sa) (runid sb))"

text \<open>The difference of the priorities of two slaves is an \<^verbatim>\<open>int\<close>: the subtraction of
  \<^verbatim>\<open>compareSlavesForPromotion\<close> does not overflow.\<close>

definition priorities_comparable :: "sentinelRedisInstance \<Rightarrow> sentinelRedisInstance \<Rightarrow> bool" where
  "priorities_comparable sa sb \<longleftrightarrow>
     - (2 ^ 31) \<le> slave_priority sa - slave_priority sb \<and> slave_priority sa - slave_priority sb < 2 ^ 31"

text \<open>The eligibility filter as the specification words it.\<close>

definition eligible_for_promotion :: "env \<Rightarrow> master \<Rightarrow> sentinelRedisInstance \<Rightarrow> bool" where
  "eligible_for_promotion e m s \<longleftrightarrow>
     flags s AND SRI_S_DOWN = 0 \<and> flags s AND SRI_O_DOWN = 0 \<and> flags s AND SRI_DISCONNECTED = 0
     \<and> now e - last_avail_time s \<le> SENTINEL_INFO_VALIDITY_TIME
     \<and> now e - info_refresh s \<le> SENTINEL_INFO_VALIDITY_TIME
           + (if flags (self m) AND SRI_S_DOWN = 0 then SENTINEL_INFO_PERIOD else 0)
     \<and> slave_priority s \<noteq> 0
     \<and> master_link_down_time s \<le>
           (if flags (self m) AND SRI_S_DOWN \<noteq> 0 then now e - s_down_since_time (self m) else 0)
             + 10 * down_after_period (self m)"

text \<open>
  The tally of the leader election as the specification words it: the vote of a peer
  counts when its leader is not null and its \<open>leader_epoch\<close> is the current epoch; the
  own vote, obtained from the vote routine, counts when its epoch is the epoch asked for.
\<close>

definition vote_counted :: "64 word \<Rightarrow> sentinelRedisInstance \<Rightarrow> bool" where
  "vote_counted cur ri \<longleftrightarrow> leader ri \<noteq> None \<and> leader_epoch ri = cur"

definition peer_votes :: "64 word \<Rightarrow> instances \<Rightarrow> string \<Rightarrow> nat" where
  "peer_votes cur ss rid =
     length (filter (\<lambda>kv. vote_counted cur (snd kv) \<and> leader (snd kv) = Some rid) ss)"

definition peer_voters :: "64 word \<Rightarrow> instances \<Rightarrow> nat" where
  "peer_voters cur ss = length (filter (\<lambda>kv. vote_counted cur (snd kv)) ss)"

definition own_vote :: "env \<Rightarrow> master \<Rightarrow> 64 word \<Rightarrow> sentinelState \<Rightarrow> string option" where
  "own_vote e m epoch st =
     (let r = sentinelVoteLeader e m epoch (server_runid e) st
      in if snd (fst r) = epoch then fst (fst r) else None)"

definition tally :: "env \<Rightarrow> master \<Rightarrow> 64 word \<Rightarrow> sentinelState \<Rightarrow> string \<Rightarrow> nat" where
  "tally e m epoch st rid =
     (let r = sentinelVoteLeader e m epoch (server_runid e) st
      in (if own_vote e m epoch st = Some rid then 1 else 0)
         + peer_votes (current_epoch (snd (snd r))) (sentinels (fst (snd r))) rid)"

definition voters_count :: "env \<Rightarrow> master \<Rightarrow> 64 word \<Rightarrow> sentinelState \<Rightarrow> nat" where
  "voters_count e m epoch st =
     (let r = sentinelVoteLeader e m epoch (server_runid e) st
      in (if own_vote e m epoch st \<noteq> None then 1 else 0)
         + peer_voters (current_epoch (snd (snd r))) (sentinels (fst (snd r))))"

text \<open>The votes that the counters hold for a run id.\<close>

definition votes_of :: "(string \<times> nat) list \<Rightarrow> string \<Rightarrow> nat" where
  "votes_of counters rid = (case map_of counters rid of None \<Rightarrow> 0 | Some v \<Rightarrow> v)"


text \<open>The counters are well formed: no run id twice, no run id without a vote.\<close>

definition counters_ok :: "(string \<times> nat) list \<Rightarrow> bool" where
  "counters_ok c \<longleftrightarrow> distinct (map fst c) \<and> (\<forall>kv \<in> set c. 0 < snd kv)"

subsection \<open>Example configurations\<close>

text \<open>An environment at time 100000 ms in which every connection and command succeeds and
  the conversions of libc read unsigned decimal numbers.\<close>

definition dec_value :: "string \<Rightarrow> nat" where
  "dec_value s = foldl (\<lambda>acc c. acc * 10 + (of_char c - 48)) 0 (takeWhile isdigit s)"

definition env0 :: env where
  "env0 = \<lparr>now = 100000, server_runid = ''me'', server_port = 26379, rand_value = 4321,
           anetResolve = Some, redisAsyncConnect_err = (\<lambda>n c. False),
           redisAsyncCommand_ok = (\<lambda>n c cmd. True), redisAsyncConnect_errstr = [],
           anetSockName = (\<lambda>n. Some ''10.0.0.9''), fork_result = (\<lambda>a. 1),
           atoi = (\<lambda>s. int (dec_value s)), strtoll = (\<lambda>s. int (dec_value s)),
           strtoull = (\<lambda>s. of_nat (dec_value s))\<rparr>"

definition state0 :: sentinelState where
  "state0 = \<lparr>current_epoch = 0, masters = [], tilt = False, running_scripts = 0,
             tilt_start_time = 0, previous_time = 100000, scripts_queue = [], events = [],
             crashed = False\<rparr>"

text \<open>A master \<^verbatim>\<open>mymaster\<close> at 10.0.0.1:6379 with quorum 2, as the configuration creates it.\<close>

definition master0 :: master where
  "master0 = \<lparr>self = new_instance env0 ''mymaster'' SRI_MASTER \<lparr>ip = ''10.0.0.1'', port = 6379\<rparr> 2
                        SENTINEL_DOWN_AFTER_PERIOD,
              sentinels = [], slaves = []\<rparr>"

text \<open>A slave and a sentinel of that master, as \<^verbatim>\<open>createSentinelRedisInstance\<close> creates
  them, then connected.\<close>

definition slave0 :: "string \<Rightarrow> sentinelRedisInstance" where
  "slave0 host = (new_instance env0 (host @ '':6379'') SRI_SLAVE \<lparr>ip = host, port = 6379\<rparr> 2
                    SENTINEL_DOWN_AFTER_PERIOD)
                   \<lparr>flags := SRI_SLAVE, cc := True, pc := True, info_refresh := 99000\<rparr>"

definition sentinel0 :: "string \<Rightarrow> sentinelRedisInstance" where
  "sentinel0 host = (new_instance env0 (host @ '':26379'') SRI_SENTINEL \<lparr>ip = host, port = 26379\<rparr> 2
                       SENTINEL_DOWN_AFTER_PERIOD)
                      \<lparr>flags := SRI_SENTINEL, cc := True\<rparr>"

text \<open>A script job that has been launched 9 times and waits for its next launch, and an
  environment in which \<^verbatim>\<open>fork\<close> fails.\<close>

definition job_nine :: sentinelScriptJob where
  "job_nine = \<lparr>sj_flags = 0, retry_num = 9, argv = [''/bin/notify'', ''+sdown'', ''x''],
               start_time = 90000, pid = 0\<rparr>"

definition state_job_nine :: sentinelState where
  "state_job_nine = state0\<lparr>scripts_queue := [job_nine]\<rparr>"

definition env_fork_fails :: env where
  "env_fork_fails = env0\<lparr>fork_result := (\<lambda>a. - 1)\<rparr>"

text \<open>The master with four healthy slaves: priority 100; priority 50 without run id;
  priority 50 with run ids \<^verbatim>\<open>aaa\<close> and \<^verbatim>\<open>bbb\<close>.\<close>

definition master_four_slaves :: master where
  "master_four_slaves =
     master0\<lparr>slaves := [(''10.0.0.11:6379'', (slave0 ''10.0.0.11'')\<lparr>slave_priority := 100, runid := Some ''ccc''\<rparr>),
                        (''10.0.0.12:6379'', (slave0 ''10.0.0.12'')\<lparr>slave_priority := 50\<rparr>),
                        (''10.0.0.13:6379'', (slave0 ''10.0.0.13'')\<lparr>slave_priority := 50, runid := Some ''aaa''\<rparr>),
                        (''10.0.0.14:6379'', (slave0 ''10.0.0.14'')\<lparr>slave_priority := 50, runid := Some ''bbb''\<rparr>)]\<rparr>"

text \<open>The master with two healthy slaves that report the priorities 2147483647 and
  -2147483647.\<close>

definition master_extreme_priorities :: master where
  "master_extreme_priorities =
     master0\<lparr>slaves := [(''10.0.0.21:6379'', (slave0 ''10.0.0.21'')\<lparr>slave_priority := 2147483647\<rparr>),
                        (''10.0.0.22:6379'', (slave0 ''10.0.0.22'')\<lparr>slave_priority := - 2147483647\<rparr>)]\<rparr>"

text \<open>The master in the state \<^verbatim>\<open>SENTINEL_FAILOVER_STATE_SELECT_SLAVE\<close> of a failover, with
  one healthy slave of priority 0.\<close>

definition master_priority_zero :: master where
  "master_priority_zero =
     master0\<lparr>self := (self master0)\<lparr>flags := SRI_MASTER OR SRI_S_DOWN OR SRI_O_DOWN OR SRI_CAN_FAILOVER
                                              OR SRI_FAILOVER_IN_PROGRESS,
                                     s_down_since_time := 90000,
                                     failover_state := SENTINEL_FAILOVER_STATE_SELECT_SLAVE,
                                     failover_epoch := 1\<rparr>,
             slaves := [(''10.0.0.11:6379'', (slave0 ''10.0.0.11'')\<lparr>slave_priority := 0\<rparr>)]\<rparr>"


text \<open>The master objectively down at epoch 1, with two sentinels that voted at epoch 1, one
  for this sentinel (\<^verbatim>\<open>me\<close>) and one for another.\<close>

definition master_odown :: master where
  "master_odown =
     master0\<lparr>self := (self master0)\<lparr>flags := SRI_MASTER OR SRI_S_DOWN OR SRI_O_DOWN OR SRI_CAN_FAILOVER,
                                     s_down_since_time := 90000, o_down_since_time := 91000\<rparr>,
             sentinels := [(''10.0.0.2:26379'', (sentinel0 ''10.0.0.2'')\<lparr>leader := Some ''me'', leader_epoch := 1\<rparr>),
                           (''10.0.0.3:26379'', (sentinel0 ''10.0.0.3'')\<lparr>leader := Some ''other'', leader_epoch := 1\<rparr>)]\<rparr>"


text \<open>The master subjectively down with quorum 2 and one sentinel that carries
  \<^verbatim>\<open>SRI_MASTER_DOWN\<close> from a reply received 70 s ago.\<close>

definition peer_stale :: sentinelRedisInstance where
  "peer_stale = (sentinel0 ''10.0.0.2'')\<lparr>flags := SRI_SENTINEL OR SRI_MASTER_DOWN,
                                          last_master_down_reply_time := 30000\<rparr>"

definition master_stale :: master where
  "master_stale =
     master0\<lparr>self := (self master0)\<lparr>flags := SRI_MASTER OR SRI_S_DOWN, s_down_since_time := 99000\<rparr>,
             sentinels := [(''10.0.0.2:26379'', peer_stale)]\<rparr>"


text \<open>The master in the state \<^verbatim>\<open>SENTINEL_FAILOVER_STATE_RECONF_SLAVES\<close> of a failover that
  passed its timeout, with \<^verbatim>\<open>parallel_syncs\<close> 1, the promoted slave 10.0.0.11 and two
  connected slaves still to reconfigure.\<close>

definition master_reconf :: master where
  "master_reconf =
     master0\<lparr>self := (self master0)\<lparr>flags := SRI_MASTER OR SRI_S_DOWN OR SRI_O_DOWN OR SRI_CAN_FAILOVER
                                              OR SRI_FAILOVER_IN_PROGRESS,
                                     failover_state := SENTINEL_FAILOVER_STATE_RECONF_SLAVES,
                                     failover_state_change_time := - 100000,
                                     failover_epoch := 1, config_epoch := 1,
                                     promoted_slave := Some ''10.0.0.11:6379''\<rparr>,
             slaves := [(''10.0.0.11:6379'', (slave0 ''10.0.0.11'')\<lparr>flags := SRI_SLAVE OR SRI_PROMOTED\<rparr>),
                        (''10.0.0.12:6379'', slave0 ''10.0.0.12''),
                        (''10.0.0.13:6379'', slave0 ''10.0.0.13'')]\<rparr>"

text \<open>The same master one second after the state was entered.\<close>

definition master_reconf_early :: master where
  "master_reconf_early = master_reconf\<lparr>self := (self master_reconf)\<lparr>failover_state_change_time := 99000\<rparr>\<rparr>"


text \<open>The master connected, at configuration epoch 3, with one slave and one sentinel
  whose run id is known; a Hello message as hiredis delivers it; and two payloads that
  name \<^verbatim>\<open>mymaster\<close> at configuration epoch 7 and port 6379, the first at the recorded
  address 10.0.0.1, the second at 10.0.0.5.\<close>

definition master_hello :: master where
  "master_hello =
     master0\<lparr>self := (self master0)\<lparr>flags := SRI_MASTER, cc := True, pc := True, config_epoch := 3\<rparr>,
             sentinels := [(''10.0.0.2:26379'',
                            (sentinel0 ''10.0.0.2'')\<lparr>runid := Some ''3ab8d1f86e5c4f0e9a7b2d6c1e8f4a5b7c9d0e1f''\<rparr>)],
             slaves := [(''10.0.0.11:6379'', slave0 ''10.0.0.11'')]\<rparr>"

definition state_hello :: sentinelState where
  "state_hello = state0\<lparr>masters := [(''mymaster'', master_hello)]\<rparr>"

definition hello_message :: "string \<Rightarrow> redisReply option" where
  "hello_message payload =
     Some (REDIS_REPLY_ARRAY [REDIS_REPLY_STRING ''message'', REDIS_REPLY_STRING ''__sentinel__:hello'',
                              REDIS_REPLY_STRING payload])"

definition hello_same_address :: string where
  "hello_same_address = ''10.0.0.2,26379,3ab8d1f86e5c4f0e9a7b2d6c1e8f4a5b7c9d0e1f,1,0,mymaster,10.0.0.1,6379,7''"

definition hello_other_ip :: string where
  "hello_other_ip = ''10.0.0.2,26379,3ab8d1f86e5c4f0e9a7b2d6c1e8f4a5b7c9d0e1f,1,0,mymaster,10.0.0.5,6379,7''"

text \<open>What the theorems on Hello messages read off a state: for every master its key,
  address and configuration epoch, whether the command link is up, and the keys of its
  slaves.\<close>

definition master_view ::
  "sentinelState \<Rightarrow> (string \<times> sentinelAddr \<times> 64 word \<times> bool \<times> string list) list" where
  "master_view st =
     map (\<lambda>kv. (fst kv, addr (self (snd kv)), config_epoch (self (snd kv)), cc (self (snd kv)),
                map fst (slaves (snd kv)))) (masters st)"

text \<open>The same master and state once the callback has recorded the activity on the
  Pub/Sub link.\<close>

definition master_hello_seen :: master where
  "master_hello_seen = master_hello\<lparr>self := (self master_hello)\<lparr>pc_last_activity := now env0\<rparr>\<rparr>"

definition state_hello_seen :: sentinelState where
  "state_hello_seen = state0\<lparr>masters := [(''mymaster'', master_hello_seen)]\<rparr>"

text \<open>A failover of epoch 1 in the state \<^verbatim>\<open>WAIT_PROMOTION\<close>: the master at configuration
  epoch 0, the promoted slave 10.0.0.11 and a known sentinel; the Hello message of that
  sentinel advertising \<^verbatim>\<open>mymaster\<close> at 10.0.0.5:6379 with the epochs 9; the INFO reply in
  which the promoted slave reports \<^verbatim>\<open>role:master\<close>; and the states after the Hello message
  and after the INFO reply.\<close>

definition master_promoting :: master where
  "master_promoting =
     master0\<lparr>self := (self master0)\<lparr>flags := SRI_MASTER OR SRI_S_DOWN OR SRI_O_DOWN OR SRI_CAN_FAILOVER
                                              OR SRI_FAILOVER_IN_PROGRESS,
                                     cc := True, pc := True,
                                     failover_state := SENTINEL_FAILOVER_STATE_WAIT_PROMOTION,
                                     failover_state_change_time := 99000,
                                     failover_epoch := 1,
                                     promoted_slave := Some ''10.0.0.11:6379''\<rparr>,
             sentinels := [(''10.0.0.2:26379'',
                            (sentinel0 ''10.0.0.2'')\<lparr>runid := Some ''3ab8d1f86e5c4f0e9a7b2d6c1e8f4a5b7c9d0e1f''\<rparr>)],
             slaves := [(''10.0.0.11:6379'', (slave0 ''10.0.0.11'')\<lparr>flags := SRI_SLAVE OR SRI_PROMOTED\<rparr>)]\<rparr>"

definition state_promoting :: sentinelState where
  "state_promoting = state0\<lparr>current_epoch := 1, masters := [(''mymaster'', master_promoting)]\<rparr>"

definition hello_epoch_9 :: string where
  "hello_epoch_9 = ''10.0.0.2,26379,3ab8d1f86e5c4f0e9a7b2d6c1e8f4a5b7c9d0e1f,1,9,mymaster,10.0.0.5,6379,9''"

definition info_role_master :: string where
  "info_role_master = ''# Replication'' @ [CHR 0x0D, CHR 0x0A] @ ''role:master'' @ [CHR 0x0D, CHR 0x0A]
                        @ ''connected_slaves:0'' @ [CHR 0x0D, CHR 0x0A]"

definition state_promoting_hello :: sentinelState where
  "state_promoting_hello =
     sentinelReceiveHelloMessages env0 ''mymaster'' RMaster (hello_message hello_epoch_9) state_promoting"

definition state_promoting_info :: sentinelState where
  "state_promoting_info =
     info_reply_of env0 ''mymaster'' (RSlave ''10.0.0.11:6379'')
       (Some (REDIS_REPLY_STRING info_role_master)) state_promoting_hello"

text \<open>What the theorem on epochs reads off a state: the current epoch and, for every
  master, its key, configuration epoch, failover epoch and failover state.\<close>

definition epoch_view :: "sentinelState \<Rightarrow> 64 word \<times> (string \<times> 64 word \<times> 64 word \<times> int) list" where
  "epoch_view st =
     (current_epoch st,
      map (\<lambda>kv. (fst kv, config_epoch (self (snd kv)), failover_epoch (self (snd kv)),
                 failover_state (self (snd kv)))) (masters st))"

text \<open>The master and state once the Hello callback has recorded the activity on the
  Pub/Sub link.\<close>

definition master_promoting_seen :: master where
  "master_promoting_seen = master_promoting\<lparr>self := (self master_promoting)\<lparr>pc_last_activity := now env0\<rparr>\<rparr>"

definition state_promoting_seen :: sentinelState where
  "state_promoting_seen = state0\<lparr>current_epoch := 1, masters := [(''mymaster'', master_promoting_seen)]\<rparr>"


text \<open>What the failover and the election keep in an instance: the failover state, the
  failover and configuration epochs, the vote, and the flags \<^verbatim>\<open>SRI_O_DOWN\<close> and
  \<^verbatim>\<open>SRI_FAILOVER_IN_PROGRESS\<close>.\<close>

definition failover_fields ::
  "sentinelRedisInstance \<Rightarrow> int \<times> 64 word \<times> 64 word \<times> string option \<times> 64 word \<times> 32 word \<times> 32 word" where
  "failover_fields ri =
     (failover_state ri, failover_epoch ri, config_epoch ri, leader ri, leader_epoch ri,
      flags ri AND SRI_O_DOWN, flags ri AND SRI_FAILOVER_IN_PROGRESS)"

section \<open>Theorems\<close>

subsection \<open>Script retries\<close>

lemma c_long_long_id: "- (2 ^ 63) \<le> x \<Longrightarrow> x < 2 ^ 63 \<Longrightarrow> c_long_long x = x"
  unfolding c_long_long_def by (simp add: sint_sbintrunc' signed_take_bit_int_eq_self)

lemma c_int_id: "- (2 ^ 31) \<le> x \<Longrightarrow> x < 2 ^ 31 \<Longrightarrow> c_int x = x"
  unfolding c_int_def by (simp add: sint_sbintrunc' signed_take_bit_int_eq_self)

lemma sentinelScriptRetryDelay_loop_eq:
  "0 \<le> d \<Longrightarrow> d * 2 ^ nat (n - 1) < 2 ^ 63 \<Longrightarrow> sentinelScriptRetryDelay_loop n d = d * 2 ^ nat (n - 1)"
proof (induction n d rule: sentinelScriptRetryDelay_loop.induct)
  case (1 n d)
  show ?case
  proof (cases "n > 1")
    case True
    then have e: "nat (n - 1) = Suc (nat (n - 1 - 1))" by simp
    have le: "d * 2 \<le> d * 2 ^ nat (n - 1)"
      using "1.prems"(1) by (simp add: e mult_left_mono)
    have w: "c_long_long (d * 2) = d * 2"
      using "1.prems" le by (intro c_long_long_id) simp_all
    have "sentinelScriptRetryDelay_loop (n - 1) (d * 2) = d * 2 * 2 ^ nat (n - 1 - 1)"
      using "1.IH" [OF True] "1.prems" by (simp add: w e)
    with True show ?thesis
      by (subst sentinelScriptRetryDelay_loop.simps) (simp add: w e)
  next
    case False
    then show ?thesis by (subst sentinelScriptRetryDelay_loop.simps) simp
  qed
qed

lemma sentinelScriptRetryDelay_eq:
  assumes "n \<le> 49"
  shows "sentinelScriptRetryDelay n = 30000 * 2 ^ nat (n - 1)"
proof -
  have "(2::int) ^ nat (n - 1) \<le> 2 ^ 48"
    using assms by (intro power_increasing) simp_all
  then have "30000 * (2::int) ^ nat (n - 1) < 2 ^ 63" by simp
  then show ?thesis
    by (simp add: sentinelScriptRetryDelay_def sentinelScriptRetryDelay_loop_eq)
qed

lemma sentinelScheduleScriptExecution_fields [simp]:
  "current_epoch (sentinelScheduleScriptExecution path args st) = current_epoch st"
  "masters (sentinelScheduleScriptExecution path args st) = masters st"
  "tilt (sentinelScheduleScriptExecution path args st) = tilt st"
  "tilt_start_time (sentinelScheduleScriptExecution path args st) = tilt_start_time st"
  "previous_time (sentinelScheduleScriptExecution path args st) = previous_time st"
  "running_scripts (sentinelScheduleScriptExecution path args st) = running_scripts st"
  "events (sentinelScheduleScriptExecution path args st) = events st"
  by (simp_all add: sentinelScheduleScriptExecution_def Let_def split: option.splits)

lemma sentinelEvent_fields [simp]:
  "current_epoch (sentinelEvent level type ri at rest st) = current_epoch st"
  "masters (sentinelEvent level type ri at rest st) = masters st"
  "tilt (sentinelEvent level type ri at rest st) = tilt st"
  "tilt_start_time (sentinelEvent level type ri at rest st) = tilt_start_time st"
  "previous_time (sentinelEvent level type ri at rest st) = previous_time st"
  "running_scripts (sentinelEvent level type ri at rest st) = running_scripts st"
  by (simp_all add: sentinelEvent_def Let_def split: option.splits)

lemma sentinelEvent_events [simp]:
  "events (sentinelEvent level type ri at rest st) =
     events st @ [\<lparr>ev_level = level, ev_type = type, ev_msg = event_msg ri at rest\<rparr>]"
  by (simp add: sentinelEvent_def Let_def split: option.splits)

lemma queue_sentinelEvent_None [simp]:
  "scripts_queue (sentinelEvent level type None at rest st) = scripts_queue st"
  by (simp add: sentinelEvent_def)

lemma collect_one_found:
  assumes "sentinelGetScriptListNodeByPid (scripts_queue st) p = Some i"
  shows "i < length (scripts_queue st) \<and> pid (scripts_queue st ! i) = p
         \<and> sj_flags (scripts_queue st ! i) AND SENTINEL_SCRIPT_RUNNING \<noteq> 0"
  using assms
proof (induction "scripts_queue st" p arbitrary: st i rule: sentinelGetScriptListNodeByPid.induct)
  case (1 p)
  then show ?case by (metis option.distinct(1) sentinelGetScriptListNodeByPid.simps(1))
next
  case (2 sj q p)
  from "2.hyps"(2) have sq: "scripts_queue st = sj # q" by simp
  show ?case
  proof (cases "sj_flags sj AND SENTINEL_SCRIPT_RUNNING \<noteq> 0 \<and> pid sj = p")
    case True
    with "2.prems" sq show ?thesis by simp
  next
    case False
    with "2.prems" sq obtain j where j: "sentinelGetScriptListNodeByPid q p = Some j" and i: "i = Suc j"
      by auto
    have "q = scripts_queue (st\<lparr>scripts_queue := q\<rparr>)" by simp
    from "2.hyps"(1) [OF False this] j
    have "j < length q \<and> pid (q ! j) = p \<and> sj_flags (q ! j) AND SENTINEL_SCRIPT_RUNNING \<noteq> 0"
      by simp
    then show ?thesis by (simp add: sq i)
  qed
qed

lemma collect_one_retry_or_remove:
  assumes "sentinelGetScriptListNodeByPid (scripts_queue st) p = Some i"
  shows "let sj = scripts_queue st ! i;
             st' = collect_one e (p, exitcode, bysignal) st;
             new_events = drop (length (events st)) (events st');
             warned = (\<exists>ev \<in> set new_events. ev_level ev = REDIS_WARNING);
             retry = ((bysignal \<noteq> 0 \<or> exitcode = 1) \<and> retry_num sj \<noteq> SENTINEL_SCRIPT_MAX_RETRY)
         in (retry \<longrightarrow>
               scripts_queue st' = (scripts_queue st)
                 [i := sj\<lparr>sj_flags := sj_flags sj AND NOT SENTINEL_SCRIPT_RUNNING, pid := 0,
                          start_time := now e + sentinelScriptRetryDelay (retry_num sj)\<rparr>]
               \<and> \<not> warned)
          \<and> (\<not> retry \<and> bysignal = 0 \<and> exitcode = 0 \<longrightarrow>
               scripts_queue st' = listDelNode (scripts_queue st) i \<and> \<not> warned)
          \<and> (\<not> retry \<and> \<not> (bysignal = 0 \<and> exitcode = 0) \<longrightarrow>
               scripts_queue st' = listDelNode (scripts_queue st) i
               \<and> (\<exists>ev \<in> set new_events. ev_level ev = REDIS_WARNING \<and> ev_type ev = ''-script-error''))"
  using assms
  by (auto simp: collect_one_def Let_def)

text \<open>
  \<^bold>\<open>C9.\<close> The code at a job whose retry count has passed \<^verbatim>\<open>SENTINEL_SCRIPT_MAX_RETRY\<close>. The
  job has been launched 9 times. A tenth launch fails in \<^verbatim>\<open>fork\<close>, which leaves the job in
  the queue with \<open>retry_num = 10\<close>; the next launch succeeds with \<open>retry_num = 11\<close>; the
  child exits with code 1. \<^verbatim>\<open>sentinelCollectTerminatedScripts\<close> tests
  \<^verbatim>\<open>sj->retry_num != SENTINEL_SCRIPT_MAX_RETRY\<close>, finds 11 different from 10 and schedules
  the job again, \<open>30000 * 2 ^ 10\<close> ms later, with no \<^verbatim>\<open>-script-error\<close> for the termination
  (the only one is that of the failed \<^verbatim>\<open>fork\<close>): the retries are exhausted and the job is
  neither removed nor reported. With \<open>retry_num = 10\<close> the same termination removes the
  job with the warning.
\<close>

theorem script_retry_beyond_max_retry:
  "scripts_queue (sentinelRunPendingScripts env_fork_fails state_job_nine)
     = [job_nine\<lparr>retry_num := 10, start_time := 100000\<rparr>]
   \<and> scripts_queue (sentinelRunPendingScripts env0 (sentinelRunPendingScripts env_fork_fails state_job_nine))
       = [job_nine\<lparr>sj_flags := SENTINEL_SCRIPT_RUNNING, retry_num := 11, start_time := 100000, pid := 1\<rparr>]
   \<and> scripts_queue (sentinelCollectTerminatedScripts env0 [(1, 1, 0)]
        (sentinelRunPendingScripts env0 (sentinelRunPendingScripts env_fork_fails state_job_nine)))
       = [job_nine\<lparr>retry_num := 11, start_time := 100000 + 30000 * 2 ^ 10\<rparr>]
   \<and> map (\<lambda>ev. (ev_level ev, ev_type ev))
        (events (sentinelCollectTerminatedScripts env0 [(1, 1, 0)]
           (sentinelRunPendingScripts env0 (sentinelRunPendingScripts env_fork_fails state_job_nine))))
       = [(REDIS_WARNING, ''-script-error''), (REDIS_DEBUG, ''+script-child''),
          (REDIS_DEBUG, ''-script-child'')]
   \<and> scripts_queue (sentinelCollectTerminatedScripts env0 [(1, 1, 0)]
        (state0\<lparr>scripts_queue := [job_nine\<lparr>sj_flags := SENTINEL_SCRIPT_RUNNING, retry_num := 10, pid := 1\<rparr>]\<rparr>))
       = []
   \<and> map (\<lambda>ev. (ev_level ev, ev_type ev))
        (events (sentinelCollectTerminatedScripts env0 [(1, 1, 0)]
           (state0\<lparr>scripts_queue := [job_nine\<lparr>sj_flags := SENTINEL_SCRIPT_RUNNING, retry_num := 10, pid := 1\<rparr>]\<rparr>)))
       = [(REDIS_DEBUG, ''-script-child''), (REDIS_WARNING, ''-script-error'')]"
proof -
  have d: "sentinelScriptRetryDelay 11 = 30000 * 2 ^ 10"
    by (simp add: sentinelScriptRetryDelay_eq)
  have i: "c_int 10 = 10" "c_int 11 = 11"
    by (simp_all add: c_int_id)
  show ?thesis
    by (simp add: sentinelRunPendingScripts_def sentinelCollectTerminatedScripts_def collect_one_def
          Let_def d i state_job_nine_def job_nine_def env_fork_fails_def env0_def state0_def
          listDelNode_def)
qed

subsection \<open>Votes\<close>

text \<open>
  \<^bold>\<open>C6.\<close> For every call of the vote routine: \<open>current_epoch\<close> becomes \<open>req_epoch\<close> when
  \<open>req_epoch\<close> is greater and stays as it is otherwise; the stored vote is overwritten with
  \<open>(req_runid, current_epoch)\<close> exactly when the stored \<open>leader_epoch\<close> is less than
  \<open>req_epoch\<close> and \<open>current_epoch\<close> is at most \<open>req_epoch\<close> (the same condition before and
  after the adoption of the epoch), and then \<open>failover_start_time\<close> is \<open>now\<close> plus a delay
  in \<open>[0, 2000)\<close>; otherwise the vote and \<open>failover_start_time\<close> are unchanged; the call
  returns the stored \<open>(leader, leader_epoch)\<close> in all cases.
\<close>

theorem vote_leader:
  "let r = sentinelVoteLeader e m req_epoch req_runid st;
       m' = fst (snd r); st' = snd (snd r);
       voted = (leader_epoch (self m) < req_epoch \<and> current_epoch st \<le> req_epoch)
   in current_epoch st' = (if req_epoch > current_epoch st then req_epoch else current_epoch st)
    \<and> voted = (leader_epoch (self m) < req_epoch \<and> current_epoch st' \<le> req_epoch)
    \<and> (voted \<longrightarrow> leader (self m') = Some req_runid \<and> leader_epoch (self m') = current_epoch st'
                 \<and> failover_start_time (self m') = now e + int (rand_value e mod 2000)
                 \<and> now e \<le> failover_start_time (self m') \<and> failover_start_time (self m') < now e + 2000)
    \<and> (\<not> voted \<longrightarrow> leader (self m') = leader (self m) \<and> leader_epoch (self m') = leader_epoch (self m)
                 \<and> failover_start_time (self m') = failover_start_time (self m))
    \<and> fst r = (leader (self m'), leader_epoch (self m'))"
  by (auto simp: sentinelVoteLeader_def Let_def)

theorem vote_leader_witness:
  "fst (sentinelVoteLeader env0 master0 5 ''peer'' state0) = (Some ''peer'', 5)
   \<and> current_epoch (snd (snd (sentinelVoteLeader env0 master0 5 ''peer'' state0))) = 5
   \<and> failover_start_time (self (fst (snd (sentinelVoteLeader env0 master0 5 ''peer'' state0)))) = 100321
   \<and> fst (sentinelVoteLeader env0
             (master0\<lparr>self := (self master0)\<lparr>leader := Some ''old'', leader_epoch := 7\<rparr>\<rparr>) 5 ''peer'' state0)
       = (Some ''old'', 7)"
  using vote_leader [where e = env0 and m = master0 and req_epoch = 5 and st = state0
                       and req_runid = "''peer''"]
        vote_leader [where e = env0
                       and m = "master0\<lparr>self := (self master0)\<lparr>leader := Some ''old'', leader_epoch := 7\<rparr>\<rparr>"
                       and req_epoch = 5 and st = state0 and req_runid = "''peer''"]
  by (simp add: Let_def master0_def state0_def env0_def new_instance_def)

subsection \<open>Selection of the slave to promote\<close>

lemma tolower_c_pos: "of_char c \<noteq> (0::nat) \<Longrightarrow> tolower_c c \<noteq> 0"
  by (simp add: tolower_c_def Let_def)

lemma strcasecmp_bytes_le_iff:
  assumes "\<forall>c \<in> set a. of_char c \<noteq> (0::nat)" "\<forall>c \<in> set b. of_char c \<noteq> (0::nat)"
  shows "strcasecmp_bytes a b \<le> 0 \<longleftrightarrow>
           map tolower_c a = map tolower_c b \<or> (map tolower_c a, map tolower_c b) \<in> lexord {(u, v). u < v}"
  using assms
proof (induction a b rule: strcasecmp_bytes.induct)
  case 1
  then show ?case by simp
next
  case (2 b bs)
  then show ?case by simp
next
  case (3 a as)
  then show ?case using tolower_c_pos [of a] by simp
next
  case (4 a as b bs)
  then show ?case by auto
qed

lemma cstr_no_nul: "\<forall>c \<in> set (cstr s). of_char c \<noteq> (0::nat)"
  unfolding cstr_def by (auto dest: set_takeWhileD)

lemma strcasecmp_le_iff:
  "strcasecmp a b \<le> 0 \<longleftrightarrow>
     lower_bytes a = lower_bytes b \<or> (lower_bytes a, lower_bytes b) \<in> lexord {(u, v). u < v}"
  unfolding strcasecmp_def lower_bytes_def
  by (rule strcasecmp_bytes_le_iff) (rule cstr_no_nul)+

lemma compare_le_iff:
  assumes "- (2 ^ 31) \<le> slave_priority sa - slave_priority sb"
    and "slave_priority sa - slave_priority sb < 2 ^ 31"
  shows "compareSlavesForPromotion sa sb \<le> 0 \<longleftrightarrow> promotion_le sa sb"
  using c_int_id [OF assms]
  by (auto simp: compareSlavesForPromotion_def promotion_le_def runid_le_def strcasecmp_le_iff
           split: option.splits)

lemma nat_less_trans_rel: "trans {(u::nat, v). u < v}"
  by (auto simp: trans_def)

lemma runid_le_total: "runid_le a b \<or> runid_le b a"
  using lexord_linear [of "{(u::nat, v). u < v}"]
  by (fastforce simp: runid_le_def split: option.splits)

lemma runid_le_trans: "runid_le a b \<Longrightarrow> runid_le b c \<Longrightarrow> runid_le a c"
  using lexord_trans [OF _ _ nat_less_trans_rel]
  by (fastforce simp: runid_le_def split: option.splits)

lemma promotion_le_total: "promotion_le a b \<or> promotion_le b a"
  using runid_le_total [of "runid a" "runid b"] by (auto simp: promotion_le_def)

lemma promotion_le_trans: "promotion_le a b \<Longrightarrow> promotion_le b c \<Longrightarrow> promotion_le a c"
  using runid_le_trans [of "runid a" "runid b" "runid c"] by (auto simp: promotion_le_def)


lemma set_qsort_insert: "set (qsort_insert cmp x xs) = insert x (set xs)"
  by (induction xs) auto

lemma mset_qsort_insert: "mset (qsort_insert cmp x xs) = add_mset x (mset xs)"
  by (induction xs) auto

lemma mset_qsort: "mset (qsort cmp xs) = mset xs"
  by (induction xs) (auto simp: qsort_def mset_qsort_insert)

lemma set_qsort: "set (qsort cmp xs) = set xs"
  by (metis mset_qsort set_mset_mset)

lemma sorted_qsort_insert:
  assumes total: "\<And>a b. le a b \<or> le b a"
    and trans: "\<And>a b c. le a b \<Longrightarrow> le b c \<Longrightarrow> le a c"
    and cmp: "\<And>a b. a \<in> S \<Longrightarrow> b \<in> S \<Longrightarrow> cmp a b \<le> 0 \<longleftrightarrow> le a b"
    and x: "x \<in> S"
  shows "set xs \<subseteq> S \<Longrightarrow> sorted_wrt le xs \<Longrightarrow> sorted_wrt le (qsort_insert cmp x xs)"
proof (induction xs)
  case Nil
  then show ?case by simp
next
  case (Cons y ys)
  then have y: "y \<in> S" by simp
  show ?case
  proof (cases "cmp x y \<le> 0")
    case True
    then have "le x y" using cmp [OF x y] by simp
    with Cons.prems have "\<forall>z \<in> set (y # ys). le x z"
      using trans by auto
    with True Cons.prems show ?thesis by simp
  next
    case False
    then have "le y x" using total [of x y] cmp [OF x y] by simp
    with False Cons show ?thesis
      by (auto simp: set_qsort_insert)
  qed
qed

lemma sorted_qsort:
  assumes total: "\<And>a b. le a b \<or> le b a"
    and trans: "\<And>a b c. le a b \<Longrightarrow> le b c \<Longrightarrow> le a c"
    and cmp: "\<And>a b. a \<in> S \<Longrightarrow> b \<in> S \<Longrightarrow> cmp a b \<le> 0 \<longleftrightarrow> le a b"
  shows "set xs \<subseteq> S \<Longrightarrow> sorted_wrt le (qsort cmp xs)"
proof (induction xs)
  case Nil
  then show ?case by (simp add: qsort_def)
next
  case (Cons x xs)
  have q: "qsort cmp (x # xs) = qsort_insert cmp x (qsort cmp xs)"
    by (simp add: qsort_def)
  have "set (qsort cmp xs) \<subseteq> S" using Cons.prems by (simp add: set_qsort)
  moreover have "x \<in> S" using Cons.prems by simp
  moreover have "sorted_wrt le (qsort cmp xs)" using Cons by simp
  ultimately show ?case
    unfolding q by (intro sorted_qsort_insert [where S = S] total cmp) (auto intro: trans)
qed

lemma sorted_promotion:
  assumes "\<forall>a \<in> set xs. \<forall>b \<in> set xs. priorities_comparable (snd a) (snd b)"
  shows "sorted_wrt (\<lambda>a b. promotion_le (snd a) (snd b))
           (qsort (\<lambda>a b. compareSlavesForPromotion (snd a) (snd b)) xs)"
proof (rule sorted_qsort [where S = "set xs"])
  show "\<And>a b. promotion_le (snd a) (snd b) \<or> promotion_le (snd b) (snd a)"
    by (simp add: promotion_le_total)
  show "\<And>a b c. promotion_le (snd a) (snd b) \<Longrightarrow> promotion_le (snd b) (snd c) \<Longrightarrow> promotion_le (snd a) (snd c)"
    by (rule promotion_le_trans)
  show "(compareSlavesForPromotion (snd a) (snd b) \<le> 0) = promotion_le (snd a) (snd b)"
    if "a \<in> set xs" "b \<in> set xs" for a b
  proof -
    have "priorities_comparable (snd a) (snd b)" using assms that by blast
    then show ?thesis by (simp add: priorities_comparable_def compare_le_iff)
  qed
  show "set xs \<subseteq> set xs" by simp
qed

lemma flags_any_down:
  "((f::32 word) AND (SRI_S_DOWN OR SRI_O_DOWN OR SRI_DISCONNECTED) \<noteq> 0)
     = (f AND SRI_S_DOWN \<noteq> 0 \<or> f AND SRI_O_DOWN \<noteq> 0 \<or> f AND SRI_DISCONNECTED \<noteq> 0)"
proof -
  have "f AND (16 OR 32 OR 8) = (f AND 16) OR (f AND 32) OR (f AND 8)"
    by (simp only: bit.conj_disj_distrib)
  then show ?thesis
    unfolding SRI_S_DOWN_def SRI_O_DOWN_def SRI_DISCONNECTED_def
    by (simp only: or_eq_0_iff) auto
qed

lemma candidate_iff_eligible: "slave_is_candidate e m s = eligible_for_promotion e m s"
  unfolding slave_is_candidate_def eligible_for_promotion_def Let_def flags_any_down
  by (auto simp del: SRI_S_DOWN_def SRI_O_DOWN_def SRI_DISCONNECTED_def)

lemma select_slave_cases:
  "sentinelSelectSlave e m =
     (case qsort (\<lambda>a b. compareSlavesForPromotion (snd a) (snd b))
             (filter (\<lambda>kv. slave_is_candidate e m (snd kv)) (slaves m)) of
        [] \<Rightarrow> None | x # rest \<Rightarrow> Some x)"
  by (simp add: sentinelSelectSlave_def Let_def)

lemma select_slave_Some:
  assumes "sentinelSelectSlave e m = Some (k, s)"
    and "\<forall>a \<in> set (slaves m). \<forall>b \<in> set (slaves m). priorities_comparable (snd a) (snd b)"
  shows "(k, s) \<in> set (slaves m) \<and> slave_is_candidate e m s
         \<and> (\<forall>kv \<in> set (slaves m). slave_is_candidate e m (snd kv) \<longrightarrow> promotion_le s (snd kv))"
proof -
  let ?cands = "filter (\<lambda>kv. slave_is_candidate e m (snd kv)) (slaves m)"
  let ?sorted = "qsort (\<lambda>a b. compareSlavesForPromotion (snd a) (snd b)) ?cands"
  from assms(1) obtain rest where s: "?sorted = (k, s) # rest"
    by (auto simp: select_slave_cases split: list.splits)
  have eq: "set ?sorted = set ?cands" by (rule set_qsort)
  have "(k, s) \<in> set ?sorted" by (simp add: s)
  then have mem: "(k, s) \<in> set ?cands" by (simp only: eq)
  have rest: "set ?cands = insert (k, s) (set rest)"
    using eq by (simp add: s)
  have "\<forall>a \<in> set ?cands. \<forall>b \<in> set ?cands. priorities_comparable (snd a) (snd b)"
    using assms(2) by simp
  then have "sorted_wrt (\<lambda>a b. promotion_le (snd a) (snd b)) ((k, s) # rest)"
    using sorted_promotion [of ?cands] s by simp
  then have "\<forall>kv \<in> set rest. promotion_le s (snd kv)" by simp
  moreover have "promotion_le s s" using promotion_le_total [of s s] by simp
  ultimately have "\<forall>kv \<in> set ?cands. promotion_le s (snd kv)"
    using rest by auto
  with mem show ?thesis by auto
qed

lemma select_slave_mem:
  assumes "sentinelSelectSlave e m = Some (k, s)"
  shows "(k, s) \<in> set (slaves m) \<and> slave_is_candidate e m s"
proof -
  let ?cands = "filter (\<lambda>kv. slave_is_candidate e m (snd kv)) (slaves m)"
  let ?sorted = "qsort (\<lambda>a b. compareSlavesForPromotion (snd a) (snd b)) ?cands"
  from assms obtain rest where s: "?sorted = (k, s) # rest"
    by (auto simp: select_slave_cases split: list.splits)
  have "(k, s) \<in> set ?sorted" by (simp add: s)
  then have "(k, s) \<in> set ?cands" by (simp only: set_qsort)
  then show ?thesis by simp
qed

lemma select_slave_None:
  "sentinelSelectSlave e m = None \<longleftrightarrow> (\<forall>kv \<in> set (slaves m). \<not> slave_is_candidate e m (snd kv))"
proof -
  let ?cands = "filter (\<lambda>kv. slave_is_candidate e m (snd kv)) (slaves m)"
  let ?sorted = "qsort (\<lambda>a b. compareSlavesForPromotion (snd a) (snd b)) ?cands"
  have "sentinelSelectSlave e m = None \<longleftrightarrow> ?sorted = []"
    by (simp add: select_slave_cases split: list.splits)
  also have "\<dots> \<longleftrightarrow> set ?sorted = {}" by simp
  also have "\<dots> \<longleftrightarrow> set ?cands = {}" by (simp only: set_qsort)
  also have "\<dots> \<longleftrightarrow> (\<forall>kv \<in> set (slaves m). \<not> slave_is_candidate e m (snd kv))"
    by (auto simp: filter_empty_conv)
  finally show ?thesis .
qed

lemma sentinelCallClientReconfScript_fields [simp]:
  "events (sentinelCallClientReconfScript m role state from to st) = events st"
  "current_epoch (sentinelCallClientReconfScript m role state from to st) = current_epoch st"
  "masters (sentinelCallClientReconfScript m role state from to st) = masters st"
  "tilt (sentinelCallClientReconfScript m role state from to st) = tilt st"
  "tilt_start_time (sentinelCallClientReconfScript m role state from to st) = tilt_start_time st"
  by (simp_all add: sentinelCallClientReconfScript_def split: option.splits)

lemma self_put_ri_RSlave [simp]: "self (put_ri m (RSlave k) ri) = self m"
  by (simp add: put_ri_def)

lemma self_put_ri_RSentinel [simp]: "self (put_ri m (RSentinel k) ri) = self m"
  by (simp add: put_ri_def)

lemma abort_failover_result:
  assumes "flags (self m) AND SRI_FAILOVER_IN_PROGRESS \<noteq> 0"
    and "failover_state (self m) \<le> SENTINEL_FAILOVER_STATE_WAIT_PROMOTION"
  shows "failover_state (self (fst (sentinelAbortFailover e m st))) = SENTINEL_FAILOVER_STATE_NONE
       \<and> flags (self (fst (sentinelAbortFailover e m st))) AND SRI_FAILOVER_IN_PROGRESS = 0
       \<and> flags (self (fst (sentinelAbortFailover e m st))) AND SRI_FORCE_FAILOVER = 0
       \<and> events (snd (sentinelAbortFailover e m st)) = events st"
  using assms
  by (auto simp: sentinelAbortFailover_def Let_def word_bw_assocs split: option.splits)

lemma select_none_aborts:
  assumes "sentinelSelectSlave e m = None"
    and "flags (self m) AND SRI_MASTER \<noteq> 0"
    and "flags (self m) AND SRI_FAILOVER_IN_PROGRESS \<noteq> 0"
    and "failover_state (self m) = SENTINEL_FAILOVER_STATE_SELECT_SLAVE"
  shows "failover_state (self (fst (sentinelFailoverStateMachine e m st))) = SENTINEL_FAILOVER_STATE_NONE
       \<and> flags (self (fst (sentinelFailoverStateMachine e m st))) AND SRI_FAILOVER_IN_PROGRESS = 0
       \<and> events (snd (sentinelFailoverStateMachine e m st)) =
           events st @ [\<lparr>ev_level = REDIS_WARNING, ev_type = ''-failover-abort-no-good-slave'',
                          ev_msg = event_msg (of_master m) True []\<rparr>]"
proof -
  have sm: "sentinelFailoverStateMachine e m st =
              sentinelAbortFailover e m
                (sentinelEvent REDIS_WARNING ''-failover-abort-no-good-slave'' (of_master m) True [] st)"
    using assms by (simp add: sentinelFailoverStateMachine_def sentinelFailoverSelectSlave_def)
  have le: "failover_state (self m) \<le> SENTINEL_FAILOVER_STATE_WAIT_PROMOTION"
    using assms(4) by simp
  show ?thesis
    unfolding sm using abort_failover_result [OF assms(3) le, of e] by simp
qed

text \<open>
  What holds of the selection for all slaves: the test of the loop is the eligibility
  filter (not SDOWN, ODOWN or DISCONNECTED; a valid PONG within 5 s; INFO within 5 s, or 15 s
  when the master is not SDOWN; priority not 0; \<open>master_link_down_time\<close> within the bound);
  the slave returned is an eligible slave of the master; none is returned exactly when no
  slave is eligible, so never a slave of priority 0; and the failover in the state
  \<^verbatim>\<open>SELECT_SLAVE\<close> is then aborted with the event \<^verbatim>\<open>-failover-abort-no-good-slave\<close>. When no
  difference of two priorities overflows an \<^verbatim>\<open>int\<close>, the candidates are sorted ascending
  by priority and then run id, a missing run id last, and the slave returned precedes or
  equals every eligible slave.
\<close>

lemma select_slave_properties:
  "(\<forall>s. slave_is_candidate e m s = eligible_for_promotion e m s)
   \<and> (let cands = filter (\<lambda>kv. eligible_for_promotion e m (snd kv)) (slaves m);
           sorted_cands = qsort (\<lambda>a b. compareSlavesForPromotion (snd a) (snd b)) cands
       in mset sorted_cands = mset cands
          \<and> ((\<forall>a \<in> set (slaves m). \<forall>b \<in> set (slaves m). priorities_comparable (snd a) (snd b)) \<longrightarrow>
               sorted_wrt (\<lambda>a b. promotion_le (snd a) (snd b)) sorted_cands)
          \<and> sentinelSelectSlave e m = (case sorted_cands of [] \<Rightarrow> None | x # rest \<Rightarrow> Some x))
   \<and> (\<forall>k s. sentinelSelectSlave e m = Some (k, s) \<longrightarrow>
          (k, s) \<in> set (slaves m) \<and> eligible_for_promotion e m s \<and> slave_priority s \<noteq> 0
          \<and> ((\<forall>a \<in> set (slaves m). \<forall>b \<in> set (slaves m). priorities_comparable (snd a) (snd b)) \<longrightarrow>
               (\<forall>kv \<in> set (slaves m). eligible_for_promotion e m (snd kv) \<longrightarrow> promotion_le s (snd kv))))
   \<and> (sentinelSelectSlave e m = None \<longleftrightarrow>
          (\<forall>kv \<in> set (slaves m). \<not> eligible_for_promotion e m (snd kv)))
   \<and> ((\<forall>kv \<in> set (slaves m). slave_priority (snd kv) = 0) \<longrightarrow> sentinelSelectSlave e m = None)
   \<and> (sentinelSelectSlave e m = None \<and> flags (self m) AND SRI_MASTER \<noteq> 0
        \<and> flags (self m) AND SRI_FAILOVER_IN_PROGRESS \<noteq> 0
        \<and> failover_state (self m) = SENTINEL_FAILOVER_STATE_SELECT_SLAVE \<longrightarrow>
          failover_state (self (fst (sentinelFailoverStateMachine e m st))) = SENTINEL_FAILOVER_STATE_NONE
          \<and> flags (self (fst (sentinelFailoverStateMachine e m st))) AND SRI_FAILOVER_IN_PROGRESS = 0
          \<and> events (snd (sentinelFailoverStateMachine e m st)) =
              events st @ [\<lparr>ev_level = REDIS_WARNING, ev_type = ''-failover-abort-no-good-slave'',
                             ev_msg = event_msg (of_master m) True []\<rparr>])"
proof -
  have a: "\<forall>s. slave_is_candidate e m s = eligible_for_promotion e m s"
    by (simp add: candidate_iff_eligible)
  have srt: "(\<forall>a \<in> set (slaves m). \<forall>b \<in> set (slaves m). priorities_comparable (snd a) (snd b)) \<longrightarrow>
       sorted_wrt (\<lambda>a b. promotion_le (snd a) (snd b))
         (qsort (\<lambda>a b. compareSlavesForPromotion (snd a) (snd b))
            (filter (\<lambda>kv. eligible_for_promotion e m (snd kv)) (slaves m)))"
  proof
    assume h: "\<forall>a \<in> set (slaves m). \<forall>b \<in> set (slaves m). priorities_comparable (snd a) (snd b)"
    show "sorted_wrt (\<lambda>a b. promotion_le (snd a) (snd b))
         (qsort (\<lambda>a b. compareSlavesForPromotion (snd a) (snd b))
            (filter (\<lambda>kv. eligible_for_promotion e m (snd kv)) (slaves m)))"
      by (rule sorted_promotion) (use h in simp)
  qed
  have b: "let cands = filter (\<lambda>kv. eligible_for_promotion e m (snd kv)) (slaves m);
               sorted_cands = qsort (\<lambda>a b. compareSlavesForPromotion (snd a) (snd b)) cands
           in mset sorted_cands = mset cands
              \<and> ((\<forall>a \<in> set (slaves m). \<forall>b \<in> set (slaves m). priorities_comparable (snd a) (snd b)) \<longrightarrow>
                   sorted_wrt (\<lambda>a b. promotion_le (snd a) (snd b)) sorted_cands)
              \<and> sentinelSelectSlave e m = (case sorted_cands of [] \<Rightarrow> None | x # rest \<Rightarrow> Some x)"
    unfolding Let_def
    using select_slave_cases [of e m] srt
    by (simp add: mset_qsort candidate_iff_eligible)
  have c: "\<forall>k s. sentinelSelectSlave e m = Some (k, s) \<longrightarrow>
          (k, s) \<in> set (slaves m) \<and> eligible_for_promotion e m s \<and> slave_priority s \<noteq> 0
          \<and> ((\<forall>a \<in> set (slaves m). \<forall>b \<in> set (slaves m). priorities_comparable (snd a) (snd b)) \<longrightarrow>
               (\<forall>kv \<in> set (slaves m). eligible_for_promotion e m (snd kv) \<longrightarrow> promotion_le s (snd kv)))"
  proof (intro allI impI)
    fix k s
    assume sel: "sentinelSelectSlave e m = Some (k, s)"
    have m: "(k, s) \<in> set (slaves m) \<and> eligible_for_promotion e m s"
      using select_slave_mem [OF sel] by (simp add: candidate_iff_eligible)
    then have p: "slave_priority s \<noteq> 0" by (simp add: eligible_for_promotion_def)
    have "(\<forall>a \<in> set (slaves m). \<forall>b \<in> set (slaves m). priorities_comparable (snd a) (snd b)) \<longrightarrow>
            (\<forall>kv \<in> set (slaves m). eligible_for_promotion e m (snd kv) \<longrightarrow> promotion_le s (snd kv))"
      using select_slave_Some [OF sel] by (simp add: candidate_iff_eligible)
    with m p show "(k, s) \<in> set (slaves m) \<and> eligible_for_promotion e m s \<and> slave_priority s \<noteq> 0
          \<and> ((\<forall>a \<in> set (slaves m). \<forall>b \<in> set (slaves m). priorities_comparable (snd a) (snd b)) \<longrightarrow>
               (\<forall>kv \<in> set (slaves m). eligible_for_promotion e m (snd kv) \<longrightarrow> promotion_le s (snd kv)))"
      by blast
  qed
  have d: "sentinelSelectSlave e m = None \<longleftrightarrow>
          (\<forall>kv \<in> set (slaves m). \<not> eligible_for_promotion e m (snd kv))"
    by (simp add: select_slave_None candidate_iff_eligible)
  have f: "(\<forall>kv \<in> set (slaves m). slave_priority (snd kv) = 0) \<longrightarrow> sentinelSelectSlave e m = None"
    unfolding d by (simp add: eligible_for_promotion_def)
  show ?thesis
    using a b c d f select_none_aborts [of e m st] by blast
qed

text \<open>
  \<^bold>\<open>C7.\<close> The code at two eligible slaves of priorities 2147483647 and -2147483647, as
  their INFO lines \<^verbatim>\<open>slave_priority:\<close> give them. In the order of the specification the
  slave of priority -2147483647 comes first. \<^verbatim>\<open>compareSlavesForPromotion\<close> returns the
  difference of the priorities, which overflows: comparing the first slave with the second
  gives -2, and the other way round 2, so that \<^verbatim>\<open>qsort\<close> puts the slave of priority
  2147483647 first and \<^verbatim>\<open>sentinelSelectSlave\<close> returns it.
\<close>

theorem select_slave_priority_overflow:
  "map (\<lambda>kv. (fst kv, slave_priority (snd kv), eligible_for_promotion env0 master_extreme_priorities (snd kv)))
       (slaves master_extreme_priorities)
     = [(''10.0.0.21:6379'', 2147483647, True), (''10.0.0.22:6379'', - 2147483647, True)]
   \<and> compareSlavesForPromotion (snd (slaves master_extreme_priorities ! 0))
        (snd (slaves master_extreme_priorities ! 1)) = - 2
   \<and> compareSlavesForPromotion (snd (slaves master_extreme_priorities ! 1))
        (snd (slaves master_extreme_priorities ! 0)) = 2
   \<and> promotion_le (snd (slaves master_extreme_priorities ! 1)) (snd (slaves master_extreme_priorities ! 0))
   \<and> \<not> promotion_le (snd (slaves master_extreme_priorities ! 0)) (snd (slaves master_extreme_priorities ! 1))
   \<and> map_option (\<lambda>kv. (fst kv, slave_priority (snd kv))) (sentinelSelectSlave env0 master_extreme_priorities)
       = Some (''10.0.0.21:6379'', 2147483647)"
proof -
  have c: "c_int 4294967294 = - 2" "c_int (- 4294967294) = 2"
    by (simp_all add: c_int_def)
  show ?thesis
    by (simp add: c sentinelSelectSlave_def master_extreme_priorities_def master0_def slave0_def env0_def
          new_instance_def slave_is_candidate_def eligible_for_promotion_def Let_def qsort_def
          compareSlavesForPromotion_def promotion_le_def)
qed

subsection \<open>The SENTINEL failover command\<close>

lemma dictFetchValue_dictSetVal_same:
  "dictFetchValue d k = Some x \<Longrightarrow> dictFetchValue (dictSetVal d k v) k = Some v"
  by (induction d) (auto simp: dictFetchValue_def)

lemma dictFetchValue_dictSetVal_other:
  "k' \<noteq> k \<Longrightarrow> dictFetchValue (dictSetVal d k v) k' = dictFetchValue d k'"
  by (induction d) (auto simp: dictFetchValue_def)

lemma sentinelStartFailover_result:
  assumes "flags (self m) AND SRI_MASTER \<noteq> 0"
  shows "failover_state (self (fst (sentinelStartFailover e m st))) = SENTINEL_FAILOVER_STATE_WAIT_START"
    and "flags (self (fst (sentinelStartFailover e m st))) = flags (self m) OR SRI_FAILOVER_IN_PROGRESS"
    and "failover_epoch (self (fst (sentinelStartFailover e m st))) = current_epoch st + 1"
    and "failover_start_time (self (fst (sentinelStartFailover e m st))) = now e"
    and "failover_state_change_time (self (fst (sentinelStartFailover e m st))) = now e"
    and "current_epoch (snd (sentinelStartFailover e m st)) = current_epoch st + 1"
    and "masters (snd (sentinelStartFailover e m st)) = masters st"
    and "map ev_type (events (snd (sentinelStartFailover e m st))) =
           map ev_type (events st) @ [''+new-epoch'', ''+try-failover'']"
  using assms
  by (simp_all add: sentinelStartFailover_def Let_def)

text \<open>
  \<^bold>\<open>C10.\<close> For \<^verbatim>\<open>SENTINEL failover <name>\<close> naming a monitored master: the command is
  answered with an error exactly when a failover is already in progress for that master
  (\<^verbatim>\<open>-INPROG\<close>) or no slave is eligible (\<^verbatim>\<open>-NOGOODSLAVE\<close>), and then the whole state of the
  monitor is unchanged; otherwise the reply is \<^verbatim>\<open>+OK\<close>, the epoch is incremented, the
  master is in the state \<^verbatim>\<open>WAIT_START\<close> of a failover of that epoch with
  \<^verbatim>\<open>SRI_FAILOVER_IN_PROGRESS\<close> and \<^verbatim>\<open>SRI_FORCE_FAILOVER\<close> set, and \<^verbatim>\<open>+new-epoch\<close> and
  \<^verbatim>\<open>+try-failover\<close> are emitted.
\<close>

theorem sentinel_failover_command:
  assumes "dictFetchValue (masters st) nm = Some ri"
    and "flags (self ri) AND SRI_MASTER \<noteq> 0"
  shows "let r = sentinelCommand e (FAILOVER [nm]) st;
             reply = fst r; st' = snd r;
             inprog = (flags (self ri) AND SRI_FAILOVER_IN_PROGRESS \<noteq> 0);
             nogood = (sentinelSelectSlave e ri = None)
         in (inprog \<longrightarrow> reply = ReplyError ''-INPROG Failover already in progress'' \<and> st' = st)
          \<and> (\<not> inprog \<and> nogood \<longrightarrow>
                reply = ReplyError ''-NOGOODSLAVE No suitable slave to promote'' \<and> st' = st)
          \<and> ((\<exists>msg. reply = ReplyError msg) \<longleftrightarrow> inprog \<or> nogood)
          \<and> (\<not> inprog \<and> \<not> nogood \<longrightarrow>
                reply = ReplyOk
                \<and> current_epoch st' = current_epoch st + 1
                \<and> (\<exists>ri'. dictFetchValue (masters st') nm = Some ri'
                      \<and> failover_state (self ri') = SENTINEL_FAILOVER_STATE_WAIT_START
                      \<and> flags (self ri') = (flags (self ri) OR SRI_FAILOVER_IN_PROGRESS) OR SRI_FORCE_FAILOVER
                      \<and> failover_epoch (self ri') = current_epoch st + 1
                      \<and> failover_start_time (self ri') = now e)
                \<and> map ev_type (drop (length (events st)) (events st')) = [''+new-epoch'', ''+try-failover''])"
proof -
  let ?f = "sentinelStartFailover e ri st"
  note sf = sentinelStartFailover_result [OF assms(2), of e st]
  have ok: "flags (self ri) AND SRI_FAILOVER_IN_PROGRESS = 0 \<Longrightarrow> sentinelSelectSlave e ri \<noteq> None \<Longrightarrow>
     sentinelCommand e (FAILOVER [nm]) st =
       (ReplyOk, (snd ?f)\<lparr>masters := dictSetVal (masters (snd ?f)) nm
           ((fst ?f)\<lparr>self := (self (fst ?f))\<lparr>flags := flags (self (fst ?f)) OR SRI_FORCE_FAILOVER\<rparr>\<rparr>)\<rparr>)"
    using assms(1) by (simp add: sentinelCommand_def Let_def)
  have look: "dictFetchValue (dictSetVal (masters st) nm v) nm = Some v" for v
    using assms(1) by (rule dictFetchValue_dictSetVal_same)
  have inprog: "flags (self ri) AND SRI_FAILOVER_IN_PROGRESS \<noteq> 0 \<Longrightarrow>
      sentinelCommand e (FAILOVER [nm]) st = (ReplyError ''-INPROG Failover already in progress'', st)"
    using assms(1) by (simp add: sentinelCommand_def)
  have nogood: "flags (self ri) AND SRI_FAILOVER_IN_PROGRESS = 0 \<Longrightarrow> sentinelSelectSlave e ri = None \<Longrightarrow>
      sentinelCommand e (FAILOVER [nm]) st = (ReplyError ''-NOGOODSLAVE No suitable slave to promote'', st)"
    using assms(1) by (simp add: sentinelCommand_def)
  have err: "(\<exists>msg. fst (sentinelCommand e (FAILOVER [nm]) st) = ReplyError msg)
               \<longleftrightarrow> flags (self ri) AND SRI_FAILOVER_IN_PROGRESS \<noteq> 0 \<or> sentinelSelectSlave e ri = None"
    using inprog nogood ok
    by (cases "flags (self ri) AND SRI_FAILOVER_IN_PROGRESS = 0"; cases "sentinelSelectSlave e ri = None")
       auto
  have evs: "flags (self ri) AND SRI_FAILOVER_IN_PROGRESS = 0 \<Longrightarrow> sentinelSelectSlave e ri \<noteq> None \<Longrightarrow>
      map ev_type (drop (length (events st)) (events (snd (sentinelCommand e (FAILOVER [nm]) st))))
        = [''+new-epoch'', ''+try-failover'']"
  proof -
    assume a: "flags (self ri) AND SRI_FAILOVER_IN_PROGRESS = 0" "sentinelSelectSlave e ri \<noteq> None"
    have "map ev_type (drop (length (events st)) (events (snd ?f)))
            = drop (length (map ev_type (events st))) (map ev_type (events (snd ?f)))"
      by (simp add: drop_map)
    also have "\<dots> = [''+new-epoch'', ''+try-failover'']"
      by (simp only: sf(8)) simp
    finally show ?thesis using ok [OF a] by simp
  qed
  show ?thesis
    unfolding Let_def
    using inprog nogood err ok sf(1-7) look evs by auto
qed


theorem sentinel_failover_command_witness:
  "fst (sentinelCommand env0 (FAILOVER [''mymaster'']) (state0\<lparr>masters := [(''mymaster'', master_four_slaves)]\<rparr>))
     = ReplyOk
   \<and> current_epoch (snd (sentinelCommand env0 (FAILOVER [''mymaster''])
                          (state0\<lparr>masters := [(''mymaster'', master_four_slaves)]\<rparr>))) = 1
   \<and> sentinelCommand env0 (FAILOVER [''mymaster'']) (state0\<lparr>masters := [(''mymaster'', master_priority_zero)]\<rparr>)
     = (ReplyError ''-INPROG Failover already in progress'',
        state0\<lparr>masters := [(''mymaster'', master_priority_zero)]\<rparr>)
   \<and> sentinelCommand env0 (FAILOVER [''mymaster'']) (state0\<lparr>masters := [(''mymaster'', master0)]\<rparr>)
     = (ReplyError ''-NOGOODSLAVE No suitable slave to promote'',
        state0\<lparr>masters := [(''mymaster'', master0)]\<rparr>)"
proof -
  have a1: "dictFetchValue (masters (state0\<lparr>masters := [(''mymaster'', master_four_slaves)]\<rparr>)) ''mymaster''
              = Some master_four_slaves"
    by (simp add: dictFetchValue_def)
  have a2: "flags (self master_four_slaves) AND SRI_MASTER \<noteq> 0"
    by (simp add: master_four_slaves_def master0_def new_instance_def)
  have a3: "flags (self master_four_slaves) AND SRI_FAILOVER_IN_PROGRESS = 0"
    by (simp add: master_four_slaves_def master0_def new_instance_def)
  have "map_option fst (sentinelSelectSlave env0 master_four_slaves) = Some ''10.0.0.13:6379''"
    by (simp add: sentinelSelectSlave_def master_four_slaves_def master0_def slave0_def env0_def
          new_instance_def slave_is_candidate_def Let_def qsort_def compareSlavesForPromotion_def
          strcasecmp_def cstr_def tolower_c_def c_int_def)
  then have a4: "sentinelSelectSlave env0 master_four_slaves \<noteq> None" by auto
  have b1: "dictFetchValue (masters (state0\<lparr>masters := [(''mymaster'', master_priority_zero)]\<rparr>)) ''mymaster''
              = Some master_priority_zero"
    by (simp add: dictFetchValue_def)
  have b2: "flags (self master_priority_zero) AND SRI_MASTER \<noteq> 0"
    by (simp add: master_priority_zero_def)
  have b3: "flags (self master_priority_zero) AND SRI_FAILOVER_IN_PROGRESS \<noteq> 0"
    by (simp add: master_priority_zero_def)
  have c1: "dictFetchValue (masters (state0\<lparr>masters := [(''mymaster'', master0)]\<rparr>)) ''mymaster'' = Some master0"
    by (simp add: dictFetchValue_def)
  have c2: "flags (self master0) AND SRI_MASTER \<noteq> 0"
    by (simp add: master0_def new_instance_def)
  have c3: "flags (self master0) AND SRI_FAILOVER_IN_PROGRESS = 0"
    by (simp add: master0_def new_instance_def)
  have c4: "sentinelSelectSlave env0 master0 = None"
    by (simp add: sentinelSelectSlave_def master0_def qsort_def)
  have z: "current_epoch state0 = 0" by (simp add: state0_def)
  show ?thesis
    using sentinel_failover_command [OF a1 a2, of env0] a3 a4
          sentinel_failover_command [OF b1 b2, of env0] b3
          sentinel_failover_command [OF c1 c2, of env0] c3 c4 z
    by (simp add: Let_def prod_eq_iff)
qed

subsection \<open>The leader election\<close>

lemma map_fst_dictSetVal: "map fst (dictSetVal d k v) = map fst d"
  by (induction d) auto

lemma map_of_dictSetVal:
  "map_of (dictSetVal d k v) k' = (if k' = k \<and> map_of d k \<noteq> None then Some v else map_of d k')"
  by (induction d) auto

lemma set_dictSetVal_snd: "kv \<in> set (dictSetVal d k v) \<Longrightarrow> kv \<in> set d \<or> kv = (k, v)"
  by (induction d) (auto split: if_splits)

lemma dictSetVal_absent: "k \<notin> fst ` set d \<Longrightarrow> dictSetVal d k v = d"
  by (induction d) auto

lemma sum_dictSetVal:
  "distinct (map fst d) \<Longrightarrow> map_of d k = Some old \<Longrightarrow>
     sum_list (map snd (dictSetVal d k (Suc old))) = Suc (sum_list (map snd d))"
proof (induction d)
  case Nil
  then show ?case by simp
next
  case (Cons a d)
  obtain k' v' where a: "a = (k', v')" by (cases a)
  show ?case
  proof (cases "k' = k")
    case True
    with Cons.prems a have v: "v' = old" by simp
    from True Cons.prems a have "k \<notin> fst ` set d" by auto
    then have same: "dictSetVal d k (Suc old) = d" by (rule dictSetVal_absent)
    have "dictSetVal (a # d) k (Suc old) = (k, Suc old) # dictSetVal d k (Suc old)"
      by (simp add: a True same)
    then show ?thesis by (simp add: same a v)
  next
    case False
    have "dictSetVal (a # d) k (Suc old) = a # dictSetVal d k (Suc old)"
      by (simp add: a False)
    moreover have "sum_list (map snd (dictSetVal d k (Suc old))) = Suc (sum_list (map snd d))"
      using Cons False a by simp
    ultimately show ?thesis by simp
  qed
qed

lemma incr_ok: "counters_ok c \<Longrightarrow> counters_ok (sentinelLeaderIncr c l)"
  by (auto simp: counters_ok_def sentinelLeaderIncr_def map_fst_dictSetVal map_of_eq_None_iff
           dest!: set_dictSetVal_snd split: option.splits)

lemma incr_votes_of:
  "votes_of (sentinelLeaderIncr c l) rid = votes_of c rid + (if rid = l then 1 else 0)"
  by (auto simp: votes_of_def sentinelLeaderIncr_def map_of_dictSetVal split: option.splits)

lemma incr_sum:
  assumes "counters_ok c"
  shows "sum_list (map snd (sentinelLeaderIncr c l)) = sum_list (map snd c) + 1"
proof (cases "map_of c l")
  case None
  then show ?thesis by (simp add: sentinelLeaderIncr_def)
next
  case (Some old)
  have "distinct (map fst c)" using assms by (simp add: counters_ok_def)
  from sum_dictSetVal [OF this Some] Some show ?thesis
    by (simp add: sentinelLeaderIncr_def)
qed

lemma count_votes_props:
  assumes "counters_ok c"
  shows "counters_ok (fst (count_votes cur ss (c, n)))
       \<and> (\<forall>rid. votes_of (fst (count_votes cur ss (c, n))) rid = votes_of c rid + peer_votes cur ss rid)
       \<and> snd (count_votes cur ss (c, n)) = n + peer_voters cur ss
       \<and> sum_list (map snd (fst (count_votes cur ss (c, n)))) = sum_list (map snd c) + peer_voters cur ss"
  using assms
proof (induction ss arbitrary: c n)
  case Nil
  then show ?case by (simp add: peer_votes_def peer_voters_def)
next
  case (Cons a ss)
  obtain k ri where a: "a = (k, ri)" by (cases a)
  show ?case
  proof (cases "vote_counted cur ri")
    case False
    then have "count_votes cur (a # ss) (c, n) = count_votes cur ss (c, n)"
      by (auto simp: a vote_counted_def split: option.splits)
    moreover have "peer_votes cur (a # ss) = peer_votes cur ss" "peer_voters cur (a # ss) = peer_voters cur ss"
      using False by (auto simp: a peer_votes_def peer_voters_def)
    ultimately show ?thesis using Cons.IH [OF Cons.prems] by simp
  next
    case True
    then obtain l where l: "leader ri = Some l" and ep: "leader_epoch ri = cur"
      by (auto simp: vote_counted_def)
    have step: "count_votes cur (a # ss) (c, n) = count_votes cur ss (sentinelLeaderIncr c l, n + 1)"
      by (simp add: a l ep)
    have pv: "peer_votes cur (a # ss) rid = peer_votes cur ss rid + (if rid = l then 1 else 0)" for rid
      using True l by (auto simp: a peer_votes_def)
    have pn: "peer_voters cur (a # ss) = peer_voters cur ss + 1"
      using True by (simp add: a peer_voters_def)
    show ?thesis
      unfolding step
      using Cons.IH [OF incr_ok [OF Cons.prems], of l "n + 1"]
      by (simp add: pv pn incr_votes_of incr_sum [OF Cons.prems])
  qed
qed

lemma max_votes_loop_props:
  "let r = max_votes_loop c (mx, w) in
     mx \<le> fst r \<and> (\<forall>kv \<in> set c. snd kv \<le> fst r)
     \<and> ((fst r = mx \<and> snd r = w) \<or> (\<exists>k. snd r = Some k \<and> (k, fst r) \<in> set c \<and> mx < fst r))"
proof (induction c arbitrary: mx w)
  case Nil
  then show ?case by simp
next
  case (Cons a c)
  obtain k v where a: "a = (k, v)" by (cases a)
  show ?case
  proof (cases "mx < v")
    case True
    then have step: "max_votes_loop (a # c) (mx, w) = max_votes_loop c (v, Some k)"
      by (simp add: a)
    show ?thesis
      unfolding step using Cons.IH [of v "Some k"] True
      by (auto simp: Let_def a)
  next
    case False
    then have step: "max_votes_loop (a # c) (mx, w) = max_votes_loop c (mx, w)"
      by (simp add: a)
    show ?thesis
      unfolding step using Cons.IH [of mx w] False
      by (auto simp: Let_def a)
  qed
qed

lemma votes_of_mem: "distinct (map fst c) \<Longrightarrow> (k, v) \<in> set c \<Longrightarrow> votes_of c k = v"
  by (simp add: votes_of_def)

lemma votes_of_pos_mem: "0 < votes_of c k \<Longrightarrow> (k, votes_of c k) \<in> set c"
  by (auto simp: votes_of_def split: option.splits dest: map_of_SomeD)

lemma one_le_sum: "(k, v) \<in> set c \<Longrightarrow> (v::nat) \<le> sum_list (map snd c)"
  by (induction c) auto

lemma two_le_sum:
  "distinct (map fst c) \<Longrightarrow> (k1, v1) \<in> set c \<Longrightarrow> (k2, v2) \<in> set c \<Longrightarrow> k1 \<noteq> k2 \<Longrightarrow>
     v1 + v2 \<le> (sum_list (map snd c) :: nat)"
proof (induction c)
  case Nil
  then show ?case by simp
next
  case (Cons a c)
  consider "a = (k1, v1)" | "a = (k2, v2)" | "(k1, v1) \<in> set c" "(k2, v2) \<in> set c"
    using Cons.prems by auto
  then show ?case
  proof cases
    case 1
    with Cons.prems have "(k2, v2) \<in> set c" by auto
    from one_le_sum [OF this] 1 show ?thesis by simp
  next
    case 2
    with Cons.prems have "(k1, v1) \<in> set c" by auto
    from one_le_sum [OF this] 2 show ?thesis by simp
  next
    case 3
    with Cons have "v1 + v2 \<le> sum_list (map snd c)" by simp
    then show ?thesis by simp
  qed
qed

lemma vote_keeps_quorum [simp]:
  "quorum (self (fst (snd (sentinelVoteLeader e m epoch rid st)))) = quorum (self m)"
  by (simp add: sentinelVoteLeader_def Let_def)

lemma get_leader_unfold:
  assumes "flags (self m) AND (SRI_O_DOWN OR SRI_FAILOVER_IN_PROGRESS) \<noteq> 0"
  shows "fst (sentinelGetLeader e m epoch st) =
     (let r = sentinelVoteLeader e m epoch (server_runid e) st;
          mine = (case own_vote e m epoch st of Some v \<Rightarrow> ([(v, 1)], 1) | None \<Rightarrow> ([], 0));
          cv = count_votes (current_epoch (snd (snd r))) (sentinels (fst (snd r))) mine;
          mw = max_votes_loop (fst cv) (0, None)
      in if snd mw \<noteq> None \<and> (fst mw < snd cv div 2 + 1 \<or> int (fst mw) < quorum (self m) mod 2 ^ 64)
         then None else snd mw)"
  using assms
  by (auto simp: sentinelGetLeader_def own_vote_def Let_def sentinelLeaderIncr_def split: option.splits)

lemma leader_winner_iff:
  assumes fl: "flags (self m) AND (SRI_O_DOWN OR SRI_FAILOVER_IN_PROGRESS) \<noteq> 0"
    and q: "0 \<le> quorum (self m)" "quorum (self m) < 2 ^ 64"
  shows "fst (sentinelGetLeader e m epoch st) = Some rid \<longleftrightarrow>
           (\<forall>rid'. tally e m epoch st rid' \<le> tally e m epoch st rid)
           \<and> voters_count e m epoch st div 2 + 1 \<le> tally e m epoch st rid
           \<and> quorum (self m) \<le> int (tally e m epoch st rid)"
proof -
  define r where "r = sentinelVoteLeader e m epoch (server_runid e) st"
  define mine :: "(string \<times> nat) list \<times> nat"
    where "mine = (case own_vote e m epoch st of Some v \<Rightarrow> ([(v, 1)], 1) | None \<Rightarrow> ([], 0))"
  define cur where "cur = current_epoch (snd (snd r))"
  define ss where "ss = sentinels (fst (snd r))"
  define cv where "cv = count_votes cur ss mine"
  define mw where "mw = max_votes_loop (fst cv) (0, None)"
  define c where "c = fst cv"
  define n where "n = snd cv"
  have res: "fst (sentinelGetLeader e m epoch st) =
      (if snd mw \<noteq> None \<and> (fst mw < n div 2 + 1 \<or> int (fst mw) < quorum (self m)) then None else snd mw)"
    using q unfolding get_leader_unfold [OF fl] Let_def r_def mine_def cur_def ss_def cv_def mw_def n_def
    by simp
  have mine_ok: "counters_ok (fst mine)"
    by (auto simp: mine_def counters_ok_def split: option.splits)
  have mine_votes: "votes_of (fst mine) x = (if own_vote e m epoch st = Some x then 1 else 0)" for x
    by (auto simp: mine_def votes_of_def split: option.splits)
  have mine_sum: "sum_list (map snd (fst mine)) = snd mine"
    by (auto simp: mine_def split: option.splits)
  have mine_n: "snd mine = (if own_vote e m epoch st \<noteq> None then 1 else 0)"
    by (auto simp: mine_def split: option.splits)
  have cvp: "counters_ok c"
      "\<And>x. votes_of c x = votes_of (fst mine) x + peer_votes cur ss x"
      "n = snd mine + peer_voters cur ss"
      "sum_list (map snd c) = sum_list (map snd (fst mine)) + peer_voters cur ss"
    using count_votes_props [OF mine_ok, of cur ss "snd mine"]
    by (simp_all add: c_def n_def cv_def)
  have t: "votes_of c x = tally e m epoch st x" for x
    by (simp add: cvp(2) mine_votes tally_def Let_def r_def cur_def ss_def)
  have v: "n = voters_count e m epoch st"
    by (simp add: cvp(3) mine_n voters_count_def Let_def r_def cur_def ss_def)
  have total: "sum_list (map snd c) = n"
    by (simp add: cvp(3,4) mine_sum)
  have dist: "distinct (map fst c)"
    using cvp(1) by (simp add: counters_ok_def)
  have mwp: "\<forall>kv \<in> set c. snd kv \<le> fst mw"
      "(fst mw = 0 \<and> snd mw = None) \<or> (\<exists>k. snd mw = Some k \<and> (k, fst mw) \<in> set c \<and> 0 < fst mw)"
    using max_votes_loop_props [of c 0 None] by (simp_all add: mw_def c_def Let_def)
  have le_max: "votes_of c x \<le> fst mw" for x
  proof (cases "0 < votes_of c x")
    case True
    from votes_of_pos_mem [OF this] mwp(1) show ?thesis by auto
  next
    case False
    then show ?thesis by simp
  qed
  show ?thesis
  proof
    assume "fst (sentinelGetLeader e m epoch st) = Some rid"
    with res have w: "snd mw = Some rid" and th: "n div 2 + 1 \<le> fst mw" "quorum (self m) \<le> int (fst mw)"
      by (auto split: if_splits)
    from w mwp(2) have "(rid, fst mw) \<in> set c" by auto
    from votes_of_mem [OF dist this] have "votes_of c rid = fst mw" .
    with th le_max show "(\<forall>rid'. tally e m epoch st rid' \<le> tally e m epoch st rid)
           \<and> voters_count e m epoch st div 2 + 1 \<le> tally e m epoch st rid
           \<and> quorum (self m) \<le> int (tally e m epoch st rid)"
      by (simp add: t [symmetric] v [symmetric])
  next
    assume a: "(\<forall>rid'. tally e m epoch st rid' \<le> tally e m epoch st rid)
           \<and> voters_count e m epoch st div 2 + 1 \<le> tally e m epoch st rid
           \<and> quorum (self m) \<le> int (tally e m epoch st rid)"
    then have mx: "\<And>x. votes_of c x \<le> votes_of c rid"
        and maj: "n div 2 + 1 \<le> votes_of c rid"
        and qu: "quorum (self m) \<le> int (votes_of c rid)"
      by (simp_all add: t v)
    from maj have pos: "0 < votes_of c rid" by simp
    from votes_of_pos_mem [OF pos] have mem: "(rid, votes_of c rid) \<in> set c" .
    with mwp(1) have "votes_of c rid \<le> fst mw" by auto
    with pos mwp(2) obtain k where k: "snd mw = Some k" "(k, fst mw) \<in> set c"
      by auto
    from votes_of_mem [OF dist k(2)] mx [of k] \<open>votes_of c rid \<le> fst mw\<close>
    have eq: "fst mw = votes_of c rid" by simp
    have "k = rid"
    proof (rule ccontr)
      assume "k \<noteq> rid"
      from two_le_sum [OF dist k(2) mem this] have "fst mw + votes_of c rid \<le> n"
        by (simp add: total)
      with eq maj show False by simp
    qed
    with k eq maj qu res show "fst (sentinelGetLeader e m epoch st) = Some rid"
      by simp
  qed
qed


text \<open>
  \<^bold>\<open>C5.\<close> The loop over the peers counts the vote of a peer exactly when its leader is
  not null and its \<open>leader_epoch\<close> is the current epoch of this sentinel. With the quorum
  a positive \<^verbatim>\<open>int\<close>, as the configuration makes it, a run id is returned as the winner if
  and only if no run id has more votes than it, and its votes are at least
  \<open>voters div 2 + 1\<close> and at least the quorum of the master; otherwise no winner is
  returned.
\<close>

theorem leader_tally:
  assumes "flags (self m) AND (SRI_O_DOWN OR SRI_FAILOVER_IN_PROGRESS) \<noteq> 0"
    and "0 < quorum (self m)" and "quorum (self m) < 2 ^ 31"
  shows "(\<forall>cur ss rid. votes_of (fst (count_votes cur ss ([], 0))) rid = peer_votes cur ss rid
                     \<and> snd (count_votes cur ss ([], 0)) = peer_voters cur ss)
       \<and> (\<forall>rid. fst (sentinelGetLeader e m epoch st) = Some rid \<longleftrightarrow>
             (\<forall>rid'. tally e m epoch st rid' \<le> tally e m epoch st rid)
             \<and> voters_count e m epoch st div 2 + 1 \<le> tally e m epoch st rid
             \<and> quorum (self m) \<le> int (tally e m epoch st rid))
       \<and> (fst (sentinelGetLeader e m epoch st) = None \<longleftrightarrow>
             \<not> (\<exists>rid. (\<forall>rid'. tally e m epoch st rid' \<le> tally e m epoch st rid)
                      \<and> voters_count e m epoch st div 2 + 1 \<le> tally e m epoch st rid
                      \<and> quorum (self m) \<le> int (tally e m epoch st rid)))"
proof -
  have ok0: "counters_ok []" by (simp add: counters_ok_def)
  have cnt: "\<forall>cur ss rid. votes_of (fst (count_votes cur ss ([], 0))) rid = peer_votes cur ss rid
                     \<and> snd (count_votes cur ss ([], 0)) = peer_voters cur ss"
    using count_votes_props [OF ok0] by (simp add: votes_of_def)
  have q: "0 \<le> quorum (self m)" "quorum (self m) < 2 ^ 64"
    using assms(2,3) by simp_all
  note w = leader_winner_iff [OF assms(1) q, of e epoch st]
  have none: "fst (sentinelGetLeader e m epoch st) = None \<longleftrightarrow>
                (\<forall>rid. fst (sentinelGetLeader e m epoch st) \<noteq> Some rid)"
    by (cases "fst (sentinelGetLeader e m epoch st)") auto
  show ?thesis
    using cnt w none by auto
qed

theorem leader_tally_witness:
  "fst (sentinelGetLeader env0 master_odown 1 (state0\<lparr>current_epoch := 1\<rparr>)) = Some ''me''
   \<and> voters_count env0 master_odown 1 (state0\<lparr>current_epoch := 1\<rparr>) = 3
   \<and> tally env0 master_odown 1 (state0\<lparr>current_epoch := 1\<rparr>) ''me'' = 2
   \<and> (2::int) \<le> int (tally env0 master_odown 1 (state0\<lparr>current_epoch := 1\<rparr>) ''me'')"
proof -
  have fl: "flags (self master_odown) AND (SRI_O_DOWN OR SRI_FAILOVER_IN_PROGRESS) \<noteq> 0"
    by (simp add: master_odown_def)
  have q: "0 < quorum (self master_odown)" "quorum (self master_odown) < 2 ^ 31"
    by (simp_all add: master_odown_def master0_def new_instance_def)
  have qv: "quorum (self master_odown) = 2"
    by (simp add: master_odown_def master0_def new_instance_def)
  have win: "fst (sentinelGetLeader env0 master_odown 1 (state0\<lparr>current_epoch := 1\<rparr>)) = Some ''me''"
    by (simp add: sentinelGetLeader_def sentinelVoteLeader_def Let_def master_odown_def master0_def
          new_instance_def sentinel0_def state0_def env0_def sentinelLeaderIncr_def)
  have vc: "voters_count env0 master_odown 1 (state0\<lparr>current_epoch := 1\<rparr>) = 3"
    by (simp add: voters_count_def own_vote_def peer_voters_def vote_counted_def sentinelVoteLeader_def
          Let_def master_odown_def master0_def new_instance_def sentinel0_def state0_def env0_def)
  have tl: "tally env0 master_odown 1 (state0\<lparr>current_epoch := 1\<rparr>) ''me'' = 2"
    by (simp add: tally_def own_vote_def peer_votes_def vote_counted_def sentinelVoteLeader_def
          Let_def master_odown_def master0_def new_instance_def sentinel0_def state0_def env0_def)
  show ?thesis
    using win vc tl qv leader_tally [OF fl q, of env0 1 "state0\<lparr>current_epoch := 1\<rparr>"]
    by auto
qed

subsection \<open>Objectively down\<close>

lemma ask_one_fresh:
  "flags (ask_one e m fl cur ri) AND SRI_MASTER_DOWN \<noteq> 0 \<Longrightarrow>
     now e - last_master_down_reply_time (ask_one e m fl cur ri) \<le> SENTINEL_INFO_VALIDITY_TIME"
  by (auto simp: ask_one_def Let_def word_bw_assocs split: if_splits)

lemma ask_sentinels:
  "sentinels (fst (sentinelAskMasterStateToOtherSentinels e m fl st)) =
     map (\<lambda>kv. (fst kv, ask_one e
                    (if flags (self m) AND SRI_O_DOWN \<noteq> 0
                     then fst (snd (sentinelVoteLeader e m (current_epoch st) (server_runid e) st)) else m)
                    fl
                    (current_epoch (if flags (self m) AND SRI_O_DOWN \<noteq> 0
                       then snd (snd (sentinelVoteLeader e m (current_epoch st) (server_runid e) st)) else st))
                    (snd kv)))
       (sentinels m)"
  by (simp add: sentinelAskMasterStateToOtherSentinels_def Let_def sentinelVoteLeader_def)

text \<open>
  \<^bold>\<open>C4\<close> (as amended). When \<^verbatim>\<open>sentinelCheckObjectivelyDown\<close> gives a master the flag
  \<^verbatim>\<open>SRI_O_DOWN\<close>, the master has \<^verbatim>\<open>SRI_S_DOWN\<close> and this sentinel plus the sentinels that
  carry \<^verbatim>\<open>SRI_MASTER_DOWN\<close> are at least \<open>quorum\<close>. The age of the replies is not looked at
  there: it is \<^verbatim>\<open>sentinelAskMasterStateToOtherSentinels\<close>, called later in the same tick,
  that clears \<^verbatim>\<open>SRI_MASTER_DOWN\<close> of a sentinel whose last reply is older than
  \<^verbatim>\<open>SENTINEL_INFO_VALIDITY_TIME\<close>, so that after it every sentinel with the flag replied
  within 5 s.
\<close>

theorem odown_needs_sdown_and_quorum:
  "(flags (self m) AND SRI_O_DOWN = 0
      \<and> flags (self (fst (sentinelCheckObjectivelyDown e m st))) AND SRI_O_DOWN \<noteq> 0 \<longrightarrow>
        flags (self m) AND SRI_S_DOWN \<noteq> 0
        \<and> quorum (self m) \<le> 1 + int (length (filter (\<lambda>kv. flags (snd kv) AND SRI_MASTER_DOWN \<noteq> 0)
                                               (sentinels m)))
        \<and> flags (self (fst (sentinelCheckObjectivelyDown e m st))) AND SRI_S_DOWN \<noteq> 0
        \<and> o_down_since_time (self (fst (sentinelCheckObjectivelyDown e m st))) = now e)
   \<and> (\<forall>kv \<in> set (sentinels (fst (sentinelAskMasterStateToOtherSentinels e m fl st))).
         flags (snd kv) AND SRI_MASTER_DOWN \<noteq> 0 \<longrightarrow>
           now e - last_master_down_reply_time (snd kv) \<le> SENTINEL_INFO_VALIDITY_TIME)"
proof -
  have a: "flags (self m) AND SRI_O_DOWN = 0
      \<and> flags (self (fst (sentinelCheckObjectivelyDown e m st))) AND SRI_O_DOWN \<noteq> 0 \<longrightarrow>
        flags (self m) AND SRI_S_DOWN \<noteq> 0
        \<and> quorum (self m) \<le> 1 + int (length (filter (\<lambda>kv. flags (snd kv) AND SRI_MASTER_DOWN \<noteq> 0)
                                               (sentinels m)))
        \<and> flags (self (fst (sentinelCheckObjectivelyDown e m st))) AND SRI_S_DOWN \<noteq> 0
        \<and> o_down_since_time (self (fst (sentinelCheckObjectivelyDown e m st))) = now e"
    by (auto simp: sentinelCheckObjectivelyDown_def Let_def down_votes_def bit.conj_disj_distrib2
             split: if_splits)
  have b: "\<forall>kv \<in> set (sentinels (fst (sentinelAskMasterStateToOtherSentinels e m fl st))).
         flags (snd kv) AND SRI_MASTER_DOWN \<noteq> 0 \<longrightarrow>
           now e - last_master_down_reply_time (snd kv) \<le> SENTINEL_INFO_VALIDITY_TIME"
    unfolding ask_sentinels using ask_one_fresh by auto
  show ?thesis using a b by blast
qed

theorem odown_needs_sdown_and_quorum_witness:
  "flags (self master_stale) AND SRI_O_DOWN = 0
   \<and> flags (self (fst (sentinelCheckObjectivelyDown env0 master_stale state0))) AND SRI_O_DOWN \<noteq> 0
   \<and> flags (self master_stale) AND SRI_S_DOWN \<noteq> 0
   \<and> quorum (self master_stale) = 2
   \<and> map (\<lambda>kv. flags (snd kv) AND SRI_MASTER_DOWN)
        (sentinels (fst (sentinelAskMasterStateToOtherSentinels env0 master_stale SENTINEL_NO_FLAGS state0)))
       = [0]"
proof -
  have pre: "flags (self master_stale) AND SRI_O_DOWN = 0"
    by (simp add: master_stale_def)
  have post: "flags (self (fst (sentinelCheckObjectivelyDown env0 master_stale state0))) AND SRI_O_DOWN \<noteq> 0"
    by (simp add: sentinelCheckObjectivelyDown_def Let_def down_votes_def master_stale_def peer_stale_def
          master0_def new_instance_def sentinel0_def bit.conj_disj_distrib2)
  have q: "quorum (self master_stale) = 2"
    by (simp add: master_stale_def master0_def new_instance_def)
  have ask: "map (\<lambda>kv. flags (snd kv) AND SRI_MASTER_DOWN)
        (sentinels (fst (sentinelAskMasterStateToOtherSentinels env0 master_stale SENTINEL_NO_FLAGS state0)))
       = [0]"
    by (simp add: sentinelAskMasterStateToOtherSentinels_def ask_one_def Let_def master_stale_def
          peer_stale_def master0_def new_instance_def sentinel0_def env0_def word_bw_assocs)
  show ?thesis
    using pre post q ask
      odown_needs_sdown_and_quorum [of master_stale env0 state0 SENTINEL_NO_FLAGS]
    by simp
qed

text \<open>
  The claim as stated fails: the master below acquires \<^verbatim>\<open>SRI_O_DOWN\<close> with quorum 2 on the
  strength of a sentinel whose last reply is 70 s old.
\<close>

theorem odown_stale_reply_counterexample:
  "sentinels master_stale = [(''10.0.0.2:26379'', peer_stale)]
   \<and> flags peer_stale AND SRI_MASTER_DOWN \<noteq> 0
   \<and> now env0 - last_master_down_reply_time peer_stale = 70000
   \<and> \<not> (now env0 - last_master_down_reply_time peer_stale \<le> SENTINEL_INFO_VALIDITY_TIME)
   \<and> quorum (self master_stale) = 2
   \<and> flags (self master_stale) AND SRI_O_DOWN = 0
   \<and> flags (self (fst (sentinelCheckObjectivelyDown env0 master_stale state0))) AND SRI_O_DOWN \<noteq> 0"
  by (simp add: sentinelCheckObjectivelyDown_def Let_def down_votes_def master_stale_def peer_stale_def
        master0_def new_instance_def sentinel0_def env0_def bit.conj_disj_distrib2)

subsection \<open>Reconfiguration of the slaves\<close>

lemma sendSlaveOf_flags [simp]: "flags (snd (sentinelSendSlaveOf e ri h p)) = flags ri"
  by (simp add: sentinelSendSlaveOf_def Let_def)

lemma mask_3080: "((f::32 word) AND 3080 = 0) = (f AND 8 = 0 \<and> f AND 1024 = 0 \<and> f AND 2048 = 0)"
proof -
  have "f AND (8 OR 1024 OR 2048) = (f AND 8) OR (f AND 1024) OR (f AND 2048)"
    by (simp only: bit.conj_disj_distrib)
  then show ?thesis by (simp add: or_eq_0_iff)
qed

lemma mask_3072: "((f::32 word) AND 3072 = 0) = (f AND 1024 = 0 \<and> f AND 2048 = 0)"
proof -
  have "f AND (1024 OR 2048) = (f AND 1024) OR (f AND 2048)"
    by (simp only: bit.conj_disj_distrib)
  then show ?thesis by (simp add: or_eq_0_iff)
qed

lemma mask_5128: "((f::32 word) AND 5128 = 0) = (f AND 8 = 0 \<and> f AND 1024 = 0 \<and> f AND 4096 = 0)"
proof -
  have "f AND (8 OR 1024 OR 4096) = (f AND 8) OR (f AND 1024) OR (f AND 4096)"
    by (simp only: bit.conj_disj_distrib)
  then show ?thesis by (simp add: or_eq_0_iff)
qed

lemma reconf_in_progress_Cons:
  "reconf_in_progress (kv # d) =
     (if flags (snd kv) AND 1024 = 0 \<and> flags (snd kv) AND 2048 = 0 then 0 else 1) + reconf_in_progress d"
  by (simp add: reconf_in_progress_def mask_3072)

lemma reconf_in_progress_Nil [simp]: "reconf_in_progress [] = 0"
  by (simp add: reconf_in_progress_def)

lemma and_not_1024 [simp]:
  "((f::32 word) AND - 1025) AND 1024 = 0"
  "((f::32 word) AND - 1025) AND 2048 = f AND 2048"
  "((f::32 word) AND - 1025) AND 8 = f AND 8"
  by (simp_all add: word_bw_assocs)

lemma or_1024_1024 [simp]: "((f::32 word) OR 1024) AND 1024 \<noteq> 0"
  by (simp add: bit.conj_disj_distrib2)

lemma reconf_next_bound:
  "int (reconf_in_progress (fst (reconf_next e m pa inp d st)))
     \<le> int (reconf_in_progress d) + (if inp < parallel_syncs (self m) then parallel_syncs (self m) - inp else 0)"
proof (induction d arbitrary: inp st)
  case Nil
  then show ?case by simp
next
  case (Cons a d)
  obtain k s where a: "a = (k, s)" by (cases a)
  note IH = Cons.IH
  show ?case
  proof (cases "inp < parallel_syncs (self m)")
    case False
    then show ?thesis by (simp add: a)
  next
    case lt: True
    show ?thesis
    proof (cases "flags s AND (SRI_PROMOTED OR SRI_RECONF_DONE) \<noteq> 0")
      case True
      then have step: "reconf_next e m pa inp (a # d) st =
                ((k, s) # fst (reconf_next e m pa inp d st), snd (reconf_next e m pa inp d st))"
        using lt by (simp add: a Let_def)
      show ?thesis unfolding step using lt IH [of inp st]
        by (auto simp: a reconf_in_progress_Cons)
    next
      case np: False
      define expired where "expired \<longleftrightarrow> flags s AND SRI_RECONF_SENT \<noteq> 0
                        \<and> now e - slave_reconf_sent_time s > SENTINEL_SLAVE_RECONF_RETRY_PERIOD"
      define s1 where "s1 = (if expired then s\<lparr>flags := flags s AND NOT SRI_RECONF_SENT\<rparr> else s)"
      define st1 where "st1 = (if expired then
                      sentinelEvent REDIS_NOTICE ''-slave-reconf-sent-timeout'' (of_instance s m) True [] st
                    else st)"
      have c1: "flags s AND 1024 = 0 \<and> flags s AND 2048 = 0 \<longrightarrow>
                  flags s1 AND 1024 = 0 \<and> flags s1 AND 2048 = 0"
        by (auto simp: s1_def)
      show ?thesis
      proof (cases "flags s1 AND (SRI_DISCONNECTED OR SRI_RECONF_SENT OR SRI_RECONF_INPROG) \<noteq> 0")
        case True
        have step: "reconf_next e m pa inp (a # d) st =
                ((k, s1) # fst (reconf_next e m pa inp d st1), snd (reconf_next e m pa inp d st1))"
          using lt np True by (simp add: a Let_def s1_def st1_def expired_def)
        show ?thesis unfolding step using IH [of inp st1] lt c1
          by (auto simp: a reconf_in_progress_Cons)
      next
        case ok: False
        then have nf: "flags s1 AND 1024 = 0" "flags s1 AND 2048 = 0"
          by (simp_all add: mask_3080)
        show ?thesis
        proof (cases pa)
          case None
          have step: "reconf_next e m pa inp (a # d) st = ((k, s1) # d, st1\<lparr>crashed := True\<rparr>)"
            using lt np ok None by (simp add: a Let_def s1_def st1_def expired_def)
          show ?thesis unfolding step using lt nf
            by (simp add: a reconf_in_progress_Cons)
        next
          case (Some pa')
          define snd_res where "snd_res = sentinelSendSlaveOf e s1 (Some (ip pa')) (port pa')"
          show ?thesis
          proof (cases "fst snd_res")
            case True
            define s2 where "s2 = (snd snd_res)\<lparr>flags := flags (snd snd_res) OR SRI_RECONF_SENT,
                                            slave_reconf_sent_time := now e\<rparr>"
            define st2 where "st2 = sentinelEvent REDIS_NOTICE ''+slave-reconf-sent'' (of_instance s2 m) True [] st1"
            have step: "reconf_next e m pa inp (a # d) st =
                    ((k, s2) # fst (reconf_next e m pa (inp + 1) d st2),
                     snd (reconf_next e m pa (inp + 1) d st2))"
              using lt np ok Some True
              by (simp add: a Let_def s1_def st1_def expired_def snd_res_def s2_def st2_def)
            have s2f: "flags s2 AND 1024 \<noteq> 0" by (simp add: s2_def)
            have "int (reconf_in_progress (fst (reconf_next e m pa (inp + 1) d st2)))
                    \<le> int (reconf_in_progress d) + (parallel_syncs (self m) - inp) - 1"
              using IH [of "inp + 1" st2] lt by (simp split: if_splits)
            then show ?thesis unfolding step using lt s2f
              by (simp add: a reconf_in_progress_Cons)
          next
            case False
            have step: "reconf_next e m pa inp (a # d) st =
                    ((k, snd snd_res) # fst (reconf_next e m pa inp d st1),
                     snd (reconf_next e m pa inp d st1))"
              using lt np ok Some False
              by (simp add: a Let_def s1_def st1_def expired_def snd_res_def)
            show ?thesis unfolding step using IH [of inp st1] lt nf
              by (auto simp: a reconf_in_progress_Cons snd_res_def)
          qed
        qed
      qed
    qed
  qed
qed


lemma detect_end_resend_fst_length:
  "length (fst (detect_end_resend e m pa d st)) = length d"
  by (induction d arbitrary: st) (auto simp: Let_def split: prod.splits)

lemma detect_end_state:
  "failover_state (self (fst (sentinelFailoverDetectEnd e m st))) = failover_state (self m)
   \<and> slaves (fst (sentinelFailoverDetectEnd e m st)) = slaves m
   \<or> failover_state (self (fst (sentinelFailoverDetectEnd e m st))) = SENTINEL_FAILOVER_STATE_UPDATE_CONFIG"
  by (auto simp: sentinelFailoverDetectEnd_def Let_def split: option.splits)

lemma detect_end_parallel_syncs [simp]:
  "parallel_syncs (self (fst (sentinelFailoverDetectEnd e m st))) = parallel_syncs (self m)"
  by (auto simp: sentinelFailoverDetectEnd_def Let_def split: option.splits)

lemma reconf_next_slave_step:
  assumes "int (reconf_in_progress (slaves m)) \<le> parallel_syncs (self m)"
  shows "(failover_state (self (fst (sentinelFailoverReconfNextSlave e m st))) = failover_state (self m)
          \<and> int (reconf_in_progress (slaves (fst (sentinelFailoverReconfNextSlave e m st))))
               \<le> parallel_syncs (self m))
       \<or> failover_state (self (fst (sentinelFailoverReconfNextSlave e m st)))
            = SENTINEL_FAILOVER_STATE_UPDATE_CONFIG"
proof -
  define d where "d = fst (reconf_next e m (map_option addr (promoted m))
                          (int (reconf_in_progress (slaves m))) (slaves m) st)"
  define st1 where "st1 = snd (reconf_next e m (map_option addr (promoted m))
                          (int (reconf_in_progress (slaves m))) (slaves m) st)"
  have r: "sentinelFailoverReconfNextSlave e m st = sentinelFailoverDetectEnd e (m\<lparr>slaves := d\<rparr>) st1"
    by (simp add: sentinelFailoverReconfNextSlave_def Let_def d_def st1_def)
  have b: "int (reconf_in_progress d) \<le> parallel_syncs (self m)"
    using reconf_next_bound [of e m "map_option addr (promoted m)"
            "int (reconf_in_progress (slaves m))" "slaves m" st] assms
    by (simp add: d_def split: if_splits)
  show ?thesis
    unfolding r using detect_end_state [of e "m\<lparr>slaves := d\<rparr>" st1] b by auto
qed

lemma reconf_in_progress_dictSetVal:
  assumes "map_of d k = Some v0"
    and "flags v AND 3072 \<noteq> 0 \<longrightarrow> flags v0 AND 3072 \<noteq> 0"
  shows "reconf_in_progress (dictSetVal d k v) \<le> reconf_in_progress d"
  using assms by (induction d) (auto simp: reconf_in_progress_def)

lemma reconf_in_progress_dictAdd:
  "flags v AND 3072 = 0 \<Longrightarrow> reconf_in_progress (dictAdd d k v) = reconf_in_progress d"
  by (simp add: reconf_in_progress_def dictAdd_def)

lemma info_run_id_flags [simp]: "flags (fst (info_run_id m r l x)) = flags (fst x)"
  by (simp add: info_run_id_def Let_def split: option.splits)

lemma info_slave_fields_flags [simp]: "flags (info_slave_fields e l ri) = flags ri"
  by (simp add: info_slave_fields_def Let_def)

lemma info_line_flags [simp]: "flags (fst (info_line e r l x)) = flags (fst x)"
  by (simp add: info_line_def Let_def)

lemma info_slave_line_slaves:
  "reconf_in_progress (slaves (fst (info_slave_line e r l ri x))) = reconf_in_progress (slaves (fst x))"
  by (auto simp: info_slave_line_def Let_def createSentinelRedisInstance_def new_instance_def
        reconf_in_progress_dictAdd split: option.splits sum.splits prod.splits)

lemma info_slave_line_other:
  "r \<noteq> RMaster \<Longrightarrow> fst (info_slave_line e r l ri x) = fst x"
  by (simp add: info_slave_line_def Let_def)

lemma info_line_slaves [simp]:
  "reconf_in_progress (slaves (fst (snd (info_line e r l x)))) = reconf_in_progress (slaves (fst (snd x)))"
  by (simp add: info_line_def Let_def info_slave_line_slaves)

lemma info_line_other [simp]:
  "r \<noteq> RMaster \<Longrightarrow> fst (snd (info_line e r l x)) = fst (snd x)"
  by (simp add: info_line_def Let_def info_slave_line_other)

lemma fold_info_line_flags [simp]:
  "flags (fst (fold (info_line e r) ls x)) = flags (fst x)"
  by (induction ls arbitrary: x) simp_all

lemma fold_info_line_slaves [simp]:
  "reconf_in_progress (slaves (fst (snd (fold (info_line e r) ls x)))) = reconf_in_progress (slaves (fst (snd x)))"
  by (induction ls arbitrary: x) simp_all

lemma fold_info_line_other [simp]:
  "r \<noteq> RMaster \<Longrightarrow> fst (snd (fold (info_line e r) ls x)) = fst (snd x)"
  by (induction ls arbitrary: x) simp_all

lemma info_master_to_slave_flags [simp]: "flags (info_master_to_slave e role ri) = flags ri"
  by (simp add: info_master_to_slave_def)

lemma info_slave_to_master_flags [simp]: "flags (fst (info_slave_to_master e role x)) = flags (fst x)"
  by (simp add: info_slave_to_master_def Let_def)

lemma info_slave_to_master_slaves [simp]:
  "slaves (fst (snd (info_slave_to_master e role x))) = slaves (fst (snd x))"
  by (simp add: info_slave_to_master_def Let_def)

lemma info_slave_to_master_sentinels [simp]:
  "sentinels (fst (snd (info_slave_to_master e role x))) = sentinels (fst (snd x))"
  by (simp add: info_slave_to_master_def Let_def)

lemma info_fix_slave_config_flags [simp]: "flags (fst (info_fix_slave_config e role x)) = flags (fst x)"
  by (simp add: info_fix_slave_config_def Let_def)

lemma info_fix_slave_config_master [simp]:
  "fst (snd (info_fix_slave_config e role x)) = fst (snd x)"
  by (simp add: info_fix_slave_config_def Let_def)

lemma info_reconf_progress_master [simp]:
  "fst (snd (info_reconf_progress role x)) = fst (snd x)"
  by (simp add: info_reconf_progress_def Let_def)

lemma info_reconf_progress_flags:
  "flags (fst (info_reconf_progress role x)) AND 3072 \<noteq> 0 \<Longrightarrow> flags (fst x) AND 3072 \<noteq> 0"
  by (auto simp: info_reconf_progress_def Let_def mask_3072 word_bw_assocs split: if_splits)


lemma slaves_put_ri [simp]:
  "slaves (put_ri m RMaster ri) = slaves m"
  "slaves (put_ri m (RSentinel k) ri) = slaves m"
  "slaves (put_ri m (RSlave k) ri) = dictSetVal (slaves m) k ri"
  by (simp_all add: put_ri_def)

lemma info_keeps_reconf_in_progress:
  "reconf_in_progress (slaves (fst (sentinelRefreshInstanceInfo e r info m st)))
     \<le> reconf_in_progress (slaves m)"
proof (cases "get_ri m r")
  case None
  then show ?thesis by (simp add: sentinelRefreshInstanceInfo_def)
next
  case (Some ri0)
  show ?thesis
  proof (cases r)
    case RMaster
    then show ?thesis using Some
      by (simp add: sentinelRefreshInstanceInfo_def Let_def)
  next
    case (RSentinel k)
    then show ?thesis using Some
      by (simp add: sentinelRefreshInstanceInfo_def Let_def)
  next
    case (RSlave k)
    define parsed where "parsed = fold (info_line e r) (sdssplitlen info [CHR 0x0D, CHR 0x0A])
                                    (ri0\<lparr>master_link_down_time := 0\<rparr>, m, 0, st)"
    define role where "role = fst (snd (snd parsed))"
    define ri1 where "ri1 = (fst parsed)\<lparr>info_refresh := now e\<rparr>"
    define ri2 where "ri2 = info_master_to_slave e role ri1"
    define b where "b = info_fix_slave_config e role
                          (info_slave_to_master e role
                             (ri2, put_ri (put_ri m r ri1) r ri2, snd (snd (snd parsed))))"
    define rif where "rif = (if tilt (snd (snd b)) then fst b else fst (info_reconf_progress role b))"
    have res: "slaves (fst (sentinelRefreshInstanceInfo e r info m st))
                 = dictSetVal (dictSetVal (dictSetVal (slaves m) k ri1) k ri2) k rif"
      using Some
      by (simp add: sentinelRefreshInstanceInfo_def Let_def RSlave rif_def b_def ri2_def ri1_def
            role_def parsed_def)
    have l0: "map_of (slaves m) k = Some ri0"
      using Some by (simp add: get_ri_def RSlave dictFetchValue_def)
    have f1: "flags ri1 = flags ri0" by (simp add: ri1_def parsed_def)
    have f2: "flags ri2 = flags ri0" by (simp add: ri2_def f1)
    have fb: "flags (fst b) = flags ri0" by (simp add: b_def f2)
    have ff: "flags rif AND 3072 \<noteq> 0 \<longrightarrow> flags ri0 AND 3072 \<noteq> 0"
      using info_reconf_progress_flags [of role b] fb by (auto simp: rif_def)
    have l1: "map_of (dictSetVal (slaves m) k ri1) k = Some ri1"
      using l0 by (simp add: map_of_dictSetVal)
    have l2: "map_of (dictSetVal (dictSetVal (slaves m) k ri1) k ri2) k = Some ri2"
      using l1 by (simp add: map_of_dictSetVal)
    have "reconf_in_progress (dictSetVal (dictSetVal (dictSetVal (slaves m) k ri1) k ri2) k rif)
            \<le> reconf_in_progress (dictSetVal (dictSetVal (slaves m) k ri1) k ri2)"
      using reconf_in_progress_dictSetVal [OF l2] ff f2 by simp
    also have "\<dots> \<le> reconf_in_progress (dictSetVal (slaves m) k ri1)"
      using reconf_in_progress_dictSetVal [OF l1] f1 f2 by simp
    also have "\<dots> \<le> reconf_in_progress (slaves m)"
      using reconf_in_progress_dictSetVal [OF l0] f1 by simp
    finally show ?thesis unfolding res .
  qed
qed

lemma sendSlaveOf_parallel_syncs [simp]:
  "parallel_syncs (snd (sentinelSendSlaveOf e ri h p)) = parallel_syncs ri"
  by (simp add: sentinelSendSlaveOf_def Let_def)

lemma info_run_id_parallel_syncs [simp]:
  "parallel_syncs (fst (info_run_id m r l x)) = parallel_syncs (fst x)"
  by (simp add: info_run_id_def Let_def split: option.splits)

lemma info_slave_fields_parallel_syncs [simp]:
  "parallel_syncs (info_slave_fields e l ri) = parallel_syncs ri"
  by (simp add: info_slave_fields_def Let_def)

lemma info_line_parallel_syncs [simp]:
  "parallel_syncs (fst (info_line e r l x)) = parallel_syncs (fst x)"
  by (simp add: info_line_def Let_def)

lemma fold_info_line_parallel_syncs [simp]:
  "parallel_syncs (fst (fold (info_line e r) ls x)) = parallel_syncs (fst x)"
  by (induction ls arbitrary: x) simp_all

lemma info_master_to_slave_parallel_syncs [simp]:
  "parallel_syncs (info_master_to_slave e role ri) = parallel_syncs ri"
  by (simp add: info_master_to_slave_def)

lemma info_slave_to_master_parallel_syncs [simp]:
  "parallel_syncs (fst (info_slave_to_master e role x)) = parallel_syncs (fst x)"
  "parallel_syncs (self (fst (snd (info_slave_to_master e role x)))) = parallel_syncs (self (fst (snd x)))"
  by (simp_all add: info_slave_to_master_def Let_def)

lemma info_fix_slave_config_parallel_syncs [simp]:
  "parallel_syncs (fst (info_fix_slave_config e role x)) = parallel_syncs (fst x)"
  by (simp add: info_fix_slave_config_def Let_def)

lemma info_reconf_progress_parallel_syncs [simp]:
  "parallel_syncs (fst (info_reconf_progress role x)) = parallel_syncs (fst x)"
  by (simp add: info_reconf_progress_def Let_def)

lemma self_put_ri_RMaster [simp]: "self (put_ri m RMaster ri) = ri"
  by (simp add: put_ri_def)

lemma info_keeps_parallel_syncs:
  "parallel_syncs (self (fst (sentinelRefreshInstanceInfo e r info m st))) = parallel_syncs (self m)"
proof (cases "get_ri m r")
  case None
  then show ?thesis by (simp add: sentinelRefreshInstanceInfo_def)
next
  case (Some ri0)
  show ?thesis
  proof (cases r)
    case RMaster
    then show ?thesis using Some
      by (simp add: sentinelRefreshInstanceInfo_def Let_def get_ri_def)
  next
    case (RSentinel k)
    then show ?thesis using Some
      by (simp add: sentinelRefreshInstanceInfo_def Let_def)
  next
    case (RSlave k)
    then show ?thesis using Some
      by (simp add: sentinelRefreshInstanceInfo_def Let_def)
  qed
qed

lemma reconf_next_slave_parallel_syncs [simp]:
  "parallel_syncs (self (fst (sentinelFailoverReconfNextSlave e m st))) = parallel_syncs (self m)"
  by (simp add: sentinelFailoverReconfNextSlave_def Let_def)

text \<open>
  \<^bold>\<open>C8.\<close> Take a master in the state \<^verbatim>\<open>RECONF_SLAVES\<close> of a failover, with at most
  \<^verbatim>\<open>parallel_syncs\<close> slaves that carry \<^verbatim>\<open>SRI_RECONF_SENT\<close> or \<^verbatim>\<open>SRI_RECONF_INPROG\<close>. After a
  turn of the failover state machine the master is either still in the state
  \<^verbatim>\<open>RECONF_SLAVES\<close>, with at most \<^verbatim>\<open>parallel_syncs\<close> such slaves again, or it has left that
  state for \<^verbatim>\<open>UPDATE_CONFIG\<close>: this is what \<^verbatim>\<open>sentinelFailoverDetectEnd\<close> does at the end of
  the failover and on its timeout, before it sends \<^verbatim>\<open>SLAVEOF\<close> again to the slaves that lag
  behind. An INFO reply of any instance of the master keeps the bound as well. So the bound
  holds for as long as the failover is in \<^verbatim>\<open>RECONF_SLAVES\<close>.
\<close>

theorem reconf_slaves_parallel_syncs_bound:
  assumes "flags (self m) AND SRI_MASTER \<noteq> 0"
    and "flags (self m) AND SRI_FAILOVER_IN_PROGRESS \<noteq> 0"
    and "failover_state (self m) = SENTINEL_FAILOVER_STATE_RECONF_SLAVES"
    and "int (reconf_in_progress (slaves m)) \<le> parallel_syncs (self m)"
  shows "(failover_state (self (fst (sentinelFailoverStateMachine e m st)))
            = SENTINEL_FAILOVER_STATE_RECONF_SLAVES
          \<and> int (reconf_in_progress (slaves (fst (sentinelFailoverStateMachine e m st))))
               \<le> parallel_syncs (self (fst (sentinelFailoverStateMachine e m st)))
          \<or> failover_state (self (fst (sentinelFailoverStateMachine e m st)))
               = SENTINEL_FAILOVER_STATE_UPDATE_CONFIG)
       \<and> int (reconf_in_progress (slaves (fst (sentinelRefreshInstanceInfo e r info m st))))
            \<le> parallel_syncs (self (fst (sentinelRefreshInstanceInfo e r info m st)))"
proof -
  have sm: "sentinelFailoverStateMachine e m st = sentinelFailoverReconfNextSlave e m st"
    using assms(1-3) by (simp add: sentinelFailoverStateMachine_def)
  have a: "failover_state (self (fst (sentinelFailoverReconfNextSlave e m st)))
             = SENTINEL_FAILOVER_STATE_RECONF_SLAVES
           \<and> int (reconf_in_progress (slaves (fst (sentinelFailoverReconfNextSlave e m st))))
                \<le> parallel_syncs (self m)
           \<or> failover_state (self (fst (sentinelFailoverReconfNextSlave e m st)))
                = SENTINEL_FAILOVER_STATE_UPDATE_CONFIG"
    using reconf_next_slave_step [OF assms(4), of e st] assms(3) by auto
  have b: "int (reconf_in_progress (slaves (fst (sentinelRefreshInstanceInfo e r info m st))))
             \<le> parallel_syncs (self m)"
    using info_keeps_reconf_in_progress [of e r info m st] assms(4) by linarith
  show ?thesis
    unfolding sm info_keeps_parallel_syncs reconf_next_slave_parallel_syncs using a b by blast
qed

lemma detect_end_resend_flags:
  "map (\<lambda>kv. flags (snd kv)) (fst (detect_end_resend e m pa d st)) =
     map (\<lambda>kv. if flags (snd kv) AND (SRI_RECONF_DONE OR SRI_RECONF_SENT OR SRI_DISCONNECTED) = 0
                   \<and> fst (sentinelSendSlaveOf e (snd kv) (Some (ip pa)) (port pa))
                then flags (snd kv) OR SRI_RECONF_SENT else flags (snd kv)) d"
  by (induction d arbitrary: st) (auto simp: Let_def)

lemma detect_end_timeout_flags:
  assumes "promoted m = Some ps" and "flags ps AND SRI_S_DOWN = 0"
    and "now e - failover_state_change_time (self m) > failover_timeout (self m)"
  shows "map (\<lambda>kv. flags (snd kv)) (slaves (fst (sentinelFailoverDetectEnd e m st))) =
     map (\<lambda>kv. if flags (snd kv) AND (SRI_RECONF_DONE OR SRI_RECONF_SENT OR SRI_DISCONNECTED) = 0
                   \<and> fst (sentinelSendSlaveOf e (snd kv) (Some (ip (addr ps))) (port (addr ps)))
                then flags (snd kv) OR SRI_RECONF_SENT else flags (snd kv)) (slaves m)"
  using assms by (simp add: sentinelFailoverDetectEnd_def Let_def detect_end_resend_flags)

lemma detect_end_state_eq:
  "failover_state (self (fst (sentinelFailoverDetectEnd e m st))) =
     (case promoted m of
        None \<Rightarrow> failover_state (self m)
      | Some ps \<Rightarrow>
          if flags ps AND SRI_S_DOWN = 0
             \<and> (now e - failover_state_change_time (self m) > failover_timeout (self m)
                \<or> (\<forall>kv \<in> set (slaves m). \<not> (flags (snd kv) AND (SRI_PROMOTED OR SRI_RECONF_DONE) = 0
                                              \<and> flags (snd kv) AND SRI_S_DOWN = 0)))
          then SENTINEL_FAILOVER_STATE_UPDATE_CONFIG else failover_state (self m))"
  by (auto simp: sentinelFailoverDetectEnd_def Let_def filter_empty_conv split: option.splits)

lemma reconf_in_progress_flags:
  "reconf_in_progress d = length (filter (\<lambda>f. f AND 3072 \<noteq> 0) (map (\<lambda>kv. flags (snd kv)) d))"
  by (simp add: reconf_in_progress_def filter_map comp_def)

theorem reconf_slaves_parallel_syncs_bound_witness:
  "failover_state (self master_reconf_early) = SENTINEL_FAILOVER_STATE_RECONF_SLAVES
   \<and> parallel_syncs (self master_reconf_early) = 1
   \<and> reconf_in_progress (slaves master_reconf_early) = 0
   \<and> failover_state (self (fst (sentinelFailoverStateMachine env0 master_reconf_early state0)))
        = SENTINEL_FAILOVER_STATE_RECONF_SLAVES
   \<and> reconf_in_progress (slaves (fst (sentinelFailoverStateMachine env0 master_reconf_early state0))) \<le> 1"
proof -
  define d where "d = fst (reconf_next env0 master_reconf_early (map_option addr (promoted master_reconf_early))
                             (int (reconf_in_progress (slaves master_reconf_early)))
                             (slaves master_reconf_early) state0)"
  define st1 where "st1 = snd (reconf_next env0 master_reconf_early
                             (map_option addr (promoted master_reconf_early))
                             (int (reconf_in_progress (slaves master_reconf_early)))
                             (slaves master_reconf_early) state0)"
  have f: "flags (self master_reconf_early) AND SRI_MASTER \<noteq> 0"
      "flags (self master_reconf_early) AND SRI_FAILOVER_IN_PROGRESS \<noteq> 0"
    by (simp_all add: master_reconf_early_def master_reconf_def)
  have s: "failover_state (self master_reconf_early) = SENTINEL_FAILOVER_STATE_RECONF_SLAVES"
    by (simp add: master_reconf_early_def master_reconf_def)
  have p: "parallel_syncs (self master_reconf_early) = 1"
    by (simp add: master_reconf_early_def master_reconf_def master0_def new_instance_def)
  have c: "reconf_in_progress (slaves master_reconf_early) = 0"
    by (simp add: master_reconf_early_def master_reconf_def reconf_in_progress_def slave0_def
          new_instance_def)
  have sm: "sentinelFailoverStateMachine env0 master_reconf_early state0
              = sentinelFailoverDetectEnd env0 (master_reconf_early\<lparr>slaves := d\<rparr>) st1"
    using f s by (simp add: sentinelFailoverStateMachine_def sentinelFailoverReconfNextSlave_def
                    Let_def d_def st1_def)
  have fl: "map (\<lambda>kv. flags (snd kv)) d = [514, 1026, 2]"
    unfolding d_def c
    by (simp add: Let_def sentinelSendSlaveOf_def promoted_def dictFetchValue_def
          master_reconf_early_def master_reconf_def master0_def slave0_def new_instance_def env0_def)
  have "(2::32 word) \<in> set (map (\<lambda>kv. flags (snd kv)) d)"
    unfolding fl by simp
  then obtain kv where "kv \<in> set d" and "flags (snd kv) = 2"
    by auto
  then have "\<exists>kv \<in> set d. flags (snd kv) AND 4608 = 0 \<and> flags (snd kv) AND 16 = 0"
    by (intro bexI [of _ kv]) simp_all
  then have nd: "\<not> (\<forall>kv \<in> set d. \<not> (flags (snd kv) AND (SRI_PROMOTED OR SRI_RECONF_DONE) = 0
                                      \<and> flags (snd kv) AND SRI_S_DOWN = 0))"
    by simp
  have el: "\<not> now env0 - failover_state_change_time (self master_reconf_early)
              > failover_timeout (self master_reconf_early)"
    by (simp add: master_reconf_early_def master_reconf_def master0_def new_instance_def env0_def)
  have post: "failover_state (self (fst (sentinelFailoverStateMachine env0 master_reconf_early state0)))
        = SENTINEL_FAILOVER_STATE_RECONF_SLAVES"
    unfolding sm detect_end_state_eq using nd el s by (auto split: option.splits)
  have pp: "parallel_syncs (self (fst (sentinelFailoverStateMachine env0 master_reconf_early state0))) = 1"
    unfolding sm using p by simp
  show ?thesis
    using f s p c post pp
      reconf_slaves_parallel_syncs_bound [of master_reconf_early env0 state0 RMaster "[]"]
    by simp
qed

text \<open>
  A turn on the timeout path: the master below enters the handler of \<^verbatim>\<open>RECONF_SLAVES\<close>
  with \<^verbatim>\<open>parallel_syncs\<close> 1 and no slave in reconfiguration, and leaves it in the state
  \<^verbatim>\<open>UPDATE_CONFIG\<close> with three slaves that carry \<^verbatim>\<open>SRI_RECONF_SENT\<close>.
\<close>

lemma reconf_timeout_turn_example:
  "failover_state (self master_reconf) = SENTINEL_FAILOVER_STATE_RECONF_SLAVES
   \<and> flags (self master_reconf) AND SRI_MASTER \<noteq> 0
   \<and> flags (self master_reconf) AND SRI_FAILOVER_IN_PROGRESS \<noteq> 0
   \<and> parallel_syncs (self master_reconf) = 1
   \<and> reconf_in_progress (slaves master_reconf) = 0
   \<and> now env0 - failover_state_change_time (self master_reconf) > failover_timeout (self master_reconf)
   \<and> failover_state (self (fst (sentinelFailoverStateMachine env0 master_reconf state0)))
        = SENTINEL_FAILOVER_STATE_UPDATE_CONFIG
   \<and> reconf_in_progress (slaves (fst (sentinelFailoverStateMachine env0 master_reconf state0))) = 3
   \<and> parallel_syncs (self (fst (sentinelFailoverStateMachine env0 master_reconf state0))) = 1"
proof -
  define d where "d = fst (reconf_next env0 master_reconf (map_option addr (promoted master_reconf))
                             (int (reconf_in_progress (slaves master_reconf)))
                             (slaves master_reconf) state0)"
  define st1 where "st1 = snd (reconf_next env0 master_reconf (map_option addr (promoted master_reconf))
                             (int (reconf_in_progress (slaves master_reconf)))
                             (slaves master_reconf) state0)"
  have f: "flags (self master_reconf) AND SRI_MASTER \<noteq> 0"
      "flags (self master_reconf) AND SRI_FAILOVER_IN_PROGRESS \<noteq> 0"
    by (simp_all add: master_reconf_def)
  have s: "failover_state (self master_reconf) = SENTINEL_FAILOVER_STATE_RECONF_SLAVES"
    by (simp add: master_reconf_def)
  have p: "parallel_syncs (self master_reconf) = 1"
    by (simp add: master_reconf_def master0_def new_instance_def)
  have c: "reconf_in_progress (slaves master_reconf) = 0"
    by (simp add: master_reconf_def reconf_in_progress_def slave0_def new_instance_def)
  have el: "now env0 - failover_state_change_time (self master_reconf) > failover_timeout (self master_reconf)"
    by (simp add: master_reconf_def master0_def new_instance_def env0_def)
  have sm: "sentinelFailoverStateMachine env0 master_reconf state0
              = sentinelFailoverDetectEnd env0 (master_reconf\<lparr>slaves := d\<rparr>) st1"
    using f s by (simp add: sentinelFailoverStateMachine_def sentinelFailoverReconfNextSlave_def
                    Let_def d_def st1_def)
  have fl: "map (\<lambda>kv. flags (snd kv)) d = [514, 1026, 2]"
    unfolding d_def c
    by (simp add: Let_def sentinelSendSlaveOf_def promoted_def dictFetchValue_def
          master_reconf_def master0_def slave0_def new_instance_def env0_def)
  have pr: "map_option flags (promoted (master_reconf\<lparr>slaves := d\<rparr>)) = Some 514"
    unfolding d_def c
    by (simp add: Let_def sentinelSendSlaveOf_def promoted_def dictFetchValue_def
          master_reconf_def master0_def slave0_def new_instance_def env0_def)
  then obtain ps where ps: "promoted (master_reconf\<lparr>slaves := d\<rparr>) = Some ps" and fps: "flags ps = 514"
    by auto
  have ok: "\<And>x h q. fst (sentinelSendSlaveOf env0 x h q)"
    by (simp add: sentinelSendSlaveOf_def env0_def)
  have "map (\<lambda>kv. flags (snd kv))
          (slaves (fst (sentinelFailoverDetectEnd env0 (master_reconf\<lparr>slaves := d\<rparr>) st1)))
        = map (\<lambda>f. if f AND 5128 = 0 then f OR 1024 else f) (map (\<lambda>kv. flags (snd kv)) d)"
    using detect_end_timeout_flags [OF ps, of env0 st1] el fps
    by (simp add: ok comp_def)
  then have cnt: "reconf_in_progress (slaves (fst (sentinelFailoverStateMachine env0 master_reconf state0))) = 3"
    unfolding sm reconf_in_progress_flags fl by simp
  have post: "failover_state (self (fst (sentinelFailoverStateMachine env0 master_reconf state0)))
                = SENTINEL_FAILOVER_STATE_UPDATE_CONFIG"
    unfolding sm detect_end_state_eq using ps fps el by simp
  show ?thesis
    using f s p c el cnt post by (simp add: sm)
qed

subsection \<open>Hello messages\<close>

lemma map_dictSetVal_same:
  "map_of d k = Some m \<Longrightarrow> f (k, v) = f (k, m) \<Longrightarrow> map f (dictSetVal d k v) = map f d"
  by (induction d) (auto split: if_splits)

lemma hello_sentinel_state_events [simp]:
  "events (hello_sentinel_state e mk k c st) = events st"
  by (simp add: hello_sentinel_state_def Let_def split: option.splits)

lemma hello_sentinel_state_view [simp]:
  "master_view (hello_sentinel_state e mk k c st) = master_view st"
  by (auto simp: hello_sentinel_state_def Let_def master_view_def dictFetchValue_def put_ri_def
        intro!: map_dictSetVal_same split: option.splits)

lemma hello_tokens:
  "sdssplitlen hello_same_address '','' = [''10.0.0.2'', ''26379'', ''3ab8d1f86e5c4f0e9a7b2d6c1e8f4a5b7c9d0e1f'', ''1'', ''0'', ''mymaster'', ''10.0.0.1'', ''6379'', ''7'']"
  "sdssplitlen hello_other_ip '','' = [''10.0.0.2'', ''26379'', ''3ab8d1f86e5c4f0e9a7b2d6c1e8f4a5b7c9d0e1f'', ''1'', ''0'', ''mymaster'', ''10.0.0.5'', ''6379'', ''7'']"
  by (simp_all add: sdssplitlen_def hello_same_address_def hello_other_ip_def)

lemma hello_not_own:
  "\<not> strstr_found hello_same_address (server_runid env0)"
  "\<not> strstr_found hello_other_ip (server_runid env0)"
  by (simp_all add: hello_same_address_def hello_other_ip_def env0_def)

lemma hello_numbers:
  "atoi env0 ''26379'' = 26379" "atoi env0 ''6379'' = 6379" "atoi env0 ''1'' = 1"
  "strtoull env0 ''0'' = 0" "strtoull env0 ''7'' = 7"
  by (simp_all add: env0_def dec_value_def isdigit_def)

lemma receive_hello_payload:
  "sentinelReceiveHelloMessages env0 ''mymaster'' RMaster (hello_message payload) state_hello
     = hello_payload env0 ''mymaster'' RMaster (self master_hello_seen) master_hello_seen payload
         state_hello_seen"
  by (simp add: sentinelReceiveHelloMessages_def hello_message_def state_hello_def dictFetchValue_def
        get_ri_def put_ri_def Let_def master_hello_seen_def state_hello_seen_def)

lemma hello_sentinel_known:
  "hello_sentinel env0 ''10.0.0.2'' 26379 ''3ab8d1f86e5c4f0e9a7b2d6c1e8f4a5b7c9d0e1f''
       master_hello_seen state_hello_seen
     = (Some ''10.0.0.2:26379'', master_hello_seen, state_hello_seen)"
  by (simp add: hello_sentinel_def getSentinelRedisInstanceByAddrAndRunID_def master_hello_seen_def
        master_hello_def sentinel0_def new_instance_def)

lemma state_hello_seen_set:
  "state_hello_seen\<lparr>masters := dictSetVal (masters state_hello_seen) ''mymaster'' master_hello_seen\<rparr>
     = state_hello_seen"
  by (simp add: state_hello_seen_def)

lemma current_epoch_hello [simp]: "current_epoch state_hello_seen = 0"
  by (simp add: state_hello_seen_def state0_def)

lemma hello_payload_same:
  "hello_payload env0 ''mymaster'' RMaster (self master_hello_seen) master_hello_seen
       hello_same_address state_hello_seen
     = hello_sentinel_state env0 ''mymaster'' ''10.0.0.2:26379'' 1
         (hello_master_config env0 ''mymaster'' ''10.0.0.1'' 6379 7 state_hello_seen)"
  by (simp add: hello_payload_def hello_tokens hello_not_own hello_numbers hello_sentinel_known
        state_hello_seen_set Let_def)

lemma hello_payload_other:
  "hello_payload env0 ''mymaster'' RMaster (self master_hello_seen) master_hello_seen
       hello_other_ip state_hello_seen
     = hello_sentinel_state env0 ''mymaster'' ''10.0.0.2:26379'' 1
         (hello_master_config env0 ''mymaster'' ''10.0.0.5'' 6379 7 state_hello_seen)"
  by (simp add: hello_payload_def hello_tokens hello_not_own hello_numbers hello_sentinel_known
        state_hello_seen_set Let_def)

lemma hello_master_config_same:
  "map ev_type (events (hello_master_config env0 ''mymaster'' ''10.0.0.1'' 6379 7 state_hello_seen))
     = [''+switch-master'', ''+slave'']"
  "master_view (hello_master_config env0 ''mymaster'' ''10.0.0.1'' 6379 7 state_hello_seen)
     = [(''mymaster'', \<lparr>ip = ''10.0.0.1'', port = 6379\<rparr>, 7, False, [''10.0.0.11:6379''])]"
  by (simp_all add: hello_master_config_def sentinelGetMasterByName_def dictFetchValue_def Let_def
        master_view_def state_hello_seen_def master_hello_seen_def master_hello_def state0_def
        master0_def new_instance_def
        sentinelResetMasterAndChangeAddress_def sentinelResetMaster_def createSentinelAddr_def
        sentinelAddrIsEqual_def strcasecmp_def cstr_def tolower_c_def sentinelKillLink_def
        createSentinelRedisInstance_def instance_key_def strchr_found_def ll2string_def
        dec_digits.simps dictAdd_def slave0_def env0_def)

lemma hello_master_config_other:
  "events (hello_master_config env0 ''mymaster'' ''10.0.0.5'' 6379 7 state_hello_seen) = []"
  "master_view (hello_master_config env0 ''mymaster'' ''10.0.0.5'' 6379 7 state_hello_seen)
     = [(''mymaster'', \<lparr>ip = ''10.0.0.1'', port = 6379\<rparr>, 7, True, [''10.0.0.11:6379''])]"
  by (simp_all add: hello_master_config_def sentinelGetMasterByName_def dictFetchValue_def Let_def
        master_view_def state_hello_seen_def master_hello_seen_def master_hello_def state0_def
        master0_def new_instance_def)

text \<open>
  \<^bold>\<open>C1.\<close> The code at two Hello messages that advertise \<^verbatim>\<open>mymaster\<close> with configuration
  epoch 7, above the stored 3. For the payload with the recorded address 10.0.0.1:6379 the
  callback emits \<^verbatim>\<open>+switch-master\<close> and resets the master (the links are closed and the
  slave is created anew). For the payload with the address 10.0.0.5:6379 it emits nothing
  and the master keeps the address 10.0.0.1: the test
  \<^verbatim>\<open>master_port != msgmaster->addr->port || !strcmp(msgmaster->addr->ip, token[6])\<close> holds
  when the ports differ or the ips are equal.
\<close>

theorem hello_switch_master_on_equal_address:
  "master_view state_hello = [(''mymaster'', \<lparr>ip = ''10.0.0.1'', port = 6379\<rparr>, 3, True, [''10.0.0.11:6379''])]
   \<and> events state_hello = []
   \<and> map ev_type (events (sentinelReceiveHelloMessages env0 ''mymaster'' RMaster
                             (hello_message hello_same_address) state_hello))
       = [''+switch-master'', ''+slave'']
   \<and> master_view (sentinelReceiveHelloMessages env0 ''mymaster'' RMaster
                     (hello_message hello_same_address) state_hello)
       = [(''mymaster'', \<lparr>ip = ''10.0.0.1'', port = 6379\<rparr>, 7, False, [''10.0.0.11:6379''])]
   \<and> events (sentinelReceiveHelloMessages env0 ''mymaster'' RMaster
                (hello_message hello_other_ip) state_hello) = []
   \<and> master_view (sentinelReceiveHelloMessages env0 ''mymaster'' RMaster
                     (hello_message hello_other_ip) state_hello)
       = [(''mymaster'', \<lparr>ip = ''10.0.0.1'', port = 6379\<rparr>, 7, True, [''10.0.0.11:6379''])]"
proof -
  have v: "master_view state_hello
             = [(''mymaster'', \<lparr>ip = ''10.0.0.1'', port = 6379\<rparr>, 3, True, [''10.0.0.11:6379''])]"
    by (simp add: master_view_def state_hello_def master_hello_def master0_def new_instance_def)
  have ev: "events state_hello = []"
    by (simp add: state_hello_def state0_def)
  show ?thesis
    by (simp add: v ev receive_hello_payload hello_payload_same hello_payload_other
          hello_master_config_same hello_master_config_other)
qed

subsection \<open>Epochs\<close>

lemma receive_hello_promoting:
  "sentinelReceiveHelloMessages env0 ''mymaster'' RMaster (hello_message payload) state_promoting
     = hello_payload env0 ''mymaster'' RMaster (self master_promoting_seen) master_promoting_seen payload
         state_promoting_seen"
  by (simp add: sentinelReceiveHelloMessages_def hello_message_def state_promoting_def dictFetchValue_def
        get_ri_def put_ri_def Let_def master_promoting_seen_def state_promoting_seen_def)

lemma hello_sentinel_promoting:
  "hello_sentinel env0 ''10.0.0.2'' 26379 ''3ab8d1f86e5c4f0e9a7b2d6c1e8f4a5b7c9d0e1f''
       master_promoting_seen state_promoting_seen
     = (Some ''10.0.0.2:26379'', master_promoting_seen, state_promoting_seen)"
  by (simp add: hello_sentinel_def getSentinelRedisInstanceByAddrAndRunID_def master_promoting_seen_def
        master_promoting_def sentinel0_def new_instance_def)

lemma hello_epoch_9_tokens:
  "sdssplitlen hello_epoch_9 '','' =
     [''10.0.0.2'', ''26379'', ''3ab8d1f86e5c4f0e9a7b2d6c1e8f4a5b7c9d0e1f'', ''1'', ''9'', ''mymaster'',
      ''10.0.0.5'', ''6379'', ''9'']"
  "\<not> strstr_found hello_epoch_9 (server_runid env0)"
  "strtoull env0 ''9'' = 9"
  by (simp_all add: sdssplitlen_def hello_epoch_9_def env0_def dec_value_def isdigit_def)

lemma hello_sentinel_state_fields [simp]:
  "current_epoch (hello_sentinel_state e mk k c st) = current_epoch st"
  "tilt (hello_sentinel_state e mk k c st) = tilt st"
  by (simp_all add: hello_sentinel_state_def Let_def split: option.splits)

lemma hello_sentinel_state_masters:
  "map (\<lambda>kv. (fst kv, self (snd kv), slaves (snd kv))) (masters (hello_sentinel_state e mk k c st))
     = map (\<lambda>kv. (fst kv, self (snd kv), slaves (snd kv))) (masters st)"
  by (auto simp: hello_sentinel_state_def Let_def dictFetchValue_def put_ri_def
        intro!: map_dictSetVal_same split: option.splits)

lemma master_promoting_seen_fields:
  "config_epoch (self master_promoting_seen) = 0"
  "failover_epoch (self master_promoting_seen) = 1"
  "failover_state (self master_promoting_seen) = SENTINEL_FAILOVER_STATE_WAIT_PROMOTION"
  "flags (self master_promoting_seen) AND SRI_FAILOVER_IN_PROGRESS \<noteq> 0"
  "addr (self master_promoting_seen) = \<lparr>ip = ''10.0.0.1'', port = 6379\<rparr>"
  "map (\<lambda>kv. (fst kv, flags (snd kv))) (slaves master_promoting_seen) = [(''10.0.0.11:6379'', 514)]"
  by (simp_all add: master_promoting_seen_def master_promoting_def master0_def new_instance_def)

lemma state_promoting_seen_fields:
  "masters state_promoting_seen = [(''mymaster'', master_promoting_seen)]"
  "current_epoch state_promoting_seen = 1"
  "tilt state_promoting_seen = False"
  by (simp_all add: state_promoting_seen_def state0_def)

lemma promoting_hello_masters:
  "map (\<lambda>kv. (fst kv, self (snd kv), slaves (snd kv))) (masters state_promoting_hello)
     = [(''mymaster'', (self master_promoting_seen)\<lparr>config_epoch := 9\<rparr>, slaves master_promoting_seen)]"
  unfolding state_promoting_hello_def receive_hello_promoting
  by (simp add: hello_payload_def hello_epoch_9_tokens hello_numbers hello_sentinel_promoting Let_def
        hello_sentinel_state_masters hello_master_config_def sentinelGetMasterByName_def
        dictFetchValue_def state_promoting_seen_fields master_promoting_seen_fields)

lemma promoting_hello_fields:
  "current_epoch state_promoting_hello = 9"
  "tilt state_promoting_hello = False"
  unfolding state_promoting_hello_def receive_hello_promoting
  by (simp_all add: hello_payload_def hello_epoch_9_tokens hello_numbers hello_sentinel_promoting Let_def
        hello_master_config_def sentinelGetMasterByName_def
        dictFetchValue_def state_promoting_seen_fields master_promoting_seen_fields)

lemma info_run_id_frame [simp]:
  "masters (snd (info_run_id m r l x)) = masters (snd x)"
  "current_epoch (snd (info_run_id m r l x)) = current_epoch (snd x)"
  "tilt (snd (info_run_id m r l x)) = tilt (snd x)"
  by (simp_all add: info_run_id_def Let_def split: option.splits)

lemma info_slave_line_frame [simp]:
  "masters (snd (info_slave_line e r l ri x)) = masters (snd x)"
  "current_epoch (snd (info_slave_line e r l ri x)) = current_epoch (snd x)"
  "tilt (snd (info_slave_line e r l ri x)) = tilt (snd x)"
  by (simp_all add: info_slave_line_def Let_def split: option.splits sum.splits prod.splits)

lemma info_line_frame [simp]:
  "masters (snd (snd (snd (info_line e r l x)))) = masters (snd (snd (snd x)))"
  "current_epoch (snd (snd (snd (info_line e r l x)))) = current_epoch (snd (snd (snd x)))"
  "tilt (snd (snd (snd (info_line e r l x)))) = tilt (snd (snd (snd x)))"
  "fst (snd (snd (info_line e r l x))) = info_role l (fst (snd (snd x)))"
  by (simp_all add: info_line_def Let_def)

lemma fold_info_line_frame [simp]:
  "masters (snd (snd (snd (fold (info_line e r) ls x)))) = masters (snd (snd (snd x)))"
  "current_epoch (snd (snd (snd (fold (info_line e r) ls x)))) = current_epoch (snd (snd (snd x)))"
  "tilt (snd (snd (snd (fold (info_line e r) ls x)))) = tilt (snd (snd (snd x)))"
  "fst (snd (snd (fold (info_line e r) ls x))) = fold info_role ls (fst (snd (snd x)))"
  by (induction ls arbitrary: x) simp_all

lemma info_slave_to_master_frame [simp]:
  "masters (snd (snd (info_slave_to_master e role x))) = masters (snd (snd x))"
  "current_epoch (snd (snd (info_slave_to_master e role x))) = current_epoch (snd (snd x))"
  "tilt (snd (snd (info_slave_to_master e role x))) = tilt (snd (snd x))"
  by (simp_all add: info_slave_to_master_def Let_def)

lemma info_fix_slave_config_frame [simp]:
  "masters (snd (snd (info_fix_slave_config e role x))) = masters (snd (snd x))"
  "current_epoch (snd (snd (info_fix_slave_config e role x))) = current_epoch (snd (snd x))"
  "tilt (snd (snd (info_fix_slave_config e role x))) = tilt (snd (snd x))"
  by (simp_all add: info_fix_slave_config_def Let_def)

lemma info_reconf_progress_frame [simp]:
  "masters (snd (snd (info_reconf_progress role x))) = masters (snd (snd x))"
  "current_epoch (snd (snd (info_reconf_progress role x))) = current_epoch (snd (snd x))"
  by (simp_all add: info_reconf_progress_def Let_def split: option.splits)

lemma sentinelRefreshInstanceInfo_frame [simp]:
  "masters (snd (sentinelRefreshInstanceInfo e r info m st)) = masters st"
  "current_epoch (snd (sentinelRefreshInstanceInfo e r info m st)) = current_epoch st"
  by (simp_all add: sentinelRefreshInstanceInfo_def Let_def split: option.splits)

lemma info_slave_to_master_promotion:
  assumes "role = SRI_MASTER" and "flags (fst x) AND SRI_SLAVE \<noteq> 0" and "\<not> tilt (snd (snd x))"
    and "flags (self (fst (snd x))) AND SRI_FAILOVER_IN_PROGRESS \<noteq> 0"
    and "failover_state (self (fst (snd x))) = SENTINEL_FAILOVER_STATE_WAIT_PROMOTION"
  shows "self (fst (snd (info_slave_to_master e role x)))
           = (self (fst (snd x)))\<lparr>config_epoch := failover_epoch (self (fst (snd x))),
                                    failover_state := SENTINEL_FAILOVER_STATE_RECONF_SLAVES,
                                    failover_state_change_time := now e\<rparr>"
  using assms by (simp add: info_slave_to_master_def Let_def)

lemma info_promotion:
  assumes "dictFetchValue (slaves m) k = Some ri" and "flags ri AND SRI_SLAVE \<noteq> 0" and "\<not> tilt st"
    and "flags (self m) AND SRI_FAILOVER_IN_PROGRESS \<noteq> 0"
    and "failover_state (self m) = SENTINEL_FAILOVER_STATE_WAIT_PROMOTION"
    and "fold info_role (sdssplitlen info [CHR 0x0D, CHR 0x0A]) 0 = SRI_MASTER"
  shows "self (fst (sentinelRefreshInstanceInfo e (RSlave k) info m st))
           = (self m)\<lparr>config_epoch := failover_epoch (self m),
                       failover_state := SENTINEL_FAILOVER_STATE_RECONF_SLAVES,
                       failover_state_change_time := now e\<rparr>"
  using assms
  by (simp add: sentinelRefreshInstanceInfo_def get_ri_def Let_def info_slave_to_master_promotion)

lemma info_callback_promotion:
  assumes "dictFetchValue (slaves m) k = Some ri" and "flags ri AND SRI_SLAVE \<noteq> 0" and "\<not> tilt st"
    and "flags (self m) AND SRI_FAILOVER_IN_PROGRESS \<noteq> 0"
    and "failover_state (self m) = SENTINEL_FAILOVER_STATE_WAIT_PROMOTION"
    and "fold info_role (sdssplitlen info [CHR 0x0D, CHR 0x0A]) 0 = SRI_MASTER"
  shows "self (fst (sentinelInfoReplyCallback e (RSlave k) (Some (REDIS_REPLY_STRING info)) m st))
           = (self m)\<lparr>config_epoch := failover_epoch (self m),
                       failover_state := SENTINEL_FAILOVER_STATE_RECONF_SLAVES,
                       failover_state_change_time := now e\<rparr>"
proof -
  define m1 where "m1 = put_ri m (RSlave k) (ri\<lparr>pending_commands := pending_commands ri - 1\<rparr>)"
  have cb: "sentinelInfoReplyCallback e (RSlave k) (Some (REDIS_REPLY_STRING info)) m st
              = sentinelRefreshInstanceInfo e (RSlave k) info m1 st"
    using assms(1) by (simp add: sentinelInfoReplyCallback_def get_ri_def Let_def m1_def)
  have l: "dictFetchValue (slaves m1) k = Some (ri\<lparr>pending_commands := pending_commands ri - 1\<rparr>)"
    using assms(1) by (simp add: m1_def dictFetchValue_dictSetVal_same)
  have s: "self m1 = self m" by (simp add: m1_def)
  show ?thesis
    unfolding cb using info_promotion [OF l, of st info e] assms(2-6) by (simp add: s)
qed

lemma info_role_master_role:
  "fold info_role (sdssplitlen info_role_master [CHR 0x0D, CHR 0x0A]) 0 = SRI_MASTER"
  by (simp add: info_role_master_def sdssplitlen_def info_role_def)

text \<open>
  \<^bold>\<open>C2.\<close> The code on a trace of two messages. The sentinel leads a failover of epoch 1
  and waits for the promotion; the master has configuration epoch 0. A Hello message
  advertises the master with configuration epoch 9: \<^verbatim>\<open>sentinelReceiveHelloMessages\<close> raises
  the current epoch and the configuration epoch to 9 and, the port being the recorded one
  and the ip another, leaves the failover as it is. Then the promoted slave reports
  \<^verbatim>\<open>role:master\<close>: \<^verbatim>\<open>sentinelRefreshInstanceInfo\<close> assigns
  \<^verbatim>\<open>config_epoch = failover_epoch\<close> with no test, and the configuration epoch of the master
  falls from 9 to 1. (The Hello path assigns only under
  \<^verbatim>\<open>msgmaster->config_epoch < master_config_epoch\<close>.)
\<close>

theorem promotion_lowers_config_epoch:
  "epoch_view state_promoting = (1, [(''mymaster'', 0, 1, SENTINEL_FAILOVER_STATE_WAIT_PROMOTION)])
   \<and> epoch_view state_promoting_hello = (9, [(''mymaster'', 9, 1, SENTINEL_FAILOVER_STATE_WAIT_PROMOTION)])
   \<and> epoch_view state_promoting_info = (9, [(''mymaster'', 1, 1, SENTINEL_FAILOVER_STATE_RECONF_SLAVES)])"
proof -
  have a: "epoch_view state_promoting = (1, [(''mymaster'', 0, 1, SENTINEL_FAILOVER_STATE_WAIT_PROMOTION)])"
    by (simp add: epoch_view_def state_promoting_def master_promoting_def master0_def new_instance_def)
  obtain m1 where m1: "masters state_promoting_hello = [(''mymaster'', m1)]"
      and s1: "self m1 = (self master_promoting_seen)\<lparr>config_epoch := 9\<rparr>"
      and sl1: "slaves m1 = slaves master_promoting_seen"
    using promoting_hello_masters by (auto simp: map_eq_Cons_conv)
  have b: "epoch_view state_promoting_hello
             = (9, [(''mymaster'', 9, 1, SENTINEL_FAILOVER_STATE_WAIT_PROMOTION)])"
    by (simp add: epoch_view_def promoting_hello_fields m1 s1 master_promoting_seen_fields)
  obtain ri where ri: "slaves m1 = [(''10.0.0.11:6379'', ri)]" and fri: "flags ri = 514"
    using master_promoting_seen_fields(6) sl1 by (auto simp: map_eq_Cons_conv)
  have l: "dictFetchValue (slaves m1) ''10.0.0.11:6379'' = Some ri"
    by (simp add: ri dictFetchValue_def)
  have fp: "flags (self master_promoting_seen) AND 256 \<noteq> 0"
    using master_promoting_seen_fields(4) by simp
  define x where "x = sentinelInfoReplyCallback env0 (RSlave ''10.0.0.11:6379'')
                        (Some (REDIS_REPLY_STRING info_role_master)) m1 state_promoting_hello"
  have p: "self (fst x) = (self m1)\<lparr>config_epoch := failover_epoch (self m1),
                                     failover_state := SENTINEL_FAILOVER_STATE_RECONF_SLAVES,
                                     failover_state_change_time := now env0\<rparr>"
    unfolding x_def
    using info_callback_promotion [OF l, of state_promoting_hello info_role_master env0] fp
    by (simp add: fri promoting_hello_fields s1 master_promoting_seen_fields info_role_master_role)
  have fr: "masters (snd x) = masters state_promoting_hello"
      "current_epoch (snd x) = current_epoch state_promoting_hello"
    by (simp_all add: x_def sentinelInfoReplyCallback_def Let_def split: option.splits redisReply.splits)
  have st: "state_promoting_info = (snd x)\<lparr>masters := [(''mymaster'', fst x)]\<rparr>"
    by (simp add: state_promoting_info_def info_reply_of_def dictFetchValue_def m1 Let_def
          x_def [symmetric] fr)
  have c: "epoch_view state_promoting_info
             = (9, [(''mymaster'', 1, 1, SENTINEL_FAILOVER_STATE_RECONF_SLAVES)])"
    by (simp add: epoch_view_def st fr p promoting_hello_fields s1 master_promoting_seen_fields)
  show ?thesis using a b c by simp
qed

text \<open>The counter \<^verbatim>\<open>sentinel.current_epoch\<close> is a \<^verbatim>\<open>uint64_t\<close> that a Hello message can set to
  any value; \<^verbatim>\<open>sentinelStartFailover\<close> increments it with no test, so that from the largest
  value it returns to 0.\<close>

lemma start_failover_epoch_wraps:
  assumes "flags (self m) AND SRI_MASTER \<noteq> 0" and "current_epoch st = - 1"
  shows "current_epoch (snd (sentinelStartFailover e m st)) = 0"
  using sentinelStartFailover_result(6) [OF assms(1), of e st] assms(2) by simp

subsection \<open>TILT\<close>

lemma failover_fields_flags:
  "failover_fields (ri\<lparr>flags := flags ri OR SRI_DISCONNECTED\<rparr>) = failover_fields ri"
  "failover_fields (ri\<lparr>flags := flags ri AND NOT SRI_DISCONNECTED\<rparr>) = failover_fields ri"
  by (simp_all add: failover_fields_def bit.conj_disj_distrib2 word_bw_assocs)

lemma failover_fields_upd [simp]:
  "failover_fields (ri\<lparr>cc := a\<rparr>) = failover_fields ri"
  "failover_fields (ri\<lparr>pc := a\<rparr>) = failover_fields ri"
  "failover_fields (ri\<lparr>pending_commands := n\<rparr>) = failover_fields ri"
  "failover_fields (ri\<lparr>cc_conn_time := t\<rparr>) = failover_fields ri"
  "failover_fields (ri\<lparr>pc_conn_time := t\<rparr>) = failover_fields ri"
  by (simp_all add: failover_fields_def)

lemma killLink_fields [simp]: "failover_fields (sentinelKillLink c ri) = failover_fields ri"
proof (cases c)
  case CC
  have "sentinelKillLink CC ri
          = (ri\<lparr>cc := False, pending_commands := 0\<rparr>)\<lparr>flags := flags (ri\<lparr>cc := False, pending_commands := 0\<rparr>)
                                                            OR SRI_DISCONNECTED\<rparr>"
    by (simp add: sentinelKillLink_def)
  then show ?thesis using CC by (simp only: failover_fields_flags failover_fields_upd)
next
  case PC
  have "sentinelKillLink PC ri = (ri\<lparr>pc := False\<rparr>)\<lparr>flags := flags (ri\<lparr>pc := False\<rparr>) OR SRI_DISCONNECTED\<rparr>"
    by (simp add: sentinelKillLink_def)
  then show ?thesis using PC by (simp only: failover_fields_flags failover_fields_upd)
qed

lemma sendAuth_fields [simp]: "failover_fields (sentinelSendAuthIfNeeded e m c ri) = failover_fields ri"
  by (simp add: sentinelSendAuthIfNeeded_def split: option.splits)

lemma reconnect_cc_fields [simp]: "failover_fields (fst (reconnect_cc e m r x)) = failover_fields (fst x)"
  by (simp add: reconnect_cc_def Let_def)

lemma reconnect_cc_state [simp]:
  "tilt (snd (reconnect_cc e m r x)) = tilt (snd x)"
  "tilt_start_time (snd (reconnect_cc e m r x)) = tilt_start_time (snd x)"
  "current_epoch (snd (reconnect_cc e m r x)) = current_epoch (snd x)"
  "masters (snd (reconnect_cc e m r x)) = masters (snd x)"
  by (simp_all add: reconnect_cc_def Let_def)


lemma failover_fields_flags_num [simp]:
  "failover_fields (ri\<lparr>flags := flags ri OR 8\<rparr>) = failover_fields ri"
  "failover_fields (ri\<lparr>flags := flags ri AND - 9\<rparr>) = failover_fields ri"
  using failover_fields_flags [of ri] by simp_all

lemma reconnect_fields [simp]:
  "failover_fields (fst (sentinelReconnectInstance e m r ri st)) = failover_fields ri"
proof -
  have c: "failover_fields (fst (reconnect_cc e m r (ri, st))) = failover_fields ri"
    by simp
  show ?thesis
    unfolding sentinelReconnectInstance_def Let_def
    by (simp add: c del: reconnect_cc_fields)
qed

lemma reconnect_state [simp]:
  "tilt (snd (sentinelReconnectInstance e m r ri st)) = tilt st"
  "tilt_start_time (snd (sentinelReconnectInstance e m r ri st)) = tilt_start_time st"
  "current_epoch (snd (sentinelReconnectInstance e m r ri st)) = current_epoch st"
  "masters (snd (sentinelReconnectInstance e m r ri st)) = masters st"
  unfolding sentinelReconnectInstance_def Let_def by simp_all



lemma ping_fields [simp]:
  "failover_fields (sentinelPingInstance e m st ri) = failover_fields ri"
  by (simp add: sentinelPingInstance_def Let_def split: option.splits)

lemma sendSlaveOf_fields [simp]:
  "failover_fields (snd (sentinelSendSlaveOf e ri h p)) = failover_fields ri"
  by (simp add: sentinelSendSlaveOf_def Let_def failover_fields_def)

lemma info_run_id_fields [simp]:
  "failover_fields (fst (info_run_id m r l x)) = failover_fields (fst x)"
  by (simp add: info_run_id_def Let_def failover_fields_def split: option.splits)

lemma info_slave_fields_fields [simp]:
  "failover_fields (info_slave_fields e l ri) = failover_fields ri"
  by (simp add: info_slave_fields_def Let_def failover_fields_def)

lemma info_line_fields [simp]:
  "failover_fields (fst (info_line e r l x)) = failover_fields (fst x)"
proof -
  have u: "\<And>ri t. failover_fields (ri\<lparr>master_link_down_time := t\<rparr>) = failover_fields ri"
    by (simp add: failover_fields_def)
  show ?thesis by (simp add: info_line_def Let_def u)
qed

lemma fold_info_line_fields [simp]:
  "failover_fields (fst (fold (info_line e r) ls x)) = failover_fields (fst x)"
  by (induction ls arbitrary: x) simp_all

lemma info_master_to_slave_fields [simp]:
  "failover_fields (info_master_to_slave e role ri) = failover_fields ri"
  by (simp add: info_master_to_slave_def failover_fields_def)

lemma info_slave_to_master_fields [simp]:
  "failover_fields (fst (info_slave_to_master e role x)) = failover_fields (fst x)"
proof -
  have u: "\<And>ri t v. failover_fields (ri\<lparr>role_reported_time := t, role_reported := v\<rparr>) = failover_fields ri"
    by (simp add: failover_fields_def)
  show ?thesis by (simp add: info_slave_to_master_def Let_def u)
qed


lemma info_slave_to_master_tilt_events:
  "tilt (snd (snd x)) \<Longrightarrow> snd (snd (info_slave_to_master e role x)) = snd (snd x)"
  by (simp add: info_slave_to_master_def Let_def)

lemma info_fix_slave_config_fields [simp]:
  "failover_fields (fst (info_fix_slave_config e role x)) = failover_fields (fst x)"
  by (simp add: info_fix_slave_config_def Let_def)





end
